theory Spec2Isabelle
  imports Complex_Main
begin

section \<open>Numbers and random draws\<close>

text \<open>
  A TypeScript \<open>number\<close> is modelled as a real: the formulas of the simulator are read
  as exact arithmetic. A call of \<open>Math.random()\<close> is a parameter \<open>r\<close> of the function
  that makes it, a real with \<open>0 \<le> r < 1\<close>; functions that draw several times take
  one parameter per draw, in the order of the calls.
\<close>

definition clampValue :: "real \<Rightarrow> real \<Rightarrow> real \<Rightarrow> real" where
  "clampValue v lo hi = max lo (min hi v)"

text \<open>\<open>Math.round\<close>: the nearest integer, a half rounded towards plus infinity.\<close>

definition math_round :: "real \<Rightarrow> real" where
  "math_round x = of_int \<lfloor>x + 1 / 2\<rfloor>"

definition math_floor :: "real \<Rightarrow> real" where
  "math_floor x = of_int \<lfloor>x\<rfloor>"

definition rollInRange :: "real \<Rightarrow> real \<Rightarrow> real \<Rightarrow> real" where
  "rollInRange lo hi r = math_round (lo + r * (hi - lo))"

definition is_random :: "real \<Rightarrow> bool" where
  "is_random r \<longleftrightarrow> 0 \<le> r \<and> r < 1"

section \<open>Data model\<close>

record Gauge =
  value_g :: real
  max_g :: real
  color_g :: string

text \<open>
  Modelled from the spec: the type \<open>MentorStats\<close> is declared in \<open>logic/gameState\<close>,
  which is not among the sources. The fields are the ones \<open>App.tsx\<close> reads: four gauges
  with a current value and a maximum, the funding, the reputation and the date.
\<close>

record MentorStats =
  morale :: Gauge
  academia :: Gauge
  admin :: Gauge
  integrity :: Gauge
  funding :: real
  reputation :: real
  year :: real
  quarter :: real

text \<open>A \<open>Partial\<close> type: an absent field is \<open>None\<close>.\<close>

record StatDelta =
  morale_d :: "real option"
  academia_d :: "real option"
  admin_d :: "real option"
  integrity_d :: "real option"
  funding_d :: "real option"
  reputation_d :: "real option"

record StudentDelta =
  diligence_d :: "real option"
  talent_d :: "real option"
  luck_d :: "real option"
  stress_d :: "real option"
  mentalState_d :: "real option"
  contribution_d :: "real option"
  pendingPapers_d :: "real option"
  totalPapers_d :: "real option"

record StudentPersona =
  id_s :: string
  name_s :: string
  studentType :: string
  year_s :: real
  diligence :: real
  stress :: real
  talent :: real
  luck :: real
  hiddenLuck :: real
  contribution :: real
  pendingPapers :: real
  totalPapers :: real
  mentalState :: real
  isBeingMentored :: bool
  isGenius :: bool
  recruitedYear :: real
  isYoungTeacher :: bool
  personality :: string
  bio :: string
  traits :: "string list"
  whipReactions :: "string list \<times> string list"
  comfortReactions :: "string list \<times> string list"
  department :: string
  mentorId :: "string option"
  hasWhippedThisQuarter :: "bool option"
  hasComfortedThisQuarter :: "bool option"
  isLoadingPersona :: "bool option"

section \<open>Stat and delta model\<close>

text \<open>
  \<open>delta.morale ? ... : ...\<close> tests the truthiness of an optional number: the
  field is present and not zero.
\<close>

definition truthy :: "real option \<Rightarrow> bool" where
  "truthy x = (case x of None \<Rightarrow> False | Some v \<Rightarrow> v \<noteq> 0)"

definition applyMentorDelta :: "MentorStats \<Rightarrow> StatDelta \<Rightarrow> MentorStats" where
  "applyMentorDelta stats delta = stats
     \<lparr> morale :=
         (if truthy (morale_d delta)
          then (morale stats)\<lparr> value_g :=
            clampValue (value_g (morale stats) + the (morale_d delta)) 0 (max_g (morale stats)) \<rparr>
          else morale stats),
       academia :=
         (if truthy (academia_d delta)
          then (academia stats)\<lparr> value_g :=
            clampValue (value_g (academia stats) + the (academia_d delta)) 0 (max_g (academia stats)) \<rparr>
          else academia stats),
       admin :=
         (if truthy (admin_d delta)
          then (admin stats)\<lparr> value_g :=
            clampValue (value_g (admin stats) + the (admin_d delta)) 0 (max_g (admin stats)) \<rparr>
          else admin stats),
       integrity :=
         (if truthy (integrity_d delta)
          then (integrity stats)\<lparr> value_g :=
            clampValue (value_g (integrity stats) + the (integrity_d delta)) 0 (max_g (integrity stats)) \<rparr>
          else integrity stats),
       funding :=
         (if truthy (funding_d delta)
          then max (funding stats + the (funding_d delta)) 0
          else funding stats),
       reputation :=
         (if truthy (reputation_d delta)
          then reputation stats + the (reputation_d delta)
          else reputation stats) \<rparr>"

definition applyStudentDelta :: "StudentPersona \<Rightarrow> StudentDelta \<Rightarrow> StudentPersona" where
  "applyStudentDelta student delta = student
     \<lparr> diligence :=
         (case diligence_d delta of None \<Rightarrow> diligence student
          | Some d \<Rightarrow> clampValue (diligence student + d) 0 100),
       talent :=
         (case talent_d delta of None \<Rightarrow> talent student
          | Some d \<Rightarrow> clampValue (talent student + d) 0 100),
       luck :=
         (case luck_d delta of None \<Rightarrow> luck student
          | Some d \<Rightarrow> clampValue (luck student + d) 0 100),
       stress :=
         (case stress_d delta of None \<Rightarrow> stress student
          | Some d \<Rightarrow> clampValue (stress student + d) 0 100),
       mentalState :=
         (case mentalState_d delta of None \<Rightarrow> mentalState student
          | Some d \<Rightarrow> clampValue (mentalState student + d) 0 100),
       contribution :=
         (case contribution_d delta of None \<Rightarrow> contribution student
          | Some d \<Rightarrow> clampValue (contribution student + d) 0 100),
       pendingPapers :=
         (case pendingPapers_d delta of None \<Rightarrow> pendingPapers student
          | Some d \<Rightarrow> max (pendingPapers student + d) 0),
       totalPapers :=
         (case totalPapers_d delta of None \<Rightarrow> totalPapers student
          | Some d \<Rightarrow> max (totalPapers student + d) 0) \<rparr>"

text \<open>The bounds of the data model: a gauge within \<open>[0, max]\<close>, a student attribute
  within \<open>[0, 100]\<close>, funding and the paper counters not negative.\<close>

definition gauge_ok :: "Gauge \<Rightarrow> bool" where
  "gauge_ok g \<longleftrightarrow> 0 \<le> value_g g \<and> value_g g \<le> max_g g"

definition mentor_ok :: "MentorStats \<Rightarrow> bool" where
  "mentor_ok stats \<longleftrightarrow>
     gauge_ok (morale stats) \<and> gauge_ok (academia stats) \<and> gauge_ok (admin stats) \<and>
     gauge_ok (integrity stats) \<and> 0 \<le> funding stats"

definition attr_ok :: "real \<Rightarrow> bool" where
  "attr_ok v \<longleftrightarrow> 0 \<le> v \<and> v \<le> 100"

definition student_ok :: "StudentPersona \<Rightarrow> bool" where
  "student_ok s \<longleftrightarrow>
     attr_ok (diligence s) \<and> attr_ok (talent s) \<and> attr_ok (luck s) \<and> attr_ok (stress s) \<and>
     attr_ok (mentalState s) \<and> attr_ok (contribution s) \<and>
     0 \<le> pendingPapers s \<and> 0 \<le> totalPapers s"

text \<open>Sample values used to instantiate the theorems below.\<close>

definition demo_gauge :: "real \<Rightarrow> Gauge" where
  "demo_gauge v = \<lparr> value_g = v, max_g = 100, color_g = ''#1d4ed8'' \<rparr>"

definition demo_stats :: MentorStats where
  "demo_stats = \<lparr> morale = demo_gauge 60, academia = demo_gauge 52, admin = demo_gauge 40,
     integrity = demo_gauge 10, funding = 50000, reputation = 3, year = 2, quarter = 3 \<rparr>"

definition demo_student :: "string \<Rightarrow> StudentPersona" where
  "demo_student i = \<lparr> id_s = i, name_s = ''Wang'', studentType = ''MASTER'', year_s = 1,
     diligence = 72, stress = 18, talent = 66, luck = 58, hiddenLuck = 82, contribution = 12,
     pendingPapers = 2, totalPapers = 0, mentalState = 96, isBeingMentored = False,
     isGenius = False, recruitedYear = 1, isYoungTeacher = False, personality = [],
     bio = [], traits = [], whipReactions = ([], []), comfortReactions = ([], []),
     department = [], mentorId = None, hasWhippedThisQuarter = None,
     hasComfortedThisQuarter = None, isLoadingPersona = Some False \<rparr>"

definition demo_stat_delta :: StatDelta where
  "demo_stat_delta = \<lparr> morale_d = Some 1000000, academia_d = Some (- 1000000), admin_d = None,
     integrity_d = Some 0, funding_d = Some (- 99999999), reputation_d = Some (- 500) \<rparr>"

definition demo_student_delta :: StudentDelta where
  "demo_student_delta = \<lparr> diligence_d = Some 1000000, talent_d = Some (- 1000000),
     luck_d = None, stress_d = Some 0, mentalState_d = Some 5, contribution_d = None,
     pendingPapers_d = Some (- 1), totalPapers_d = Some 1 \<rparr>"

section \<open>Projects, papers, grants and decisions\<close>

datatype ProjectCategory = SchoolProject | IndustryCooperation | FreeExploration

record ProjectProgress =
  literature_r :: real
  experiment_r :: real
  results_r :: real

record ResearchProject =
  id_r :: string
  title_r :: string
  category_r :: ProjectCategory
  progress :: ProjectProgress
  assignedStudentIds_r :: "string list"
  createdYear_r :: real
  createdQuarter_r :: real
  completed :: bool

datatype PaperVenueType = Conference | Journal

text \<open>\<open>PaperVenueTier\<close> and \<open>GrantFundingTier\<close> are the same three letters.\<close>

datatype Tier = TierA | TierB | TierC

datatype ProjectPaperStatus = AwaitingVenue | UnderReview | AwaitingRevision | Accepted | Rejected

datatype RevisionKind = Minor | Major

record ProjectPaper =
  id_p :: string
  projectId :: string
  projectTitle :: string
  leadStudentId :: "string option"
  grantId :: "string option"
  venueType :: "PaperVenueType option"
  venueTier :: "Tier option"
  status_p :: ProjectPaperStatus
  submittedYear :: "real option"
  submittedQuarter :: "real option"
  decisionDueYear :: "real option"
  decisionDueQuarter :: "real option"
  revisionRound :: real
  lastRevisionKind :: "RevisionKind option"

text \<open>The two grant types, the national natural science and the national social science
  foundation.\<close>

datatype GrantType = NaturalScience | SocialScience

datatype GrantStatus = GReviewing | GActive | GCompleted | GRejected | GFailed

record GrantRequirement =
  requiredSubmissions :: nat
  requiredAccepted :: nat
  requiredTopTierAtLeast :: "Tier option"

record GrantState =
  id_g :: string
  type_g :: GrantType
  title_g :: string
  appliedYear :: real
  appliedQuarter :: real
  reviewEndYear :: real
  reviewEndQuarter :: real
  status_g :: GrantStatus
  baseScore :: real
  scoreDelta :: real
  luck_g :: real
  lastReviewEventYear :: "real option"
  lastReviewEventQuarter :: "real option"
  lastExecutionEventYear :: "real option"
  lastExecutionEventQuarter :: "real option"
  tier_g :: "Tier option"
  fundingGranted :: "real option"
  reputationGranted :: "real option"
  activeStartYear :: "real option"
  activeStartQuarter :: "real option"
  closureDueYear :: "real option"
  closureDueQuarter :: "real option"
  assignedStudentIds_g :: "string list"
  paperProgress :: real
  paperIds :: "string list"

record ScoreBands =
  rejectBelow :: real
  tierB :: real
  tierA :: real

record TierConfig =
  funding_t :: real
  reputationRange :: "real \<times> real"
  requirement :: GrantRequirement

record GrantConfig =
  type_c :: GrantType
  openQuarter :: real
  reviewOffsetQuarters :: real
  executionDurationQuarters :: real
  scoreBands :: ScoreBands
  tiers :: "Tier \<Rightarrow> TierConfig"
  reviewEventChance :: real
  executionEventChance :: real

text \<open>
  The \<open>meta\<close> of an option is a \<open>Record<string, unknown>\<close>: a list of keys with
  untyped values, read with \<open>typeof\<close> tests.
\<close>

datatype JsValue = JNum real | JStr string | JBool bool

record Effects =
  stats_e :: "StatDelta option"
  student_e :: "StudentDelta option"

record DecisionOption =
  id_o :: string
  label :: string
  hint :: "string option"
  outcome :: string
  effects :: "Effects option"
  meta :: "(string \<times> JsValue) list"

text \<open>The tagged union \<open>DecisionEvent\<close>: the kind is the constructor of the context.\<close>

datatype DecisionContext =
    ProjectVenue string string
  | ProjectRevision string string RevisionKind
  | GrantReviewEvent string
  | GrantExecutionEvent string
  | StudentPaperEvent string
  | QuarterEvent "string option"

record DecisionEvent =
  id_d :: string
  title_d :: string
  prompt :: string
  options :: "DecisionOption list"
  createdYear :: real
  createdQuarter :: real
  context_d :: DecisionContext

datatype GrantDecisionRequest =
    GrantReviewRequest GrantState real real
  | GrantExecutionRequest GrantState real real

text \<open>
  A log entry is a title and a detail text built from a template. The entries are kept
  as tagged values that hold what the template interpolates; the wording is left out.
\<close>

datatype LogEvent =
    PaperSubmittedLog string real
  | PaperAcceptedLog string "PaperVenueType option" "Tier option" real real
  | PaperRevisionLog string "PaperVenueType option" "Tier option" RevisionKind
  | PaperRejectedLog string "PaperVenueType option" "Tier option"
  | PaperTodoLog string
  | GrantReviewLetterLog string
  | GrantRejectedLog string real
  | GrantApprovedLog string Tier real real
  | GrantOutputLog string real
  | GrantExecutionLog string
  | GrantClosedLog string nat nat
  | GrantClosureFailedLog string nat nat nat nat
  | TeamChangeLog string
  | TextLog string string

section \<open>Quarter stamps\<close>

record Stamp =
  year_q :: real
  quarter_q :: real

definition toQuarterIndex :: "real \<Rightarrow> real \<Rightarrow> real" where
  "toQuarterIndex y q = (y - 1) * 4 + (q - 1)"

text \<open>The remainder operator of JavaScript: the quotient is truncated towards zero, so
  the result takes the sign of the dividend.\<close>

definition js_trunc :: "real \<Rightarrow> real" where
  "js_trunc x = (if x < 0 then of_int \<lceil>x\<rceil> else of_int \<lfloor>x\<rfloor>)"

definition js_rem :: "real \<Rightarrow> real \<Rightarrow> real" where
  "js_rem a b = a - b * js_trunc (a / b)"

definition addQuarters :: "Stamp \<Rightarrow> real \<Rightarrow> Stamp" where
  "addQuarters stamp offset =
     (let base = toQuarterIndex (year_q stamp) (quarter_q stamp);
          next = base + offset;
          nextYear = math_floor (next / 4) + 1;
          nextQuarter = js_rem next 4 + 1
      in \<lparr> year_q = nextYear, quarter_q = nextQuarter \<rparr>)"

definition isQuarterReached :: "Stamp \<Rightarrow> Stamp \<Rightarrow> bool" where
  "isQuarterReached current target \<longleftrightarrow>
     toQuarterIndex (year_q current) (quarter_q current)
       \<ge> toQuarterIndex (year_q target) (quarter_q target)"

section \<open>Grant lifecycle\<close>

definition tierConfig :: "real \<Rightarrow> real \<times> real \<Rightarrow> nat \<Rightarrow> nat \<Rightarrow> Tier option \<Rightarrow> TierConfig" where
  "tierConfig f rng subs accepted topTier =
     \<lparr> funding_t = f, reputationRange = rng,
       requirement = \<lparr> requiredSubmissions = subs, requiredAccepted = accepted,
                       requiredTopTierAtLeast = topTier \<rparr> \<rparr>"

definition grantConfigs :: "GrantConfig list" where
  "grantConfigs =
     [ \<lparr> type_c = NaturalScience, openQuarter = 1, reviewOffsetQuarters = 2,
         executionDurationQuarters = 6,
         scoreBands = \<lparr> rejectBelow = 55, tierB = 65, tierA = 80 \<rparr>,
         tiers = (\<lambda>t. case t of
             TierA \<Rightarrow> tierConfig 300000 (4, 7) 3 2 (Some TierB)
           | TierB \<Rightarrow> tierConfig 200000 (2, 4) 2 1 None
           | TierC \<Rightarrow> tierConfig 120000 (1, 3) 1 0 None),
         reviewEventChance = 75 / 100, executionEventChance = 6 / 10 \<rparr>,
       \<lparr> type_c = SocialScience, openQuarter = 2, reviewOffsetQuarters = 2,
         executionDurationQuarters = 6,
         scoreBands = \<lparr> rejectBelow = 55, tierB = 65, tierA = 80 \<rparr>,
         tiers = (\<lambda>t. case t of
             TierA \<Rightarrow> tierConfig 240000 (3, 6) 3 2 (Some TierB)
           | TierB \<Rightarrow> tierConfig 160000 (2, 4) 2 1 None
           | TierC \<Rightarrow> tierConfig 90000 (1, 3) 1 0 None),
         reviewEventChance = 75 / 100, executionEventChance = 6 / 10 \<rparr> ]"

definition getGrantConfig :: "GrantType \<Rightarrow> GrantConfig option" where
  "getGrantConfig t = find (\<lambda>config. type_c config = t) grantConfigs"

text \<open>The truthiness of an optional string: present and not empty.\<close>

definition truthy_str :: "string option \<Rightarrow> bool" where
  "truthy_str x = (case x of None \<Rightarrow> False | Some v \<Rightarrow> v \<noteq> [])"

definition sum_by :: "('a \<Rightarrow> real) \<Rightarrow> 'a list \<Rightarrow> real" where
  "sum_by f xs = foldl (\<lambda>sum x. sum + f x) 0 xs"

definition calcGrantPaperProgressGain ::
  "StudentPersona list \<Rightarrow> MentorStats \<Rightarrow> Tier option \<Rightarrow> real \<Rightarrow> real" where
  "calcGrantPaperProgressGain students mentorStats tier jitterRoll =
     (let mentorBoost = math_round (value_g (academia mentorStats) / 30)
                      + math_round (value_g (admin mentorStats) / 60)
      in if students = [] then clampValue (2 + mentorBoost) 2 8
         else
          (let base = 12;
               boost = sum_by (\<lambda>student. math_round (diligence student / 20)
                                         + math_round (talent student / 25)) students;
               stressPenalty = sum_by (\<lambda>student. math_round (stress student / 50)) students;
               mentalPenalty = sum_by (\<lambda>student. if mentalState student < 50 then 1 else 0) students;
               tierBoost = (if tier = Some TierA then 4 else if tier = Some TierB then 2 else 0);
               jitter = rollInRange (- 2) 2 jitterRoll
           in clampValue (base + boost + tierBoost + mentorBoost + jitter
                            - stressPenalty - mentalPenalty) 4 50))"

datatype StatKey = KMorale | KAcademia | KAdmin | KIntegrity | KFunding | KReputation

definition emptyStatDelta :: StatDelta where
  "emptyStatDelta = \<lparr> morale_d = None, academia_d = None, admin_d = None,
     integrity_d = None, funding_d = None, reputation_d = None \<rparr>"

definition orZero :: "real option \<Rightarrow> real" where
  "orZero x = (case x of None \<Rightarrow> 0 | Some v \<Rightarrow> v)"

text \<open>\<open>statDelta[key] = (statDelta[key] ?? 0) + amount\<close>\<close>

fun bumpStatDelta :: "StatKey \<Rightarrow> real \<Rightarrow> StatDelta \<Rightarrow> StatDelta" where
  "bumpStatDelta KMorale amount sd = sd\<lparr> morale_d := Some (orZero (morale_d sd) + amount) \<rparr>"
| "bumpStatDelta KAcademia amount sd = sd\<lparr> academia_d := Some (orZero (academia_d sd) + amount) \<rparr>"
| "bumpStatDelta KAdmin amount sd = sd\<lparr> admin_d := Some (orZero (admin_d sd) + amount) \<rparr>"
| "bumpStatDelta KIntegrity amount sd = sd\<lparr> integrity_d := Some (orZero (integrity_d sd) + amount) \<rparr>"
| "bumpStatDelta KFunding amount sd = sd\<lparr> funding_d := Some (orZero (funding_d sd) + amount) \<rparr>"
| "bumpStatDelta KReputation amount sd = sd\<lparr> reputation_d := Some (orZero (reputation_d sd) + amount) \<rparr>"

text \<open>The \<open>addStatDelta\<close> of \<open>settleGrants\<close> skips an amount of zero.\<close>

definition addStatDelta_g :: "StatKey \<times> real \<Rightarrow> StatDelta \<Rightarrow> StatDelta" where
  "addStatDelta_g kv sd = (if snd kv = 0 then sd else bumpStatDelta (fst kv) (snd kv) sd)"

definition studentScore :: "StudentPersona \<Rightarrow> real" where
  "studentScore s = diligence s + talent s"

text \<open>\<open>pool.reduce((best, current) => currentScore > bestScore ? current : best)\<close>\<close>

definition bestStudent :: "StudentPersona \<Rightarrow> StudentPersona list \<Rightarrow> StudentPersona" where
  "bestStudent first rest =
     foldl (\<lambda>best current. if studentScore current > studentScore best then current else best)
       first rest"

definition findStudents :: "StudentPersona list \<Rightarrow> string list \<Rightarrow> StudentPersona list" where
  "findStudents students ids =
     List.map_filter (\<lambda>i. find (\<lambda>student. id_s student = i) students) ids"

definition pickLeadStudentId :: "StudentPersona list \<Rightarrow> string list \<Rightarrow> string option" where
  "pickLeadStudentId students candidateIds =
     (case findStudents students candidateIds of
        [] \<Rightarrow> None
      | p # pool \<Rightarrow> Some (id_s (bestStudent p pool)))"

definition pickFallbackLeadId :: "StudentPersona list \<Rightarrow> string option" where
  "pickFallbackLeadId students =
     (case students of [] \<Rightarrow> None | p # pool \<Rightarrow> Some (id_s (bestStudent p pool)))"

text \<open>
  What one grant adds to the accumulators of a settlement pass, in the order of the
  calls: the \<open>addStatDelta\<close> calls, the decisions, the decision requests, the log
  entries and the papers created.
\<close>

record GrantOut =
  statCalls :: "(StatKey \<times> real) list"
  decisions_o :: "DecisionEvent list"
  decisionRequests_o :: "GrantDecisionRequest list"
  events_o :: "LogEvent list"
  newPapers_o :: "ProjectPaper list"

definition noOut :: GrantOut where
  "noOut = \<lparr> statCalls = [], decisions_o = [], decisionRequests_o = [], events_o = [],
     newPapers_o = [] \<rparr>"

text \<open>
  The random draws that the settlement of one grant can make, and the identifiers
  (built from the clock and a random suffix) of the papers it creates.
\<close>

record GrantDraws =
  luckRoll :: real
  reviewEventRoll :: real
  repRoll :: real
  jitterRoll :: real
  executionEventRoll :: real
  freshPaperId :: "nat \<Rightarrow> string"

definition option_meta ::
  "PaperVenueType \<Rightarrow> Tier \<Rightarrow> real \<Rightarrow> real \<Rightarrow> real \<Rightarrow> (string \<times> JsValue) list" where
  "option_meta vt tier rq rep fund =
     [ (''venueType'', JStr (case vt of Conference \<Rightarrow> ''conference'' | Journal \<Rightarrow> ''journal'')),
       (''venueTier'', JStr (case tier of TierA \<Rightarrow> ''A'' | TierB \<Rightarrow> ''B'' | TierC \<Rightarrow> ''C'')),
       (''reviewQuarters'', JNum rq), (''reputationReward'', JNum rep),
       (''fundingReward'', JNum fund) ]"

definition statEffects :: "real option \<Rightarrow> real option \<Rightarrow> Effects option" where
  "statEffects f m =
     Some \<lparr> stats_e = Some (emptyStatDelta\<lparr> funding_d := f, morale_d := m \<rparr>),
            student_e = None \<rparr>"

text \<open>The texts shown to the player are given in English.\<close>

definition buildProjectVenueDecision ::
  "string \<Rightarrow> string \<Rightarrow> string \<Rightarrow> real \<Rightarrow> real \<Rightarrow> DecisionEvent" where
  "buildProjectVenueDecision projectPaperId pId pTitle y q =
     \<lparr> id_d = ''dec-project-venue-'' @ projectPaperId,
       title_d = ''Submission strategy'',
       prompt = ''Choose the venue tier for the results of '' @ pTitle,
       options =
         [ \<lparr> id_o = ''conf-a'', label = ''Top conference (A)'',
             hint = Some ''high risk, high reward, fast result'',
             outcome = ''Top conference track locked.'',
             effects = statEffects (Some (- 6000)) (Some (- 1)),
             meta = option_meta Conference TierA 1 3 12000 \<rparr>,
           \<lparr> id_o = ''jour-b'', label = ''First-zone journal (B)'',
             hint = Some ''steady, longer cycle'',
             outcome = ''First-zone journal chosen.'',
             effects = statEffects (Some (- 4500)) (Some (- 1)),
             meta = option_meta Journal TierB 2 2 8000 \<rparr>,
           \<lparr> id_o = ''safe-c'', label = ''Safe venue (C)'',
             hint = Some ''higher success rate, lower reward'',
             outcome = ''Land the results safely first.'',
             effects = statEffects (Some (- 2000)) (Some 0),
             meta = option_meta Conference TierC 1 1 5000 \<rparr> ],
       createdYear = y, createdQuarter = q,
       context_d = ProjectVenue projectPaperId pId \<rparr>"

definition buildGrantPaper :: "Stamp \<Rightarrow> string \<Rightarrow> GrantState \<Rightarrow> string option \<Rightarrow> ProjectPaper \<times> GrantOut" where
  "buildGrantPaper decisionStamp newId grant leadId =
     (let paper = \<lparr> id_p = newId, projectId = ''grant-'' @ id_g grant,
                     projectTitle = title_g grant, leadStudentId = leadId,
                     grantId = Some (id_g grant), venueType = None, venueTier = None,
                     status_p = AwaitingVenue, submittedYear = None, submittedQuarter = None,
                     decisionDueYear = None, decisionDueQuarter = None, revisionRound = 0,
                     lastRevisionKind = None \<rparr>
      in (paper,
          noOut\<lparr> newPapers_o := [paper],
                 decisions_o := [buildProjectVenueDecision (id_p paper) (projectId paper)
                                   (projectTitle paper) (year_q decisionStamp)
                                   (quarter_q decisionStamp)],
                 events_o := [PaperTodoLog (projectTitle paper)] \<rparr>))"

definition appendOut :: "GrantOut \<Rightarrow> GrantOut \<Rightarrow> GrantOut" where
  "appendOut a b =
     \<lparr> statCalls = statCalls a @ statCalls b,
       decisions_o = decisions_o a @ decisions_o b,
       decisionRequests_o = decisionRequests_o a @ decisionRequests_o b,
       events_o = events_o a @ events_o b,
       newPapers_o = newPapers_o a @ newPapers_o b \<rparr>"

definition sameStamp :: "real option \<Rightarrow> real option \<Rightarrow> Stamp \<Rightarrow> bool" where
  "sameStamp y q stamp \<longleftrightarrow> y = Some (year_q stamp) \<and> q = Some (quarter_q stamp)"

text \<open>The branch \<open>grant.status === 'reviewing'\<close> of the callback of \<open>settleGrants\<close>.\<close>

definition settleReviewingGrant ::
  "GrantConfig \<Rightarrow> StudentPersona list \<Rightarrow> Stamp \<Rightarrow> Stamp \<Rightarrow> GrantDraws \<Rightarrow> GrantState
     \<Rightarrow> GrantState \<times> GrantOut" where
  "settleReviewingGrant config students currentStamp decisionStamp draws grant =
     (let reviewEndStamp = \<lparr> year_q = reviewEndYear grant, quarter_q = reviewEndQuarter grant \<rparr>;
          luckTick = rollInRange (- 3) 3 (luckRoll draws);
          nextGrant = grant\<lparr> luck_g := luck_g grant + luckTick \<rparr>
      in if \<not> isQuarterReached currentStamp reviewEndStamp then
           (let alreadyQueued = sameStamp (lastReviewEventYear nextGrant)
                                  (lastReviewEventQuarter nextGrant) decisionStamp
            in if \<not> alreadyQueued \<and> reviewEventRoll draws < reviewEventChance config then
                 (nextGrant\<lparr> lastReviewEventYear := Some (year_q decisionStamp),
                              lastReviewEventQuarter := Some (quarter_q decisionStamp) \<rparr>,
                  noOut\<lparr> decisionRequests_o :=
                           [GrantReviewRequest nextGrant (year_q decisionStamp)
                              (quarter_q decisionStamp)],
                         events_o := [GrantReviewLetterLog (title_g grant)] \<rparr>)
               else (nextGrant, noOut))
         else
           (let finalScore = baseScore nextGrant + scoreDelta nextGrant + luck_g nextGrant
            in if finalScore < rejectBelow (scoreBands config) then
                 (nextGrant\<lparr> status_g := GRejected \<rparr>,
                  noOut\<lparr> events_o := [GrantRejectedLog (title_g grant) finalScore] \<rparr>)
               else
                 (let tier = (if finalScore \<ge> tierA (scoreBands config) then TierA
                              else if finalScore \<ge> tierB (scoreBands config) then TierB
                              else TierC);
                      tierConfig = tiers config tier;
                      repGain = rollInRange (fst (reputationRange tierConfig))
                                  (snd (reputationRange tierConfig)) (repRoll draws);
                      closureDue = addQuarters decisionStamp (executionDurationQuarters config - 1);
                      autoLeadId = (if assignedStudentIds_g nextGrant \<noteq> []
                                    then pickLeadStudentId students (assignedStudentIds_g nextGrant)
                                    else pickFallbackLeadId students);
                      resolvedAssigned =
                        (if assignedStudentIds_g nextGrant \<noteq> [] \<or> \<not> truthy_str autoLeadId
                         then assignedStudentIds_g nextGrant else [the autoLeadId]);
                      built = buildGrantPaper decisionStamp (freshPaperId draws 0)
                                (nextGrant\<lparr> assignedStudentIds_g := resolvedAssigned \<rparr>) autoLeadId;
                      firstPaper = fst built
                  in (nextGrant\<lparr> status_g := GActive,
                                 tier_g := Some tier,
                                 fundingGranted := Some (funding_t tierConfig),
                                 reputationGranted := Some repGain,
                                 activeStartYear := Some (year_q decisionStamp),
                                 activeStartQuarter := Some (quarter_q decisionStamp),
                                 closureDueYear := Some (year_q closureDue),
                                 closureDueQuarter := Some (quarter_q closureDue),
                                 assignedStudentIds_g := resolvedAssigned,
                                 paperProgress := 0,
                                 paperIds := paperIds nextGrant @ [id_p firstPaper] \<rparr>,
                      appendOut
                        (appendOut
                           (noOut\<lparr> statCalls := [(KFunding, funding_t tierConfig),
                                                   (KReputation, repGain)] \<rparr>)
                           (snd built))
                        (noOut\<lparr> events_o := [GrantApprovedLog (title_g grant) tier
                                                 (funding_t tierConfig) repGain] \<rparr>)))))"

definition paperTierRank :: "Tier \<Rightarrow> nat" where
  "paperTierRank t = (case t of TierA \<Rightarrow> 3 | TierB \<Rightarrow> 2 | TierC \<Rightarrow> 1)"

definition isVenueTierAtLeast :: "Tier option \<Rightarrow> Tier \<Rightarrow> bool" where
  "isVenueTierAtLeast tier floor_t =
     (case tier of None \<Rightarrow> False | Some t \<Rightarrow> paperTierRank t \<ge> paperTierRank floor_t)"

text \<open>The loop \<open>for (let i = 0; i < draftedCount; i += 1)\<close> of the active branch: the
  papers left to draft, the index of the next one, the grant and the output so far.\<close>

fun draftPapers ::
  "Stamp \<Rightarrow> (nat \<Rightarrow> string) \<Rightarrow> string option \<Rightarrow> nat \<Rightarrow> nat \<Rightarrow> GrantState \<times> GrantOut
     \<Rightarrow> GrantState \<times> GrantOut" where
  "draftPapers decisionStamp fresh leadId 0 i acc = acc"
| "draftPapers decisionStamp fresh leadId (Suc n) i (nextGrant, out) =
     (let built = buildGrantPaper decisionStamp (fresh i) nextGrant leadId
      in draftPapers decisionStamp fresh leadId n (Suc i)
           (nextGrant\<lparr> paperIds := paperIds nextGrant @ [id_p (fst built)] \<rparr>,
            appendOut out (snd built)))"

text \<open>The branch \<open>grant.status === 'active'\<close>.\<close>

definition settleActiveGrant ::
  "GrantConfig \<Rightarrow> StudentPersona list \<Rightarrow> MentorStats \<Rightarrow> ProjectPaper list \<Rightarrow> Stamp \<Rightarrow> Stamp
     \<Rightarrow> GrantDraws \<Rightarrow> GrantState \<Rightarrow> GrantState \<times> GrantOut" where
  "settleActiveGrant config students mentorStats projectPapers currentStamp decisionStamp draws grant =
     (let closureDueStamp =
            (if truthy (closureDueYear grant) \<and> truthy (closureDueQuarter grant)
             then Some \<lparr> year_q = the (closureDueYear grant),
                         quarter_q = the (closureDueQuarter grant) \<rparr>
             else None);
          assigned = findStudents students (assignedStudentIds_g grant);
          gain = calcGrantPaperProgressGain assigned mentorStats (tier_g grant) (jitterRoll draws);
          combinedProgress = clampValue (paperProgress grant + gain) 0 250;
          draftedCount = math_floor (combinedProgress / 100);
          remainder = combinedProgress - draftedCount * 100;
          nextGrant0 = grant\<lparr> paperProgress := remainder \<rparr>;
          resolvedLeadId = (if assignedStudentIds_g grant \<noteq> []
                            then pickLeadStudentId students (assignedStudentIds_g grant)
                            else pickFallbackLeadId students);
          nextGrant1 = (if assignedStudentIds_g grant = [] \<and> truthy_str resolvedLeadId
                        then nextGrant0\<lparr> assignedStudentIds_g := [the resolvedLeadId] \<rparr>
                        else nextGrant0);
          drafted = (if draftedCount > 0
                     then (let d = draftPapers decisionStamp (freshPaperId draws) resolvedLeadId
                                     (nat \<lfloor>draftedCount\<rfloor>) 0 (nextGrant1, noOut)
                           in (fst d, appendOut (snd d)
                                 (noOut\<lparr> events_o := [GrantOutputLog (title_g grant) draftedCount] \<rparr>)))
                     else (nextGrant1, noOut));
          nextGrant2 = fst drafted;
          out2 = snd drafted;
          queued =
            (if closureDueStamp \<noteq> None \<and> \<not> isQuarterReached currentStamp (the closureDueStamp)
                \<and> \<not> sameStamp (lastExecutionEventYear nextGrant2)
                       (lastExecutionEventQuarter nextGrant2) decisionStamp
                \<and> executionEventRoll draws < executionEventChance config
             then (nextGrant2\<lparr> lastExecutionEventYear := Some (year_q decisionStamp),
                               lastExecutionEventQuarter := Some (quarter_q decisionStamp) \<rparr>,
                   appendOut out2
                     (noOut\<lparr> decisionRequests_o :=
                              [GrantExecutionRequest nextGrant2 (year_q decisionStamp)
                                 (quarter_q decisionStamp)],
                            events_o := [GrantExecutionLog (title_g grant)] \<rparr>))
             else (nextGrant2, out2));
          nextGrant = fst queued;
          out3 = snd queued
      in if closureDueStamp \<noteq> None \<and> isQuarterReached currentStamp (the closureDueStamp) then
           (let tier = (case tier_g nextGrant of None \<Rightarrow> TierC | Some t \<Rightarrow> t);
                req = requirement (tiers config tier);
                papers = filter (\<lambda>paper. grantId paper = Some (id_g nextGrant)) projectPapers;
                submissions = length (filter (\<lambda>paper. status_p paper \<noteq> AwaitingVenue) papers);
                accepted = length (filter (\<lambda>paper. status_p paper = Accepted) papers);
                qualityOk =
                  (case requiredTopTierAtLeast req of
                     None \<Rightarrow> True
                   | Some floor_t \<Rightarrow>
                       list_ex (\<lambda>paper. status_p paper = Accepted
                                  \<and> isVenueTierAtLeast (venueTier paper) floor_t) papers);
                passed = (submissions \<ge> requiredSubmissions req
                          \<and> accepted \<ge> requiredAccepted req \<and> qualityOk)
            in if passed then
                 (nextGrant\<lparr> status_g := GCompleted \<rparr>,
                  appendOut out3
                    (noOut\<lparr> statCalls := [(KReputation,
                               if tier = TierA then 2 else if tier = TierB then 1 else 0)],
                           events_o := [GrantClosedLog (title_g grant) submissions accepted] \<rparr>))
               else
                 (nextGrant\<lparr> status_g := GFailed \<rparr>,
                  appendOut out3
                    (noOut\<lparr> statCalls := [(KReputation,
                               if tier = TierA then - 2 else if tier = TierB then - 1 else 0),
                               (KMorale, - 3)],
                           events_o := [GrantClosureFailedLog (title_g grant) submissions
                                          (requiredSubmissions req) accepted
                                          (requiredAccepted req)] \<rparr>)))
         else (nextGrant, out3))"

text \<open>The callback of \<open>grants.map\<close> in \<open>settleGrants\<close>.\<close>

definition settleGrant ::
  "StudentPersona list \<Rightarrow> MentorStats \<Rightarrow> ProjectPaper list \<Rightarrow> Stamp \<Rightarrow> Stamp
     \<Rightarrow> GrantDraws \<Rightarrow> GrantState \<Rightarrow> GrantState \<times> GrantOut" where
  "settleGrant students mentorStats projectPapers currentStamp decisionStamp draws grant =
     (case getGrantConfig (type_g grant) of
        None \<Rightarrow> (grant, noOut)
      | Some config \<Rightarrow>
          if status_g grant = GReviewing then
            settleReviewingGrant config students currentStamp decisionStamp draws grant
          else if status_g grant = GActive then
            settleActiveGrant config students mentorStats projectPapers currentStamp
              decisionStamp draws grant
          else (grant, noOut))"

record GrantSettlement =
  updatedGrants :: "GrantState list"
  statDelta_gs :: StatDelta
  decisions_gs :: "DecisionEvent list"
  decisionRequests_gs :: "GrantDecisionRequest list"
  events_gs :: "LogEvent list"
  newPapers_gs :: "ProjectPaper list"

text \<open>
  \<open>settleGrants\<close>: the callback runs on the grants in order, the \<open>k\<close>-th grant with the
  draws \<open>draws k\<close>; what the calls push to the shared accumulators is concatenated in that
  order, and the stat delta is the result of the \<open>addStatDelta\<close> calls in that order.
\<close>

definition settleGrants ::
  "GrantState list \<Rightarrow> StudentPersona list \<Rightarrow> MentorStats \<Rightarrow> ProjectPaper list \<Rightarrow> Stamp \<Rightarrow> Stamp
     \<Rightarrow> (nat \<Rightarrow> GrantDraws) \<Rightarrow> GrantSettlement" where
  "settleGrants grants students mentorStats projectPapers currentStamp decisionStamp draws =
     (let settled = map (\<lambda>(k, grant). settleGrant students mentorStats projectPapers currentStamp
                                         decisionStamp (draws k) grant)
                      (enumerate 0 grants);
          out = foldl appendOut noOut (map snd settled)
      in \<lparr> updatedGrants = map fst settled,
           statDelta_gs = foldl (\<lambda>sd kv. addStatDelta_g kv sd) emptyStatDelta (statCalls out),
           decisions_gs = decisions_o out,
           decisionRequests_gs = decisionRequests_o out,
           events_gs = events_o out,
           newPapers_gs = newPapers_o out \<rparr>)"

text \<open>The review outcomes in order: rejected, then funded at tier C, B and A.\<close>

definition reviewRank :: "GrantState \<Rightarrow> nat" where
  "reviewRank g =
     (if status_g g = GActive
      then (case tier_g g of Some TierA \<Rightarrow> 3 | Some TierB \<Rightarrow> 2 | Some TierC \<Rightarrow> 1 | None \<Rightarrow> 1)
      else 0)"

definition demo_grant :: "real \<Rightarrow> GrantState" where
  "demo_grant score =
     \<lparr> id_g = ''g1'', type_g = NaturalScience, title_g = ''Sparse modelling'',
       appliedYear = 1, appliedQuarter = 1, reviewEndYear = 1, reviewEndQuarter = 3,
       status_g = GReviewing, baseScore = score, scoreDelta = 0, luck_g = 0,
       lastReviewEventYear = None, lastReviewEventQuarter = None,
       lastExecutionEventYear = None, lastExecutionEventQuarter = None,
       tier_g = None, fundingGranted = None, reputationGranted = None,
       activeStartYear = None, activeStartQuarter = None,
       closureDueYear = None, closureDueQuarter = None,
       assignedStudentIds_g = [''s1''], paperProgress = 0, paperIds = [] \<rparr>"

definition demo_draws :: "real \<Rightarrow> GrantDraws" where
  "demo_draws r = \<lparr> luckRoll = r, reviewEventRoll = 1 / 2, repRoll = 1 / 2, jitterRoll = 1 / 2,
     executionEventRoll = 1 / 2, freshPaperId = (\<lambda>k. ''pp-new'') \<rparr>"

definition demo_stamp :: "real \<Rightarrow> real \<Rightarrow> Stamp" where
  "demo_stamp y q = \<lparr> year_q = y, quarter_q = q \<rparr>"

text \<open>The final score of a grant under review, with the luck tick of the quarter.\<close>

definition finalScoreOf :: "GrantState \<Rightarrow> GrantDraws \<Rightarrow> real" where
  "finalScoreOf grant draws =
     baseScore grant + scoreDelta grant + (luck_g grant + rollInRange (- 3) 3 (luckRoll draws))"

section \<open>Paper pipeline: the decision-due settlement\<close>

definition revisionOption ::
  "string \<Rightarrow> string \<Rightarrow> string \<Rightarrow> string \<Rightarrow> real option \<Rightarrow> real option
     \<Rightarrow> (string \<times> JsValue) list \<Rightarrow> DecisionOption" where
  "revisionOption i l h out f m mt =
     \<lparr> id_o = i, label = l, hint = Some h, outcome = out, effects = statEffects f m, meta = mt \<rparr>"

definition buildProjectRevisionDecision ::
  "string \<Rightarrow> string \<Rightarrow> string \<Rightarrow> RevisionKind \<Rightarrow> real \<Rightarrow> real \<Rightarrow> DecisionEvent" where
  "buildProjectRevisionDecision projectPaperId pId pTitle revisionKind y q =
     \<lparr> id_d = ''dec-project-revision-'' @ projectPaperId @ ''-''
                @ (case revisionKind of Minor \<Rightarrow> ''minor'' | Major \<Rightarrow> ''major''),
       title_d = (if revisionKind = Minor then ''Review: minor revision''
                  else ''Review: major revision''),
       prompt = (if revisionKind = Minor
                 then ''A minor revision is asked for '' @ pTitle
                 else ''A major revision is asked for '' @ pTitle),
       options =
         (if revisionKind = Minor then
            [ revisionOption ''revise'' ''Revise and resubmit'' ''low cost, high pass rate''
                ''Minor revision resubmitted.'' (Some (- 800)) (Some (- 1))
                [(''action'', JStr ''revise''), (''reviewQuarters'', JNum 1),
                 (''acceptBonus'', JNum (12 / 100))],
              revisionOption ''downgrade'' ''Revise lightly and downgrade'' ''safer, lower reward''
                ''A safer venue was chosen.'' (Some (- 1200)) (Some (- 1))
                [(''action'', JStr ''downgrade''), (''reviewQuarters'', JNum 1)],
              revisionOption ''withdraw'' ''Withdraw and add experiments'' ''stop loss, morale drops''
                ''The paper was withdrawn.'' None (Some (- 3))
                [(''action'', JStr ''withdraw'')] ]
          else
            [ revisionOption ''major'' ''Fight the major revision'' ''high cost, still uncertain''
                ''Major revision sprint started.'' (Some (- 2600)) (Some (- 2))
                [(''action'', JStr ''revise''), (''reviewQuarters'', JNum 2),
                 (''acceptBonus'', JNum (18 / 100))],
              revisionOption ''downgrade'' ''Downgrade to another track'' ''safer, wastes a cycle''
                ''Downgraded and back under review.'' (Some (- 1800)) (Some (- 1))
                [(''action'', JStr ''downgrade''), (''reviewQuarters'', JNum 1)],
              revisionOption ''withdraw'' ''Give up the paper'' ''stop loss, morale suffers''
                ''The paper was given up.'' None (Some (- 4))
                [(''action'', JStr ''withdraw'')] ]),
       createdYear = y, createdQuarter = q,
       context_d = ProjectRevision projectPaperId pId revisionKind \<rparr>"

record Reward =
  reputation_w :: real
  funding_w :: real

definition rewardsByTier :: "Tier \<Rightarrow> Reward" where
  "rewardsByTier t =
     (case t of TierA \<Rightarrow> \<lparr> reputation_w = 3, funding_w = 12000 \<rparr>
              | TierB \<Rightarrow> \<lparr> reputation_w = 2, funding_w = 8000 \<rparr>
              | TierC \<Rightarrow> \<lparr> reputation_w = 1, funding_w = 5000 \<rparr>)"

definition baseAcceptance :: "Tier \<Rightarrow> real" where
  "baseAcceptance t = (case t of TierA \<Rightarrow> 18 / 100 | TierB \<Rightarrow> 28 / 100 | TierC \<Rightarrow> 42 / 100)"

definition baseRevision :: "Tier \<Rightarrow> real" where
  "baseRevision t = (case t of TierA \<Rightarrow> 55 / 100 | TierB \<Rightarrow> 45 / 100 | TierC \<Rightarrow> 35 / 100)"

definition baseMajorRevision :: "Tier \<Rightarrow> real" where
  "baseMajorRevision t = (case t of TierA \<Rightarrow> 65 / 100 | TierB \<Rightarrow> 5 / 10 | TierC \<Rightarrow> 35 / 100)"

definition emptyStudentDelta :: StudentDelta where
  "emptyStudentDelta = \<lparr> diligence_d = None, talent_d = None, luck_d = None, stress_d = None,
     mentalState_d = None, contribution_d = None, pendingPapers_d = None, totalPapers_d = None \<rparr>"

text \<open>\<open>mergeStudentDelta\<close>: the sum of the two deltas, field by field, an absent field
  counting as zero; every field of the result is present.\<close>

definition mergeStudentDelta ::
  "string \<times> StudentDelta \<Rightarrow> (string \<rightharpoonup> StudentDelta) \<Rightarrow> (string \<rightharpoonup> StudentDelta)" where
  "mergeStudentDelta call studentDeltaById =
     (let studentId = fst call; delta = snd call;
          current = (case studentDeltaById studentId of None \<Rightarrow> emptyStudentDelta | Some c \<Rightarrow> c)
      in studentDeltaById(studentId \<mapsto>
           \<lparr> diligence_d = Some (orZero (diligence_d current) + orZero (diligence_d delta)),
             talent_d = Some (orZero (talent_d current) + orZero (talent_d delta)),
             luck_d = Some (orZero (luck_d current) + orZero (luck_d delta)),
             stress_d = Some (orZero (stress_d current) + orZero (stress_d delta)),
             mentalState_d = Some (orZero (mentalState_d current) + orZero (mentalState_d delta)),
             contribution_d = Some (orZero (contribution_d current) + orZero (contribution_d delta)),
             pendingPapers_d = Some (orZero (pendingPapers_d current) + orZero (pendingPapers_d delta)),
             totalPapers_d = Some (orZero (totalPapers_d current) + orZero (totalPapers_d delta)) \<rparr>))"

definition resolveLeadStudent :: "StudentPersona list \<Rightarrow> ProjectPaper \<Rightarrow> StudentPersona option" where
  "resolveLeadStudent students paper =
     (if truthy_str (leadStudentId paper)
      then find (\<lambda>student. Some (id_s student) = leadStudentId paper) students
      else None)"

definition effectiveTier :: "ProjectPaper \<Rightarrow> Tier" where
  "effectiveTier paper = (case venueTier paper of None \<Rightarrow> TierC | Some t \<Rightarrow> t)"

definition acceptChanceOf :: "StudentPersona list \<Rightarrow> MentorStats \<Rightarrow> ProjectPaper \<Rightarrow> real" where
  "acceptChanceOf students mentorStats paper =
     (let tier = effectiveTier paper;
          lead = resolveLeadStudent students paper;
          academiaBoost = value_g (academia mentorStats) / 260;
          leadBoost = (case lead of Some l \<Rightarrow> (talent l + diligence l) / 650 | None \<Rightarrow> 0);
          revisionBoost = revisionRound paper * (6 / 100);
          stressPenalty = (case lead of Some l \<Rightarrow> stress l / 650 | None \<Rightarrow> 0)
      in clampValue (baseAcceptance tier + academiaBoost + leadBoost + revisionBoost
                       - stressPenalty) (6 / 100) (85 / 100))"

definition revisionChanceOf :: "StudentPersona list \<Rightarrow> MentorStats \<Rightarrow> ProjectPaper \<Rightarrow> real" where
  "revisionChanceOf students mentorStats paper =
     (let acceptChance = acceptChanceOf students mentorStats paper;
          revisionChance = clampValue (baseRevision (effectiveTier paper)
                                         - revisionRound paper * (8 / 100)) (15 / 100) (75 / 100)
      in if acceptChance + revisionChance > 95 / 100 then 95 / 100 - acceptChance
         else revisionChance)"

text \<open>What the settlement of one paper adds to the accumulators, in the order of the
  calls.\<close>

record PaperOut =
  statCalls_p :: "(StatKey \<times> real) list"
  studentCalls_p :: "(string \<times> StudentDelta) list"
  decisions_p :: "DecisionEvent list"
  events_p :: "LogEvent list"

definition noPaperOut :: PaperOut where
  "noPaperOut = \<lparr> statCalls_p = [], studentCalls_p = [], decisions_p = [], events_p = [] \<rparr>"

definition appendPaperOut :: "PaperOut \<Rightarrow> PaperOut \<Rightarrow> PaperOut" where
  "appendPaperOut a b =
     \<lparr> statCalls_p = statCalls_p a @ statCalls_p b,
       studentCalls_p = studentCalls_p a @ studentCalls_p b,
       decisions_p = decisions_p a @ decisions_p b,
       events_p = events_p a @ events_p b \<rparr>"

definition leadCall :: "ProjectPaper \<Rightarrow> StudentDelta \<Rightarrow> (string \<times> StudentDelta) list" where
  "leadCall paper delta =
     (if truthy_str (leadStudentId paper) then [(the (leadStudentId paper), delta)] else [])"

text \<open>
  The callback of \<open>projectPapers.map\<close> in \<open>settleProjectPapers\<close>. The pair \<open>rolls\<close>
  holds the verdict roll and the roll for the kind of revision.
\<close>

definition settlePaper ::
  "StudentPersona list \<Rightarrow> MentorStats \<Rightarrow> Stamp \<Rightarrow> Stamp \<Rightarrow> real \<times> real \<Rightarrow> ProjectPaper
     \<Rightarrow> ProjectPaper \<times> PaperOut" where
  "settlePaper students mentorStats currentStamp decisionStamp rolls paper =
     (if status_p paper \<noteq> UnderReview then (paper, noPaperOut)
      else if \<not> truthy (decisionDueYear paper) \<or> \<not> truthy (decisionDueQuarter paper)
      then (paper, noPaperOut)
      else if \<not> isQuarterReached currentStamp
                  \<lparr> year_q = the (decisionDueYear paper),
                    quarter_q = the (decisionDueQuarter paper) \<rparr>
      then (paper, noPaperOut)
      else
        (let tier = effectiveTier paper;
             acceptChance = acceptChanceOf students mentorStats paper;
             revisionChance = revisionChanceOf students mentorStats paper;
             roll = fst rolls
         in if roll < acceptChance then
              (let reward = rewardsByTier tier
               in (paper\<lparr> status_p := Accepted, decisionDueYear := None,
                           decisionDueQuarter := None \<rparr>,
                   \<lparr> statCalls_p = [(KReputation, reputation_w reward),
                                     (KFunding, funding_w reward), (KMorale, 2)],
                     studentCalls_p = leadCall paper
                       (emptyStudentDelta\<lparr> pendingPapers_d := Some (- 1), totalPapers_d := Some 1,
                                            mentalState_d := Some 4, stress_d := Some (- 5) \<rparr>),
                     decisions_p = [],
                     events_p = [PaperAcceptedLog (projectTitle paper) (venueType paper)
                                   (venueTier paper) (reputation_w reward)
                                   (funding_w reward)] \<rparr>))
            else if roll < acceptChance + revisionChance then
              (let majorChance = clampValue (baseMajorRevision tier
                                   - revisionRound paper * (18 / 100)) (15 / 100) (75 / 100);
                   revisionKind = (if snd rolls < majorChance then Major else Minor)
               in (paper\<lparr> status_p := AwaitingRevision, lastRevisionKind := Some revisionKind,
                           decisionDueYear := None, decisionDueQuarter := None \<rparr>,
                   \<lparr> statCalls_p = [],
                     studentCalls_p = leadCall paper
                       (emptyStudentDelta\<lparr> mentalState_d := Some (- 2), stress_d := Some 3 \<rparr>),
                     decisions_p = [buildProjectRevisionDecision (id_p paper) (projectId paper)
                                      (projectTitle paper) revisionKind (year_q decisionStamp)
                                      (quarter_q decisionStamp)],
                     events_p = [PaperRevisionLog (projectTitle paper) (venueType paper)
                                   (venueTier paper) revisionKind] \<rparr>))
            else
              (paper\<lparr> status_p := Rejected, decisionDueYear := None, decisionDueQuarter := None \<rparr>,
               \<lparr> statCalls_p = [(KMorale, - 2)],
                 studentCalls_p = leadCall paper
                   (emptyStudentDelta\<lparr> pendingPapers_d := Some (- 1),
                                        mentalState_d := Some (- 5), stress_d := Some 4 \<rparr>),
                 decisions_p = [],
                 events_p = [PaperRejectedLog (projectTitle paper) (venueType paper)
                               (venueTier paper)] \<rparr>)))"

record PaperSettlement =
  updatedPapers :: "ProjectPaper list"
  updatedStudents :: "StudentPersona list"
  statDelta_ps :: StatDelta
  decisions_ps :: "DecisionEvent list"
  events_ps :: "LogEvent list"

text \<open>
  \<open>settleProjectPapers\<close>: the callback runs on the papers in order, the \<open>k\<close>-th paper with
  the rolls \<open>rolls k\<close>; then every student with an entry in \<open>studentDeltaById\<close> gets the
  merged delta of that entry.
\<close>

definition settleProjectPapers ::
  "ProjectPaper list \<Rightarrow> StudentPersona list \<Rightarrow> MentorStats \<Rightarrow> Stamp \<Rightarrow> Stamp
     \<Rightarrow> (nat \<Rightarrow> real \<times> real) \<Rightarrow> PaperSettlement" where
  "settleProjectPapers projectPapers students mentorStats currentStamp decisionStamp rolls =
     (let settled = map (\<lambda>(k, paper). settlePaper students mentorStats currentStamp decisionStamp
                                         (rolls k) paper)
                      (enumerate 0 projectPapers);
          out = foldl appendPaperOut noPaperOut (map snd settled);
          studentDeltaById = foldl (\<lambda>m call. mergeStudentDelta call m) Map.empty (studentCalls_p out)
      in \<lparr> updatedPapers = map fst settled,
           updatedStudents =
             map (\<lambda>student. case studentDeltaById (id_s student) of
                                None \<Rightarrow> student
                              | Some delta \<Rightarrow> applyStudentDelta student delta) students,
           statDelta_ps = foldl (\<lambda>sd kv. bumpStatDelta (fst kv) (snd kv) sd) emptyStatDelta
                            (statCalls_p out),
           decisions_ps = decisions_p out,
           events_ps = events_p out \<rparr>)"

definition demo_paper :: "ProjectPaperStatus \<Rightarrow> ProjectPaper" where
  "demo_paper st =
     \<lparr> id_p = ''pp-1'', projectId = ''grant-g1'', projectTitle = ''Sparse modelling'',
       leadStudentId = Some ''s1'', grantId = Some ''g1'', venueType = Some Conference,
       venueTier = Some TierA, status_p = st, submittedYear = Some 1, submittedQuarter = Some 2,
       decisionDueYear = Some 1, decisionDueQuarter = Some 3, revisionRound = 0,
       lastRevisionKind = None \<rparr>"

section \<open>Paper pipeline: progress accrual\<close>

definition buildActiveProjectCountByStudentId :: "ResearchProject list \<Rightarrow> (string \<rightharpoonup> real)" where
  "buildActiveProjectCountByStudentId projects =
     foldl (\<lambda>counts project.
              if completed project then counts
              else foldl (\<lambda>counts studentId. counts(studentId \<mapsto> orZero (counts studentId) + 1))
                     counts (assignedStudentIds_r project))
       Map.empty projects"

text \<open>The draws of \<open>calcPaperProgressGain\<close> in the order of the calls: the luck jitter,
  the jitter, the test of the burst and the size of the burst.\<close>

record GainDraws =
  luckJitterRoll :: real
  jitterRoll_s :: real
  burstRoll :: real
  burstSizeRoll :: real

definition burstEligible :: "StudentPersona \<Rightarrow> bool" where
  "burstEligible student \<longleftrightarrow>
     clampValue (talent student) 0 100 \<ge> 90 \<and> clampValue (luck student) 0 100 \<ge> 85 \<and>
     clampValue (mentalState student) 0 100 \<ge> 75 \<and> clampValue (stress student) 0 100 \<le> 60"

definition burstChance :: "StudentPersona \<Rightarrow> real" where
  "burstChance student =
     clampValue (6 / 100 + (clampValue (luck student) 0 100 - 85) / 220) (6 / 100) (18 / 100)"

definition calcPaperProgressGain :: "StudentPersona \<Rightarrow> real \<Rightarrow> GainDraws \<Rightarrow> real" where
  "calcPaperProgressGain student activeProjectCount draws =
     (let talent_c = clampValue (talent student) 0 100;
          diligence_c = clampValue (diligence student) 0 100;
          luck_c = clampValue (luck student) 0 100;
          stress_c = clampValue (stress student) 0 100;
          mental = clampValue (mentalState student) 0 100;
          core = diligence_c * (45 / 100) + talent_c * (4 / 10) + luck_c * (15 / 100);
          base0 = 20 + (core - 50) * (6 / 10);
          base1 = base0 + min activeProjectCount 2 * 2;
          base2 = (if isBeingMentored student then base1 + 2 else base1);
          base3 = (if mental \<ge> 85 then base2 + 1 else base2);
          base4 = (if stress_c \<ge> 70 then base3 - 6 else base3);
          base = (if mental < 50 then base4 - 6 else base4);
          luckJitter = rollInRange (- 2) 2 (luckJitterRoll draws);
          jitter = rollInRange (- 4) 4 (jitterRoll_s draws) + luckJitter;
          regular = clampValue (math_round (base + jitter)) 20 40
      in if burstEligible student \<and> burstRoll draws < burstChance student
         then clampValue (80 + rollInRange (- 20) 20 (burstSizeRoll draws)) 60 100
         else regular)"

definition calcPaperDecisionChance :: "MentorStats \<Rightarrow> real" where
  "calcPaperDecisionChance mentorStats =
     clampValue (25 / 100 + value_g (admin mentorStats) / 250) (25 / 100) (75 / 100)"

text \<open>The callback of \<open>students.map\<close> in \<open>settleResearchPapers\<close>: the new student and
  the log entry, if one is pushed.\<close>

definition accrueProgress ::
  "(string \<rightharpoonup> real) \<Rightarrow> GainDraws \<Rightarrow> StudentPersona \<Rightarrow> StudentPersona \<times> LogEvent list" where
  "accrueProgress activeProjectCounts draws student =
     (let activeProjectCount = orZero (activeProjectCounts (id_s student));
          progressGain = calcPaperProgressGain student activeProjectCount draws;
          combinedProgress = clampValue (contribution student + progressGain) 0 100;
          submittedCount = math_floor (combinedProgress / 100);
          remainder = combinedProgress - submittedCount * 100
      in if submittedCount = 0 then (student\<lparr> contribution := remainder \<rparr>, [])
         else (student\<lparr> contribution := remainder,
                        pendingPapers := pendingPapers student + submittedCount,
                        mentalState := clampValue (mentalState student - 2 * submittedCount) 0 100,
                        stress := clampValue (stress student + 3 * submittedCount) 0 100 \<rparr>,
               [PaperSubmittedLog (name_s student) submittedCount]))"

text \<open>The loop over the decision candidates: the first one at which the cursor, lowered by
  the pending papers of each candidate in turn, is not positive.\<close>

fun pickByCursor :: "real \<Rightarrow> StudentPersona list \<Rightarrow> string option" where
  "pickByCursor cursor [] = None"
| "pickByCursor cursor (student # rest) =
     (if cursor - pendingPapers student \<le> 0 then Some (id_s student)
      else pickByCursor (cursor - pendingPapers student) rest)"

record ResearchSettlement =
  updatedStudents_rs :: "StudentPersona list"
  events_rs :: "LogEvent list"
  reputationDelta :: real
  fundingDelta :: real
  decisionStudentId :: "string option"

text \<open>
  \<open>settleResearchPapers\<close>: the \<open>k\<close>-th student accrues with the draws \<open>draws k\<close> and is
  a decision candidate under the roll \<open>candidateRolls k\<close>; \<open>cursorRoll\<close> places the
  cursor.
\<close>

definition settleResearchPapers ::
  "StudentPersona list \<Rightarrow> MentorStats \<Rightarrow> ResearchProject list \<Rightarrow> (nat \<Rightarrow> GainDraws)
     \<Rightarrow> (nat \<Rightarrow> real) \<Rightarrow> real \<Rightarrow> ResearchSettlement" where
  "settleResearchPapers students mentorStats projects draws candidateRolls cursorRoll =
     (let activeProjectCounts = buildActiveProjectCountByStudentId projects;
          decisionChance = calcPaperDecisionChance mentorStats;
          accrued = map (\<lambda>(k, student). accrueProgress activeProjectCounts (draws k) student)
                      (enumerate 0 students);
          updated = map fst accrued;
          decisionCandidates =
            map snd (filter (\<lambda>(k, student). pendingPapers student > 0
                                              \<and> candidateRolls k < decisionChance)
                       (enumerate 0 updated));
          picked =
            (if decisionCandidates \<noteq> [] then
               (let totalWeight = sum_by pendingPapers decisionCandidates;
                    found = pickByCursor (cursorRoll * totalWeight) decisionCandidates
                in if truthy_str found then found else Some (id_s (hd decisionCandidates)))
             else None)
      in \<lparr> updatedStudents_rs = updated,
           events_rs = concat (map snd accrued),
           reputationDelta = 0,
           fundingDelta = 0,
           decisionStudentId = picked \<rparr>)"

section \<open>Traits\<close>

datatype TraitCategory = MainTrait | SubTrait

datatype Polarity = Positive | Negative | Neutral

datatype StudentStatKey = SDiligence | STalent | SLuck | SStress | SMentalState

text \<open>
  Modelled from the spec: the type \<open>StudentTrait\<close> and the table \<open>studentTraits\<close> are
  declared in \<open>data/studentTraits\<close>, which is not among the sources. A trait has the
  fields that \<open>App.tsx\<close> reads: an id, a category, a polarity, the ids it conflicts with
  and a band per student attribute. The table is a parameter \<open>table\<close> of every function
  that reads it.
\<close>

record StudentTrait =
  id_t :: string
  category_t :: TraitCategory
  polarity :: Polarity
  conflicts :: "string list option"
  statBounds :: "(StudentStatKey \<times> real \<times> real) list option"

text \<open>\<open>new Map(studentTraits.map((trait) => [trait.id, trait]))\<close>: of two traits with one
  id the later one is kept.\<close>

definition studentTraitById :: "StudentTrait list \<Rightarrow> string \<Rightarrow> StudentTrait option" where
  "studentTraitById table traitId = find (\<lambda>trait. id_t trait = traitId) (rev table)"

definition studentTraitIds :: "StudentTrait list \<Rightarrow> string list" where
  "studentTraitIds table = map id_t table"

definition includes_opt :: "string list option \<Rightarrow> string \<Rightarrow> bool" where
  "includes_opt xs x = (case xs of None \<Rightarrow> False | Some l \<Rightarrow> x \<in> set l)"

definition hasTraitConflict :: "StudentTrait list \<Rightarrow> string \<Rightarrow> string \<Rightarrow> bool" where
  "hasTraitConflict table leftId rightId =
     (case (studentTraitById table leftId, studentTraitById table rightId) of
        (Some left, Some right) \<Rightarrow>
          includes_opt (conflicts left) rightId \<or> includes_opt (conflicts right) leftId
      | _ \<Rightarrow> False)"

section \<open>Mentorship influence\<close>

definition getTraitDelta :: "real \<Rightarrow> real \<Rightarrow> real" where
  "getTraitDelta lo hi =
     (if lo \<ge> 80 then 3 else if lo \<ge> 70 then 2 else if lo \<ge> 60 then 1
      else if hi \<le> 25 then - 3 else if hi \<le> 35 then - 2 else if hi \<le> 50 then - 1 else 0)"

definition collectTraitInfluence :: "StudentTrait list \<Rightarrow> (StudentStatKey \<rightharpoonup> real)" where
  "collectTraitInfluence ts =
     foldl (\<lambda>deltas trait.
              case statBounds trait of
                None \<Rightarrow> deltas
              | Some bounds \<Rightarrow>
                  foldl (\<lambda>deltas (statKey, lo, hi).
                           let delta = getTraitDelta lo hi
                           in if delta = 0 then deltas
                              else deltas(statKey \<mapsto> orZero (deltas statKey) + delta))
                    deltas bounds)
       Map.empty ts"

definition calcMentorDelta :: "real \<Rightarrow> real \<Rightarrow> real \<Rightarrow> real \<Rightarrow> real" where
  "calcMentorDelta v step minDelta maxDelta =
     clampValue (math_round ((v - 50) / step)) minDelta maxDelta"

definition applyMentorInfluence ::
  "StudentTrait list \<Rightarrow> StudentPersona \<Rightarrow> StudentPersona \<Rightarrow> StudentPersona" where
  "applyMentorInfluence table mentee mentor =
     (let mentorTraits = filter (\<lambda>trait. category_t trait = SubTrait)
                           (List.map_filter (studentTraitById table) (traits mentor));
          traitDeltas = collectTraitInfluence mentorTraits;
          diligenceDelta = calcMentorDelta (diligence mentor) 15 (- 2) 3;
          talentDelta = calcMentorDelta (talent mentor) 15 (- 2) 3;
          luckDelta = calcMentorDelta (luck mentor) 18 (- 1) 2;
          mentalDelta = calcMentorDelta (mentalState mentor) 15 (- 2) 2;
          stressDelta = calcMentorDelta (stress mentor) 18 (- 2) 2
      in mentee
           \<lparr> diligence := clampValue (diligence mentee + diligenceDelta
                                       + orZero (traitDeltas SDiligence)) 0 100,
             talent := clampValue (talent mentee + talentDelta + orZero (traitDeltas STalent)) 0 100,
             luck := clampValue (luck mentee + luckDelta + orZero (traitDeltas SLuck)) 0 100,
             mentalState := clampValue (mentalState mentee + mentalDelta
                                         + orZero (traitDeltas SMentalState)) 0 100,
             stress := clampValue (stress mentee + stressDelta + orZero (traitDeltas SStress)) 0 100 \<rparr>)"

text \<open>
  The loop of \<open>buildMentorshipPairs\<close> over the roster, with the set \<open>usedMentors\<close>;
  a pair is (mentor id, mentee id), and the pairs come out in the order they are pushed.
\<close>

fun claimMentors :: "string set \<Rightarrow> StudentPersona list \<Rightarrow> string set \<Rightarrow> (string \<times> string) list" where
  "claimMentors studentIds [] usedMentors = []"
| "claimMentors studentIds (mentee # rest) usedMentors =
     (if \<not> truthy_str (mentorId mentee) then claimMentors studentIds rest usedMentors
      else if the (mentorId mentee) = id_s mentee then claimMentors studentIds rest usedMentors
      else if the (mentorId mentee) \<notin> studentIds then claimMentors studentIds rest usedMentors
      else if the (mentorId mentee) \<in> usedMentors then claimMentors studentIds rest usedMentors
      else (the (mentorId mentee), id_s mentee)
             # claimMentors studentIds rest (insert (the (mentorId mentee)) usedMentors))"

definition buildMentorshipPairs :: "StudentPersona list \<Rightarrow> (string \<times> string) list" where
  "buildMentorshipPairs students = claimMentors (set (map id_s students)) students {}"

text \<open>
  A \<open>Map\<close> keeps its keys in the order of their first insertion, and \<open>set\<close> on a key
  that is there replaces the value in place.
\<close>

fun map_set :: "'k \<Rightarrow> 'v \<Rightarrow> ('k \<times> 'v) list \<Rightarrow> ('k \<times> 'v) list" where
  "map_set k v [] = [(k, v)]"
| "map_set k v (p # ps) = (if fst p = k then (k, v) # ps else p # map_set k v ps)"

definition influencePair ::
  "StudentTrait list \<Rightarrow> (string \<times> StudentPersona) list \<Rightarrow> string \<times> string
     \<Rightarrow> (string \<times> StudentPersona) list" where
  "influencePair table studentMap pair =
     (case (map_of studentMap (fst pair), map_of studentMap (snd pair)) of
        (Some mentor, Some mentee) \<Rightarrow>
          map_set (snd pair)
            ((applyMentorInfluence table mentee mentor)
               \<lparr> isBeingMentored := True, mentorId := Some (fst pair) \<rparr>)
            studentMap
      | _ \<Rightarrow> studentMap)"

definition applyMentorshipInfluence :: "StudentTrait list \<Rightarrow> StudentPersona list \<Rightarrow> StudentPersona list" where
  "applyMentorshipInfluence table students =
     (let pairs = buildMentorshipPairs students;
          menteeIds = set (map snd pairs);
          studentMap0 = foldl (\<lambda>m student. map_set (id_s student) student m) [] students;
          studentMap = foldl (influencePair table) studentMap0 pairs
      in map (\<lambda>student. if id_s student \<in> menteeIds then student
                          else student\<lparr> isBeingMentored := False, mentorId := None \<rparr>)
           (map snd studentMap))"

text \<open>A student claims the mentor \<open>x\<close> when \<open>x\<close> is their mentor id, not empty, not their
  own id, and the id of a student of the roster; the first claim is the one of least index.\<close>

definition claims :: "StudentPersona list \<Rightarrow> StudentPersona \<Rightarrow> string \<Rightarrow> bool" where
  "claims students s x \<longleftrightarrow>
     mentorId s = Some x \<and> x \<noteq> [] \<and> x \<noteq> id_s s \<and> x \<in> set (map id_s students)"

definition firstClaim :: "StudentPersona list \<Rightarrow> nat \<Rightarrow> string \<Rightarrow> bool" where
  "firstClaim students i x \<longleftrightarrow>
     claims students (students ! i) x \<and> (\<forall>j<i. \<not> claims students (students ! j) x)"

definition claimsIn :: "string set \<Rightarrow> StudentPersona \<Rightarrow> string \<Rightarrow> bool" where
  "claimsIn ids s x \<longleftrightarrow> mentorId s = Some x \<and> x \<noteq> [] \<and> x \<noteq> id_s s \<and> x \<in> ids"

text \<open>A student map whose keys are distinct and are the ids of their values.\<close>

definition keyed :: "(string \<times> StudentPersona) list \<Rightarrow> bool" where
  "keyed m \<longleftrightarrow> distinct (map fst m) \<and> (\<forall>(k, v) \<in> set m. id_s v = k)"

text \<open>The student map after the pairs are applied.\<close>

definition influencedMap :: "StudentTrait list \<Rightarrow> StudentPersona list \<Rightarrow> (string \<times> StudentPersona) list" where
  "influencedMap table students =
     foldl (influencePair table)
       (foldl (\<lambda>m student. map_set (id_s student) student m) [] students)
       (buildMentorshipPairs students)"

definition demo_roster :: "StudentPersona list" where
  "demo_roster = [demo_student ''m'', (demo_student ''a'')\<lparr> mentorId := Some ''m'' \<rparr>,
     (demo_student ''b'')\<lparr> mentorId := Some ''m'' \<rparr>]"

section \<open>Session state and the decision queue\<close>

text \<open>The result shown after a choice; its display chips are left out.\<close>

record DecisionResult =
  title_x :: string
  headline :: string
  detail :: string

text \<open>
  The state that the handlers of the session read and set. A handler is a function from
  the session to the session: its state updates are applied in the order of the calls, and
  what it reads from its closure is read from the session it starts with.
\<close>

record Session =
  stats_ss :: MentorStats
  teamMembers :: "StudentPersona list"
  projects_ss :: "ResearchProject list"
  grantApplications :: "GrantState list"
  projectPapers_ss :: "ProjectPaper list"
  eventLog :: "LogEvent list"
  pendingDecisions :: "DecisionEvent list"
  activeDecisionId :: "string option"
  activeDecisionResult :: "DecisionResult option"
  selectedMentorId :: "string option"
  teamMessage :: string

definition removeStudentFromAllAssignments :: "string \<Rightarrow> Session \<Rightarrow> Session" where
  "removeStudentFromAllAssignments studentId session = session
     \<lparr> selectedMentorId := None,
       teamMembers :=
         map (\<lambda>student.
                if studentType student = ''YOUNG_TEACHER'' then student
                else (let mentorId' = (if mentorId student = Some studentId then None
                                       else mentorId student);
                          isBeingMentored' = (if truthy_str mentorId' then isBeingMentored student
                                              else False)
                      in student\<lparr> mentorId := mentorId', isBeingMentored := isBeingMentored' \<rparr>))
           (filter (\<lambda>student. id_s student \<noteq> studentId) (teamMembers session)),
       projects_ss :=
         map (\<lambda>project. project\<lparr> assignedStudentIds_r :=
                filter (\<lambda>i. i \<noteq> studentId) (assignedStudentIds_r project) \<rparr>)
           (projects_ss session),
       grantApplications :=
         map (\<lambda>grant. grant\<lparr> assignedStudentIds_g :=
                filter (\<lambda>i. i \<noteq> studentId) (assignedStudentIds_g grant) \<rparr>)
           (grantApplications session),
       projectPapers_ss :=
         map (\<lambda>paper. if leadStudentId paper = Some studentId
                        then paper\<lparr> leadStudentId := None \<rparr> else paper)
           (projectPapers_ss session) \<rparr>"

definition downgradeVenueTier :: "Tier option \<Rightarrow> Tier" where
  "downgradeVenueTier tier = (if tier = Some TierA then TierB else TierC)"

text \<open>\<open>typeof v === 'number' ? v : 0\<close> on a key of the meta.\<close>

definition metaNumber :: "(string \<times> JsValue) list \<Rightarrow> string \<Rightarrow> real" where
  "metaNumber mt key = (case map_of mt key of Some (JNum v) \<Rightarrow> v | _ \<Rightarrow> 0)"

definition metaVenueType :: "(string \<times> JsValue) list \<Rightarrow> PaperVenueType option" where
  "metaVenueType mt =
     (case map_of mt ''venueType'' of
        Some (JStr s) \<Rightarrow> (if s = ''conference'' then Some Conference
                          else if s = ''journal'' then Some Journal else None)
      | _ \<Rightarrow> None)"

definition metaVenueTier :: "(string \<times> JsValue) list \<Rightarrow> Tier option" where
  "metaVenueTier mt =
     (case map_of mt ''venueTier'' of
        Some (JStr s) \<Rightarrow> (if s = ''A'' then Some TierA else if s = ''B'' then Some TierB
                          else if s = ''C'' then Some TierC else None)
      | _ \<Rightarrow> None)"

definition metaReviewOffset :: "(string \<times> JsValue) list \<Rightarrow> real" where
  "metaReviewOffset mt =
     (case map_of mt ''reviewQuarters'' of
        Some (JNum v) \<Rightarrow> (if v > 0 then v else 1)
      | _ \<Rightarrow> 1)"

definition optionStats :: "DecisionOption \<Rightarrow> StatDelta option" where
  "optionStats opt = (case effects opt of None \<Rightarrow> None | Some e \<Rightarrow> stats_e e)"

definition optionStudent :: "DecisionOption \<Rightarrow> StudentDelta option" where
  "optionStudent opt = (case effects opt of None \<Rightarrow> None | Some e \<Rightarrow> student_e e)"

definition paperLeadOf :: "Session \<Rightarrow> DecisionEvent \<Rightarrow> string option" where
  "paperLeadOf session decision =
     (case context_d decision of
        ProjectVenue paperId _ \<Rightarrow>
          (case find (\<lambda>paper. id_p paper = paperId) (projectPapers_ss session) of
             None \<Rightarrow> None | Some paper \<Rightarrow> leadStudentId paper)
      | ProjectRevision paperId _ _ \<Rightarrow>
          (case find (\<lambda>paper. id_p paper = paperId) (projectPapers_ss session) of
             None \<Rightarrow> None | Some paper \<Rightarrow> leadStudentId paper)
      | _ \<Rightarrow> None)"

definition grantParticipantsOf :: "Session \<Rightarrow> string \<Rightarrow> string list" where
  "grantParticipantsOf session gid =
     (case find (\<lambda>grant. id_g grant = gid) (grantApplications session) of
        None \<Rightarrow> [] | Some grant \<Rightarrow> assignedStudentIds_g grant)"

definition studentTargetIds :: "Session \<Rightarrow> DecisionEvent \<Rightarrow> string list" where
  "studentTargetIds session decision =
     (case context_d decision of
        StudentPaperEvent sid \<Rightarrow> [sid]
      | ProjectVenue _ _ \<Rightarrow>
          (if truthy_str (paperLeadOf session decision)
           then [the (paperLeadOf session decision)] else [])
      | ProjectRevision _ _ _ \<Rightarrow>
          (if truthy_str (paperLeadOf session decision)
           then [the (paperLeadOf session decision)] else [])
      | GrantReviewEvent gid \<Rightarrow> grantParticipantsOf session gid
      | GrantExecutionEvent gid \<Rightarrow> grantParticipantsOf session gid
      | QuarterEvent sid \<Rightarrow> (if truthy_str sid then [the sid] else []))"

definition applyToStudent :: "string \<Rightarrow> StudentDelta \<Rightarrow> Session \<Rightarrow> Session" where
  "applyToStudent sid delta session = session
     \<lparr> teamMembers := map (\<lambda>student. if id_s student = sid
                                      then applyStudentDelta student delta else student)
                          (teamMembers session) \<rparr>"

text \<open>The side effects of a choice that depend on the kind of the decision. \<open>start\<close> is
  the session that the handler was called with.\<close>

definition kindEffects :: "Session \<Rightarrow> DecisionEvent \<Rightarrow> DecisionOption \<Rightarrow> Session \<Rightarrow> Session" where
  "kindEffects start decision opt session =
     (case context_d decision of
        QuarterEvent sid \<Rightarrow>
          (if map_of (meta opt) ''studentAction'' = Some (JStr ''leave'') \<and> truthy_str sid
           then (let leavingId = the sid;
                     leavingName =
                       (case find (\<lambda>student. id_s student = leavingId) (teamMembers start) of
                          None \<Rightarrow> ''the student'' | Some student \<Rightarrow> name_s student);
                     removed = removeStudentFromAllAssignments leavingId session
                 in removed\<lparr> eventLog := eventLog removed @ [TeamChangeLog leavingName] \<rparr>)
           else session)
      | GrantReviewEvent gid \<Rightarrow>
          (let scoreDelta' = metaNumber (meta opt) ''scoreDelta'';
               luckDelta = metaNumber (meta opt) ''luckDelta''
           in if scoreDelta' \<noteq> 0 \<or> luckDelta \<noteq> 0
              then session\<lparr> grantApplications :=
                     map (\<lambda>grant. if id_g grant = gid
                                    then grant\<lparr> scoreDelta := scoreDelta grant + scoreDelta',
                                                luck_g := luck_g grant + luckDelta \<rparr>
                                    else grant)
                       (grantApplications session) \<rparr>
              else session)
      | GrantExecutionEvent gid \<Rightarrow>
          (let progressDelta = metaNumber (meta opt) ''progressDelta''
           in if progressDelta \<noteq> 0
              then session\<lparr> grantApplications :=
                     map (\<lambda>grant. if id_g grant = gid
                                    then grant\<lparr> paperProgress :=
                                           clampValue (paperProgress grant + progressDelta) 0 250 \<rparr>
                                    else grant)
                       (grantApplications session) \<rparr>
              else session)
      | ProjectVenue paperId _ \<Rightarrow>
          (if metaVenueType (meta opt) = None \<or> metaVenueTier (meta opt) = None
           then session\<lparr> teamMessage := ''Submission strategy data missing, skipped.'' \<rparr>
           else
            (let due = addQuarters \<lparr> year_q = year (stats_ss start), quarter_q = quarter (stats_ss start) \<rparr>
                         (metaReviewOffset (meta opt));
                 submitted = session\<lparr> projectPapers_ss :=
                     map (\<lambda>paper. if id_p paper = paperId
                                    then paper\<lparr> venueType := metaVenueType (meta opt),
                                                venueTier := metaVenueTier (meta opt),
                                                status_p := UnderReview,
                                                submittedYear := Some (year (stats_ss start)),
                                                submittedQuarter := Some (quarter (stats_ss start)),
                                                decisionDueYear := Some (year_q due),
                                                decisionDueQuarter := Some (quarter_q due) \<rparr>
                                    else paper)
                       (projectPapers_ss session) \<rparr>
             in if truthy_str (paperLeadOf start decision)
                then applyToStudent (the (paperLeadOf start decision))
                       (emptyStudentDelta\<lparr> pendingPapers_d := Some 1, mentalState_d := Some (- 2),
                                            stress_d := Some 3 \<rparr>) submitted
                else submitted))
      | ProjectRevision paperId _ revisionKind \<Rightarrow>
          (let action = map_of (meta opt) ''action'';
               due = addQuarters \<lparr> year_q = year (stats_ss start), quarter_q = quarter (stats_ss start) \<rparr>
                       (metaReviewOffset (meta opt));
               revised = session\<lparr> projectPapers_ss :=
                   map (\<lambda>paper.
                          if id_p paper \<noteq> paperId then paper
                          else if action = Some (JStr ''withdraw'')
                          then paper\<lparr> status_p := Rejected, decisionDueYear := None,
                                      decisionDueQuarter := None \<rparr>
                          else if action = Some (JStr ''downgrade'')
                          then paper\<lparr> venueTier := Some (downgradeVenueTier (venueTier paper)),
                                      status_p := UnderReview,
                                      decisionDueYear := Some (year_q due),
                                      decisionDueQuarter := Some (quarter_q due) \<rparr>
                          else if action = Some (JStr ''revise'')
                          then paper\<lparr> status_p := UnderReview,
                                      decisionDueYear := Some (year_q due),
                                      decisionDueQuarter := Some (quarter_q due),
                                      revisionRound := revisionRound paper + 1,
                                      lastRevisionKind := Some revisionKind \<rparr>
                          else paper)
                     (projectPapers_ss session) \<rparr>
           in if action = Some (JStr ''withdraw'') \<and> truthy_str (paperLeadOf start decision)
              then applyToStudent (the (paperLeadOf start decision))
                     (emptyStudentDelta\<lparr> pendingPapers_d := Some (- 1),
                                          mentalState_d := Some (- 2), stress_d := Some 2 \<rparr>) revised
              else revised)
      | StudentPaperEvent _ \<Rightarrow> session)"

definition handleDecisionChoose :: "DecisionEvent \<Rightarrow> string \<Rightarrow> Session \<Rightarrow> Session" where
  "handleDecisionChoose decision optionId session =
     (case find (\<lambda>item. id_o item = optionId) (options decision) of
        None \<Rightarrow> session
      | Some opt \<Rightarrow>
         (let s1 = session\<lparr> eventLog := eventLog session @ [TextLog (title_d decision) (outcome opt)] \<rparr>;
              s2 = (case optionStats opt of
                      None \<Rightarrow> s1
                    | Some delta \<Rightarrow> s1\<lparr> stats_ss := applyMentorDelta (stats_ss s1) delta \<rparr>);
              targets = studentTargetIds session decision;
              s3 = (case optionStudent opt of
                      None \<Rightarrow> s2
                    | Some delta \<Rightarrow>
                        if targets \<noteq> []
                        then s2\<lparr> teamMembers :=
                               map (\<lambda>student. if id_s student \<in> set targets
                                              then applyStudentDelta student delta else student)
                                 (teamMembers s2) \<rparr>
                        else s2);
              s4 = kindEffects session decision opt s3;
              remaining = filter (\<lambda>item. id_d item \<noteq> id_d decision) (pendingDecisions session)
          in s4\<lparr> pendingDecisions := remaining,
                 activeDecisionId := (case remaining of [] \<Rightarrow> None | d # _ \<Rightarrow> Some (id_d d)),
                 activeDecisionResult :=
                   Some \<lparr> title_x = ''Outcome'', headline = title_d decision,
                          detail = outcome opt \<rparr> \<rparr>))"

definition demo_young_teacher :: StudentPersona where
  "demo_young_teacher =
     (demo_student ''y'')\<lparr> studentType := ''YOUNG_TEACHER'', mentorId := Some ''d'',
                            isBeingMentored := True \<rparr>"

definition demo_session :: Session where
  "demo_session =
     \<lparr> stats_ss = demo_stats,
       teamMembers = [demo_student ''d'', demo_young_teacher,
                      (demo_student ''z'')\<lparr> mentorId := Some ''d'', isBeingMentored := True \<rparr>],
       projects_ss = [],
       grantApplications = [(demo_grant 70)\<lparr> status_g := GActive, tier_g := Some TierB,
                                             assignedStudentIds_g := [''d''] \<rparr>],
       projectPapers_ss = [(demo_paper UnderReview)\<lparr> leadStudentId := Some ''d'' \<rparr>],
       eventLog = [],
       pendingDecisions = [buildProjectVenueDecision ''pp-1'' ''grant-g1'' ''Sparse modelling'' 2 3],
       activeDecisionId = Some ''dec-project-venue-pp-1'',
       activeDecisionResult = None,
       selectedMentorId = None,
       teamMessage = [] \<rparr>"

text \<open>A session that play reaches: the student \<open>d\<close> is the only one assigned to the
  active grant \<open>g1\<close>, leads the two papers that the grant has spawned, and works with
  \<open>z\<close> on a project and on a second grant.\<close>

definition demo_two_papers :: Session where
  "demo_two_papers =
     \<lparr> stats_ss = demo_stats,
       teamMembers = [demo_student ''d'',
                      (demo_student ''z'')\<lparr> mentorId := Some ''d'', isBeingMentored := True \<rparr>],
       projects_ss = [\<lparr> id_r = ''r1'', title_r = ''Green computing'', category_r = FreeExploration,
                        progress = \<lparr> literature_r = 40, experiment_r = 10, results_r = 0 \<rparr>,
                        assignedStudentIds_r = [''d'', ''z''], createdYear_r = 1,
                        createdQuarter_r = 2, completed = False \<rparr>],
       grantApplications =
         [(demo_grant 70)\<lparr> status_g := GActive, tier_g := Some TierB,
                            assignedStudentIds_g := [''d''], paperIds := [''pp-1'', ''pp-2''] \<rparr>,
          (demo_grant 60)\<lparr> id_g := ''g2'', type_g := SocialScience,
                            assignedStudentIds_g := [''z'', ''d''] \<rparr>],
       projectPapers_ss =
         [(demo_paper UnderReview)\<lparr> leadStudentId := Some ''d'' \<rparr>,
          (demo_paper AwaitingVenue)\<lparr> id_p := ''pp-2'', leadStudentId := Some ''d'',
                                       venueType := None, venueTier := None,
                                       decisionDueYear := None, decisionDueQuarter := None \<rparr>],
       eventLog = [],
       pendingDecisions = [],
       activeDecisionId = None,
       activeDecisionResult = None,
       selectedMentorId = Some ''d'',
       teamMessage = [] \<rparr>"

section \<open>Trait resolution\<close>

text \<open>
  The samplers draw a number of times that depends on the draws, so they take the random
  source as a sequence \<open>rnd\<close> with the position \<open>pos\<close> of the next draw, and return the
  position after their last draw.
\<close>

definition hasCategory :: "StudentTrait list \<Rightarrow> TraitCategory \<Rightarrow> string \<Rightarrow> bool" where
  "hasCategory table category traitId =
     (case studentTraitById table traitId of
        None \<Rightarrow> False | Some trait \<Rightarrow> category_t trait = category)"

definition getTraitPoolsByCategory ::
  "StudentTrait list \<Rightarrow> TraitCategory \<Rightarrow> Polarity \<Rightarrow> string list" where
  "getTraitPoolsByCategory table category p =
     filter (\<lambda>i. case studentTraitById table i of
                    None \<Rightarrow> False
                  | Some trait \<Rightarrow> category_t trait = category \<and> polarity trait = p)
       (studentTraitIds table)"

definition weightedPick :: "TraitCategory \<Rightarrow> real \<Rightarrow> Polarity" where
  "weightedPick category roll =
     (if category = MainTrait then (if roll < 8 / 10 then Positive else Negative)
      else if roll < 6 / 10 then Positive
      else if roll < 8 / 10 then Negative
      else Neutral)"

text \<open>The loop \<open>while (safety < 24)\<close> of \<open>pickWeightedTrait\<close>, with the number of rounds
  left, and the fallback after the last round. An index beyond the pool reads
  \<open>undefined\<close>, which conflicts with nothing and is returned.\<close>

fun pickTraitLoop ::
  "StudentTrait list \<Rightarrow> TraitCategory \<Rightarrow> string list \<Rightarrow> (nat \<Rightarrow> real) \<Rightarrow> nat \<Rightarrow> nat
     \<Rightarrow> string option \<times> nat" where
  "pickTraitLoop table category blocked rnd pos 0 =
     (find (\<lambda>traitId. hasCategory table category traitId \<and> traitId \<notin> set blocked)
        (studentTraitIds table), pos)"
| "pickTraitLoop table category blocked rnd pos (Suc n) =
     (let bucket = weightedPick category (rnd pos);
          pool = filter (\<lambda>traitId. traitId \<notin> set blocked)
                   (getTraitPoolsByCategory table category bucket)
      in if pool = [] then pickTraitLoop table category blocked rnd (pos + 1) n
         else
          (let k = \<lfloor>rnd (pos + 1) * real (length pool)\<rfloor>
           in if 0 \<le> k \<and> nat k < length pool then
                (let traitId = pool ! nat k
                 in if list_ex (\<lambda>selected. hasTraitConflict table selected traitId) blocked
                    then pickTraitLoop table category blocked rnd (pos + 2) n
                    else (Some traitId, pos + 2))
              else (None, pos + 2)))"

definition pickWeightedTrait ::
  "StudentTrait list \<Rightarrow> TraitCategory \<Rightarrow> string list \<Rightarrow> (nat \<Rightarrow> real) \<Rightarrow> nat
     \<Rightarrow> string option \<times> nat" where
  "pickWeightedTrait table category blocked rnd pos =
     pickTraitLoop table category blocked rnd pos 24"

text \<open>The loop of \<open>pickWeightedTraits\<close>, with the number of rounds left.\<close>

fun pickTraitsLoop ::
  "StudentTrait list \<Rightarrow> TraitCategory \<Rightarrow> nat \<Rightarrow> string list \<Rightarrow> (nat \<Rightarrow> real) \<Rightarrow> nat
     \<Rightarrow> string list \<Rightarrow> nat \<Rightarrow> string list \<times> nat" where
  "pickTraitsLoop table category count blocked rnd pos picked 0 = (picked, pos)"
| "pickTraitsLoop table category count blocked rnd pos picked (Suc n) =
     (if \<not> length picked < count then (picked, pos)
      else
       (let drawn = pickWeightedTrait table category (blocked @ picked) rnd pos;
            traitId = fst drawn;
            pos' = snd drawn
        in if \<not> truthy_str traitId then (picked, pos')
           else if the traitId \<in> set picked
           then pickTraitsLoop table category count blocked rnd pos' picked n
           else if list_ex (\<lambda>selected. hasTraitConflict table selected (the traitId)) blocked
           then pickTraitsLoop table category count blocked rnd pos' picked n
           else if list_ex (\<lambda>selected. hasTraitConflict table selected (the traitId)) picked
           then pickTraitsLoop table category count blocked rnd pos' picked n
           else pickTraitsLoop table category count blocked rnd pos' (picked @ [the traitId]) n))"

definition pickWeightedTraits ::
  "StudentTrait list \<Rightarrow> TraitCategory \<Rightarrow> nat \<Rightarrow> string list \<Rightarrow> (nat \<Rightarrow> real) \<Rightarrow> nat
     \<Rightarrow> string list \<times> nat" where
  "pickWeightedTraits table category count blocked rnd pos =
     pickTraitsLoop table category count blocked rnd pos [] 24"

text \<open>\<open>Array.from(new Set(traits))\<close> keeps the first occurrence of every element.\<close>

definition uniqueInOrder :: "string list \<Rightarrow> string list" where
  "uniqueInOrder xs = rev (remdups (rev xs))"

text \<open>The \<open>forEach\<close> over the sub traits that the caller supplied.\<close>

definition keepSuppliedSubs ::
  "StudentTrait list \<Rightarrow> nat \<Rightarrow> string option \<Rightarrow> string list \<Rightarrow> string list" where
  "keepSuppliedSubs table desiredSubCount resolvedMain subTraits =
     foldl (\<lambda>resolvedSubs traitId.
              if length resolvedSubs \<ge> desiredSubCount then resolvedSubs
              else if truthy_str resolvedMain
                      \<and> hasTraitConflict table (the resolvedMain) traitId then resolvedSubs
              else resolvedSubs @ [traitId])
       [] subTraits"

definition resolveStudentTraits :: "StudentTrait list \<Rightarrow> (nat \<Rightarrow> real) \<Rightarrow> string list \<Rightarrow> string list" where
  "resolveStudentTraits table rnd traits_in =
     (let uniqueTraits = filter (\<lambda>traitId. studentTraitById table traitId \<noteq> None)
                           (uniqueInOrder traits_in);
          mainTrait = find (hasCategory table MainTrait) uniqueTraits;
          subTraits = filter (hasCategory table SubTrait) uniqueTraits;
          desiredSubCount = (if rnd 0 < 1 / 2 then 2 else 3 :: nat);
          drawnMain = (case mainTrait of
                         Some t \<Rightarrow> (Some t, 1)
                       | None \<Rightarrow> pickWeightedTrait table MainTrait [] rnd 1);
          resolvedMain = fst drawnMain;
          supplied = keepSuppliedSubs table desiredSubCount resolvedMain subTraits;
          drawnSubs = (if length supplied < desiredSubCount
                       then pickWeightedTraits table SubTrait (desiredSubCount - length supplied)
                              (if truthy_str resolvedMain then [the resolvedMain] else [])
                              rnd (snd drawnMain)
                       else ([], snd drawnMain));
          resolvedSubs = supplied @ fst drawnSubs;
          picked = (if truthy_str resolvedMain then [the resolvedMain] else [])
                     @ filter (\<lambda>t. t \<noteq> []) resolvedSubs
      in if picked \<noteq> [] then picked
         else fst (pickWeightedTraits table MainTrait 1 [] rnd (snd drawnSubs)))"

text \<open>A sample table: one main trait and three sub traits, of which \<open>nightowl\<close> and
  \<open>earlybird\<close> conflict.\<close>

definition sample_traits :: "StudentTrait list" where
  "sample_traits =
     [ \<lparr> id_t = ''steady'', category_t = MainTrait, polarity = Positive,
         conflicts = None, statBounds = None \<rparr>,
       \<lparr> id_t = ''nightowl'', category_t = SubTrait, polarity = Neutral,
         conflicts = Some [''earlybird''], statBounds = None \<rparr>,
       \<lparr> id_t = ''earlybird'', category_t = SubTrait, polarity = Positive,
         conflicts = Some [''nightowl''], statBounds = None \<rparr>,
       \<lparr> id_t = ''tidy'', category_t = SubTrait, polarity = Positive,
         conflicts = None, statBounds = None \<rparr> ]"

section \<open>Properties of the stat and delta model\<close>

lemma gauge_ok_clamp:
  "gauge_ok g \<Longrightarrow> gauge_ok (g\<lparr> value_g := clampValue v 0 (max_g g) \<rparr>)"
  by (simp add: gauge_ok_def clampValue_def)

lemma applyMentorDelta_ok: "mentor_ok stats \<Longrightarrow> mentor_ok (applyMentorDelta stats delta)"
  by (simp add: mentor_ok_def applyMentorDelta_def gauge_ok_clamp)

lemma attr_ok_clamp: "attr_ok (clampValue v 0 100)"
  by (simp add: attr_ok_def clampValue_def)

lemma applyStudentDelta_ok: "student_ok s \<Longrightarrow> student_ok (applyStudentDelta s delta)"
  by (simp add: student_ok_def applyStudentDelta_def attr_ok_clamp split: option.split)

lemma applyMentorDelta_reputation:
  "reputation (applyMentorDelta stats delta) =
     reputation stats + (case reputation_d delta of None \<Rightarrow> 0 | Some d \<Rightarrow> d)"
  by (simp add: applyMentorDelta_def truthy_def split: option.split)

lemma truthy_None: "truthy None = False"
  by (simp add: truthy_def)

lemma applyMentorDelta_absent:
  "(morale_d delta = None \<longrightarrow> morale (applyMentorDelta stats delta) = morale stats) \<and>
   (academia_d delta = None \<longrightarrow> academia (applyMentorDelta stats delta) = academia stats) \<and>
   (admin_d delta = None \<longrightarrow> admin (applyMentorDelta stats delta) = admin stats) \<and>
   (integrity_d delta = None \<longrightarrow> integrity (applyMentorDelta stats delta) = integrity stats) \<and>
   (funding_d delta = None \<longrightarrow> funding (applyMentorDelta stats delta) = funding stats) \<and>
   (reputation_d delta = None \<longrightarrow> reputation (applyMentorDelta stats delta) = reputation stats)"
  by (simp add: applyMentorDelta_def truthy_None)

lemma applyStudentDelta_absent:
  "(diligence_d delta = None \<longrightarrow> diligence (applyStudentDelta s delta) = diligence s) \<and>
   (talent_d delta = None \<longrightarrow> talent (applyStudentDelta s delta) = talent s) \<and>
   (luck_d delta = None \<longrightarrow> luck (applyStudentDelta s delta) = luck s) \<and>
   (stress_d delta = None \<longrightarrow> stress (applyStudentDelta s delta) = stress s) \<and>
   (mentalState_d delta = None \<longrightarrow> mentalState (applyStudentDelta s delta) = mentalState s) \<and>
   (contribution_d delta = None \<longrightarrow> contribution (applyStudentDelta s delta) = contribution s) \<and>
   (pendingPapers_d delta = None \<longrightarrow> pendingPapers (applyStudentDelta s delta) = pendingPapers s) \<and>
   (totalPapers_d delta = None \<longrightarrow> totalPapers (applyStudentDelta s delta) = totalPapers s)"
  by (simp add: applyStudentDelta_def)

text \<open>The fields that no delta names: the date of the mentor state, and of a student
  everything but the eight numeric fields.\<close>

lemma applyMentorDelta_date:
  "year (applyMentorDelta stats delta) = year stats \<and>
   quarter (applyMentorDelta stats delta) = quarter stats"
  by (simp add: applyMentorDelta_def)

lemma applyStudentDelta_frame:
  "applyStudentDelta s delta = s
     \<lparr> diligence := diligence (applyStudentDelta s delta),
       talent := talent (applyStudentDelta s delta),
       luck := luck (applyStudentDelta s delta),
       stress := stress (applyStudentDelta s delta),
       mentalState := mentalState (applyStudentDelta s delta),
       contribution := contribution (applyStudentDelta s delta),
       pendingPapers := pendingPapers (applyStudentDelta s delta),
       totalPapers := totalPapers (applyStudentDelta s delta) \<rparr>"
  by (simp add: applyStudentDelta_def)

text \<open>
  Claim C3, as stated, fails on a state that is out of range: a field that the delta does
  not name is returned as it is, whatever the other fields of the delta are, and for the
  mentor an amount of zero counts as no amount. Here a stress of 150 survives a delta that
  adds one million to the diligence, and a morale of 150 out of 100 survives a delta that
  names the morale with the amount zero and takes one million from the academia.
\<close>

theorem applyDelta_keeps_out_of_range:
  "stress (applyStudentDelta ((demo_student ''s1'')\<lparr> stress := 150 \<rparr>)
     (emptyStudentDelta\<lparr> diligence_d := Some 1000000 \<rparr>)) = 150 \<and>
   value_g (morale (applyMentorDelta (demo_stats\<lparr> morale := demo_gauge 150 \<rparr>)
     (emptyStatDelta\<lparr> morale_d := Some 0, academia_d := Some (- 1000000) \<rparr>))) = 150 \<and>
   max_g (morale (applyMentorDelta (demo_stats\<lparr> morale := demo_gauge 150 \<rparr>)
     (emptyStatDelta\<lparr> morale_d := Some 0, academia_d := Some (- 1000000) \<rparr>))) = 100"
  by (simp add: applyStudentDelta_def applyMentorDelta_def emptyStudentDelta_def
        emptyStatDelta_def truthy_def demo_student_def demo_stats_def demo_gauge_def)

lemma gauge_ok_clamp_any:
  "0 \<le> max_g g \<Longrightarrow> gauge_ok (g\<lparr> value_g := clampValue v 0 (max_g g) \<rparr>)"
  by (simp add: gauge_ok_def clampValue_def)

text \<open>What \<open>applyStudentDelta\<close> does to each field, from any student.\<close>

lemma applyStudentDelta_fields:
  "diligence (applyStudentDelta s sdelta) =
     (case diligence_d sdelta of None \<Rightarrow> diligence s
      | Some d \<Rightarrow> clampValue (diligence s + d) 0 100) \<and>
   talent (applyStudentDelta s sdelta) =
     (case talent_d sdelta of None \<Rightarrow> talent s | Some d \<Rightarrow> clampValue (talent s + d) 0 100) \<and>
   luck (applyStudentDelta s sdelta) =
     (case luck_d sdelta of None \<Rightarrow> luck s | Some d \<Rightarrow> clampValue (luck s + d) 0 100) \<and>
   stress (applyStudentDelta s sdelta) =
     (case stress_d sdelta of None \<Rightarrow> stress s | Some d \<Rightarrow> clampValue (stress s + d) 0 100) \<and>
   mentalState (applyStudentDelta s sdelta) =
     (case mentalState_d sdelta of None \<Rightarrow> mentalState s
      | Some d \<Rightarrow> clampValue (mentalState s + d) 0 100) \<and>
   contribution (applyStudentDelta s sdelta) =
     (case contribution_d sdelta of None \<Rightarrow> contribution s
      | Some d \<Rightarrow> clampValue (contribution s + d) 0 100) \<and>
   pendingPapers (applyStudentDelta s sdelta) =
     (case pendingPapers_d sdelta of None \<Rightarrow> pendingPapers s
      | Some d \<Rightarrow> max (pendingPapers s + d) 0) \<and>
   totalPapers (applyStudentDelta s sdelta) =
     (case totalPapers_d sdelta of None \<Rightarrow> totalPapers s
      | Some d \<Rightarrow> max (totalPapers s + d) 0)"
  by (simp add: applyStudentDelta_def)

lemma applyStudentDelta_present:
  "(diligence_d sdelta \<noteq> None \<longrightarrow> attr_ok (diligence (applyStudentDelta s sdelta))) \<and>
   (talent_d sdelta \<noteq> None \<longrightarrow> attr_ok (talent (applyStudentDelta s sdelta))) \<and>
   (luck_d sdelta \<noteq> None \<longrightarrow> attr_ok (luck (applyStudentDelta s sdelta))) \<and>
   (stress_d sdelta \<noteq> None \<longrightarrow> attr_ok (stress (applyStudentDelta s sdelta))) \<and>
   (mentalState_d sdelta \<noteq> None \<longrightarrow> attr_ok (mentalState (applyStudentDelta s sdelta))) \<and>
   (contribution_d sdelta \<noteq> None \<longrightarrow> attr_ok (contribution (applyStudentDelta s sdelta))) \<and>
   (pendingPapers_d sdelta \<noteq> None \<longrightarrow> 0 \<le> pendingPapers (applyStudentDelta s sdelta)) \<and>
   (totalPapers_d sdelta \<noteq> None \<longrightarrow> 0 \<le> totalPapers (applyStudentDelta s sdelta))"
  by (auto simp: applyStudentDelta_def attr_ok_clamp)

lemma applyStudentDelta_rest:
  "(applyStudentDelta s sdelta)
     \<lparr> diligence := diligence s, talent := talent s, luck := luck s, stress := stress s,
       mentalState := mentalState s, contribution := contribution s,
       pendingPapers := pendingPapers s, totalPapers := totalPapers s \<rparr> = s"
  by (simp add: applyStudentDelta_def)

text \<open>What \<open>applyMentorDelta\<close> does to each field, from any mentor state.\<close>

lemma applyMentorDelta_fields:
  "morale (applyMentorDelta stats delta) =
     (if truthy (morale_d delta)
      then (morale stats)\<lparr> value_g := clampValue (value_g (morale stats) + the (morale_d delta))
                                         0 (max_g (morale stats)) \<rparr>
      else morale stats) \<and>
   academia (applyMentorDelta stats delta) =
     (if truthy (academia_d delta)
      then (academia stats)\<lparr> value_g := clampValue (value_g (academia stats)
                                           + the (academia_d delta)) 0 (max_g (academia stats)) \<rparr>
      else academia stats) \<and>
   admin (applyMentorDelta stats delta) =
     (if truthy (admin_d delta)
      then (admin stats)\<lparr> value_g := clampValue (value_g (admin stats) + the (admin_d delta))
                                        0 (max_g (admin stats)) \<rparr>
      else admin stats) \<and>
   integrity (applyMentorDelta stats delta) =
     (if truthy (integrity_d delta)
      then (integrity stats)\<lparr> value_g := clampValue (value_g (integrity stats)
                                            + the (integrity_d delta)) 0 (max_g (integrity stats)) \<rparr>
      else integrity stats) \<and>
   funding (applyMentorDelta stats delta) =
     (if truthy (funding_d delta) then max (funding stats + the (funding_d delta)) 0
      else funding stats)"
  by (simp add: applyMentorDelta_def)

lemma applyMentorDelta_max_kept:
  "max_g (morale (applyMentorDelta stats delta)) = max_g (morale stats) \<and>
   max_g (academia (applyMentorDelta stats delta)) = max_g (academia stats) \<and>
   max_g (admin (applyMentorDelta stats delta)) = max_g (admin stats) \<and>
   max_g (integrity (applyMentorDelta stats delta)) = max_g (integrity stats)"
  by (simp add: applyMentorDelta_def)

lemma applyMentorDelta_present:
  "(truthy (morale_d delta) \<and> 0 \<le> max_g (morale stats) \<longrightarrow>
      gauge_ok (morale (applyMentorDelta stats delta))) \<and>
   (truthy (academia_d delta) \<and> 0 \<le> max_g (academia stats) \<longrightarrow>
      gauge_ok (academia (applyMentorDelta stats delta))) \<and>
   (truthy (admin_d delta) \<and> 0 \<le> max_g (admin stats) \<longrightarrow>
      gauge_ok (admin (applyMentorDelta stats delta))) \<and>
   (truthy (integrity_d delta) \<and> 0 \<le> max_g (integrity stats) \<longrightarrow>
      gauge_ok (integrity (applyMentorDelta stats delta))) \<and>
   (truthy (funding_d delta) \<longrightarrow> 0 \<le> funding (applyMentorDelta stats delta))"
  by (simp add: applyMentorDelta_def gauge_ok_clamp_any)

text \<open>
  Claim C3, amended. From every mentor state and every student, with a delta of any
  magnitude: a field that the delta names (for the mentor, with an amount that is not zero)
  becomes the old value plus the amount, clamped to its bound, so a student attribute ends
  in \<open>[0, 100]\<close>, a gauge in \<open>[0, max]\<close> when its maximum is not negative, with the
  maximum kept, and the funding and the two paper counters end not negative; the
  reputation is the old one plus the amount, with no clamp; every other field keeps its
  value. Hence a state within its bounds stays within them.
\<close>

theorem applyDelta_adds_then_clamps:
  "diligence (applyStudentDelta s sdelta) =
     (case diligence_d sdelta of None \<Rightarrow> diligence s
      | Some d \<Rightarrow> clampValue (diligence s + d) 0 100) \<and>
   talent (applyStudentDelta s sdelta) =
     (case talent_d sdelta of None \<Rightarrow> talent s | Some d \<Rightarrow> clampValue (talent s + d) 0 100) \<and>
   luck (applyStudentDelta s sdelta) =
     (case luck_d sdelta of None \<Rightarrow> luck s | Some d \<Rightarrow> clampValue (luck s + d) 0 100) \<and>
   stress (applyStudentDelta s sdelta) =
     (case stress_d sdelta of None \<Rightarrow> stress s | Some d \<Rightarrow> clampValue (stress s + d) 0 100) \<and>
   mentalState (applyStudentDelta s sdelta) =
     (case mentalState_d sdelta of None \<Rightarrow> mentalState s
      | Some d \<Rightarrow> clampValue (mentalState s + d) 0 100) \<and>
   contribution (applyStudentDelta s sdelta) =
     (case contribution_d sdelta of None \<Rightarrow> contribution s
      | Some d \<Rightarrow> clampValue (contribution s + d) 0 100) \<and>
   pendingPapers (applyStudentDelta s sdelta) =
     (case pendingPapers_d sdelta of None \<Rightarrow> pendingPapers s
      | Some d \<Rightarrow> max (pendingPapers s + d) 0) \<and>
   totalPapers (applyStudentDelta s sdelta) =
     (case totalPapers_d sdelta of None \<Rightarrow> totalPapers s
      | Some d \<Rightarrow> max (totalPapers s + d) 0) \<and>
   (applyStudentDelta s sdelta)
     \<lparr> diligence := diligence s, talent := talent s, luck := luck s, stress := stress s,
       mentalState := mentalState s, contribution := contribution s,
       pendingPapers := pendingPapers s, totalPapers := totalPapers s \<rparr> = s \<and>
   (diligence_d sdelta \<noteq> None \<longrightarrow> attr_ok (diligence (applyStudentDelta s sdelta))) \<and>
   (talent_d sdelta \<noteq> None \<longrightarrow> attr_ok (talent (applyStudentDelta s sdelta))) \<and>
   (luck_d sdelta \<noteq> None \<longrightarrow> attr_ok (luck (applyStudentDelta s sdelta))) \<and>
   (stress_d sdelta \<noteq> None \<longrightarrow> attr_ok (stress (applyStudentDelta s sdelta))) \<and>
   (mentalState_d sdelta \<noteq> None \<longrightarrow> attr_ok (mentalState (applyStudentDelta s sdelta))) \<and>
   (contribution_d sdelta \<noteq> None \<longrightarrow> attr_ok (contribution (applyStudentDelta s sdelta))) \<and>
   (pendingPapers_d sdelta \<noteq> None \<longrightarrow> 0 \<le> pendingPapers (applyStudentDelta s sdelta)) \<and>
   (totalPapers_d sdelta \<noteq> None \<longrightarrow> 0 \<le> totalPapers (applyStudentDelta s sdelta)) \<and>
   (student_ok s \<longrightarrow> student_ok (applyStudentDelta s sdelta)) \<and>
   morale (applyMentorDelta stats delta) =
     (if truthy (morale_d delta)
      then (morale stats)\<lparr> value_g := clampValue (value_g (morale stats) + the (morale_d delta))
                                         0 (max_g (morale stats)) \<rparr>
      else morale stats) \<and>
   academia (applyMentorDelta stats delta) =
     (if truthy (academia_d delta)
      then (academia stats)\<lparr> value_g := clampValue (value_g (academia stats)
                                           + the (academia_d delta)) 0 (max_g (academia stats)) \<rparr>
      else academia stats) \<and>
   admin (applyMentorDelta stats delta) =
     (if truthy (admin_d delta)
      then (admin stats)\<lparr> value_g := clampValue (value_g (admin stats) + the (admin_d delta))
                                        0 (max_g (admin stats)) \<rparr>
      else admin stats) \<and>
   integrity (applyMentorDelta stats delta) =
     (if truthy (integrity_d delta)
      then (integrity stats)\<lparr> value_g := clampValue (value_g (integrity stats)
                                            + the (integrity_d delta)) 0 (max_g (integrity stats)) \<rparr>
      else integrity stats) \<and>
   funding (applyMentorDelta stats delta) =
     (if truthy (funding_d delta) then max (funding stats + the (funding_d delta)) 0
      else funding stats) \<and>
   reputation (applyMentorDelta stats delta) =
     reputation stats + (case reputation_d delta of None \<Rightarrow> 0 | Some d \<Rightarrow> d) \<and>
   year (applyMentorDelta stats delta) = year stats \<and>
   quarter (applyMentorDelta stats delta) = quarter stats \<and>
   max_g (morale (applyMentorDelta stats delta)) = max_g (morale stats) \<and>
   max_g (academia (applyMentorDelta stats delta)) = max_g (academia stats) \<and>
   max_g (admin (applyMentorDelta stats delta)) = max_g (admin stats) \<and>
   max_g (integrity (applyMentorDelta stats delta)) = max_g (integrity stats) \<and>
   (truthy (morale_d delta) \<and> 0 \<le> max_g (morale stats) \<longrightarrow>
      gauge_ok (morale (applyMentorDelta stats delta))) \<and>
   (truthy (academia_d delta) \<and> 0 \<le> max_g (academia stats) \<longrightarrow>
      gauge_ok (academia (applyMentorDelta stats delta))) \<and>
   (truthy (admin_d delta) \<and> 0 \<le> max_g (admin stats) \<longrightarrow>
      gauge_ok (admin (applyMentorDelta stats delta))) \<and>
   (truthy (integrity_d delta) \<and> 0 \<le> max_g (integrity stats) \<longrightarrow>
      gauge_ok (integrity (applyMentorDelta stats delta))) \<and>
   (truthy (funding_d delta) \<longrightarrow> 0 \<le> funding (applyMentorDelta stats delta)) \<and>
   (mentor_ok stats \<longrightarrow> mentor_ok (applyMentorDelta stats delta))"
proof -
  have so: "student_ok s \<longrightarrow> student_ok (applyStudentDelta s sdelta)"
    by (simp add: applyStudentDelta_ok)
  have mo: "mentor_ok stats \<longrightarrow> mentor_ok (applyMentorDelta stats delta)"
    by (simp add: applyMentorDelta_ok)
  show ?thesis
    using applyStudentDelta_fields [of s sdelta] applyStudentDelta_present [of sdelta s]
      applyStudentDelta_rest [of s sdelta] so
      applyMentorDelta_fields [of stats delta] applyMentorDelta_reputation [of stats delta]
      applyMentorDelta_date [of stats delta] applyMentorDelta_max_kept [of stats delta]
      applyMentorDelta_present [of delta stats] mo
    by (elim conjE) (intro conjI; assumption)
qed

theorem applyDelta_adds_then_clamps_witness:
  "student_ok (demo_student ''s1'') \<and> mentor_ok demo_stats \<and>
   diligence (applyStudentDelta (demo_student ''s1'') demo_student_delta) = 100 \<and>
   talent (applyStudentDelta (demo_student ''s1'') demo_student_delta) = 0 \<and>
   luck (applyStudentDelta (demo_student ''s1'') demo_student_delta) = 58 \<and>
   pendingPapers (applyStudentDelta (demo_student ''s1'') demo_student_delta) = 1 \<and>
   student_ok (applyStudentDelta (demo_student ''s1'') demo_student_delta) \<and>
   value_g (morale (applyMentorDelta demo_stats demo_stat_delta)) = 100 \<and>
   value_g (academia (applyMentorDelta demo_stats demo_stat_delta)) = 0 \<and>
   funding (applyMentorDelta demo_stats demo_stat_delta) = 0 \<and>
   reputation (applyMentorDelta demo_stats demo_stat_delta) = - 497 \<and>
   mentor_ok (applyMentorDelta demo_stats demo_stat_delta)"
proof -
  have m: "mentor_ok demo_stats"
    by (simp add: mentor_ok_def gauge_ok_def demo_stats_def demo_gauge_def)
  have s: "student_ok (demo_student ''s1'')"
    by (simp add: student_ok_def attr_ok_def demo_student_def)
  have d: "diligence_d demo_student_delta = Some 1000000"
    "talent_d demo_student_delta = Some (- 1000000)" "luck_d demo_student_delta = None"
    "pendingPapers_d demo_student_delta = Some (- 1)"
    "morale_d demo_stat_delta = Some 1000000" "academia_d demo_stat_delta = Some (- 1000000)"
    "funding_d demo_stat_delta = Some (- 99999999)" "reputation_d demo_stat_delta = Some (- 500)"
    by (simp_all add: demo_stat_delta_def demo_student_delta_def)
  have v: "diligence (demo_student ''s1'') = 72" "talent (demo_student ''s1'') = 66"
    "luck (demo_student ''s1'') = 58" "pendingPapers (demo_student ''s1'') = 2"
    "morale demo_stats = demo_gauge 60" "academia demo_stats = demo_gauge 52"
    "funding demo_stats = 50000" "reputation demo_stats = 3"
    by (simp_all add: demo_stats_def demo_student_def)
  from applyDelta_adds_then_clamps [of "demo_student ''s1''" demo_student_delta demo_stats
      demo_stat_delta] m s
  show ?thesis
    by (simp add: d v truthy_def clampValue_def demo_gauge_def)
qed

section \<open>Properties of the grant lifecycle\<close>

lemma math_round_bounds:
  assumes "of_int a \<le> x" "x \<le> of_int b"
  shows "of_int a \<le> math_round x \<and> math_round x \<le> of_int b"
proof -
  have "a \<le> \<lfloor>x + 1 / 2\<rfloor>" using assms(1) by (simp add: le_floor_iff)
  moreover have "\<lfloor>x + 1 / 2\<rfloor> \<le> b"
  proof -
    have "x + 1 / 2 < of_int (b + 1)" using assms(2) by simp
    then have "\<lfloor>x + 1 / 2\<rfloor> < b + 1" by (simp only: floor_less_iff)
    then show ?thesis by simp
  qed
  ultimately show ?thesis by (simp add: math_round_def)
qed

lemma rollInRange_bounds:
  assumes "is_random r" "(a::int) \<le> b"
  shows "of_int a \<le> rollInRange (of_int a) (of_int b) r \<and>
         rollInRange (of_int a) (of_int b) r \<le> of_int b"
proof -
  let ?x = "of_int a + r * (of_int b - of_int a) :: real"
  have d: "(0::real) \<le> of_int b - of_int a" using assms(2) by simp
  have r: "0 \<le> r" "r \<le> 1" using assms(1) by (simp_all add: is_random_def)
  have "0 \<le> r * (of_int b - of_int a)" using r d by simp
  moreover have "r * (of_int b - of_int a) \<le> 1 * (of_int b - of_int a)"
    using r d by (intro mult_right_mono) simp_all
  ultimately have "of_int a \<le> ?x" "?x \<le> of_int b" by simp_all
  then show ?thesis unfolding rollInRange_def by (rule math_round_bounds)
qed

lemma luckTick_bounds:
  "is_random r \<Longrightarrow> - 3 \<le> rollInRange (- 3) 3 r \<and> rollInRange (- 3) 3 r \<le> 3"
  using rollInRange_bounds [of r "- 3" 3] by simp

lemma getGrantConfig_bands:
  "\<exists>config. getGrantConfig t = Some config \<and>
     scoreBands config = \<lparr> rejectBelow = 55, tierB = 65, tierA = 80 \<rparr>"
  by (cases t) (simp_all add: getGrantConfig_def grantConfigs_def)

lemma settleReviewingGrant_due:
  assumes "isQuarterReached currentStamp
             \<lparr> year_q = reviewEndYear grant, quarter_q = reviewEndQuarter grant \<rparr>"
  shows "status_g (fst (settleReviewingGrant config students currentStamp decisionStamp draws grant)) =
           (if finalScoreOf grant draws < rejectBelow (scoreBands config)
            then GRejected else GActive)"
    and "tier_g (fst (settleReviewingGrant config students currentStamp decisionStamp draws grant)) =
           (if finalScoreOf grant draws < rejectBelow (scoreBands config) then tier_g grant
            else if finalScoreOf grant draws \<ge> tierA (scoreBands config) then Some TierA
            else if finalScoreOf grant draws \<ge> tierB (scoreBands config) then Some TierB
            else Some TierC)"
  using assms by (simp_all add: settleReviewingGrant_def finalScoreOf_def Let_def)

lemma settleGrant_due:
  assumes "status_g grant = GReviewing"
    and "isQuarterReached currentStamp
           \<lparr> year_q = reviewEndYear grant, quarter_q = reviewEndQuarter grant \<rparr>"
  shows "status_g (fst (settleGrant students mentorStats papers currentStamp decisionStamp draws grant)) =
           (if finalScoreOf grant draws < 55 then GRejected else GActive)"
    and "tier_g (fst (settleGrant students mentorStats papers currentStamp decisionStamp draws grant)) =
           (if finalScoreOf grant draws < 55 then tier_g grant
            else if finalScoreOf grant draws \<ge> 80 then Some TierA
            else if finalScoreOf grant draws \<ge> 65 then Some TierB
            else Some TierC)"
proof -
  obtain config where c: "getGrantConfig (type_g grant) = Some config"
    "scoreBands config = \<lparr> rejectBelow = 55, tierB = 65, tierA = 80 \<rparr>"
    using getGrantConfig_bands by blast
  show "status_g (fst (settleGrant students mentorStats papers currentStamp decisionStamp draws grant)) =
           (if finalScoreOf grant draws < 55 then GRejected else GActive)"
    using settleReviewingGrant_due(1) [OF assms(2), of config students decisionStamp draws] c assms(1)
    by (simp add: settleGrant_def)
  show "tier_g (fst (settleGrant students mentorStats papers currentStamp decisionStamp draws grant)) =
           (if finalScoreOf grant draws < 55 then tier_g grant
            else if finalScoreOf grant draws \<ge> 80 then Some TierA
            else if finalScoreOf grant draws \<ge> 65 then Some TierB
            else Some TierC)"
    using settleReviewingGrant_due(2) [OF assms(2), of config students decisionStamp draws] c assms(1)
    by (simp add: settleGrant_def)
qed

lemma updatedGrants_nth:
  "k < length grants \<Longrightarrow>
   updatedGrants (settleGrants grants students mentorStats papers currentStamp decisionStamp draws) ! k =
     fst (settleGrant students mentorStats papers currentStamp decisionStamp (draws k) (grants ! k))"
  by (simp add: settleGrants_def Let_def nth_enumerate_eq)

text \<open>
  Claim C2. A grant under review with base score 70, score delta 0 and luck 0, settled by
  \<open>settleGrants\<close> at or after its review deadline, becomes active at tier B, whatever
  the random draws of the pass are: the luck tick of the quarter is between -3 and 3, so
  the final score is between 67 and 73. Both grant configurations have the bands
  55, 65 and 80.
\<close>

theorem scenario_A_resolves_to_tier_B:
  assumes "k < length grants"
    and "status_g (grants ! k) = GReviewing"
    and "baseScore (grants ! k) = 70" and "scoreDelta (grants ! k) = 0"
    and "luck_g (grants ! k) = 0"
    and "isQuarterReached currentStamp
           \<lparr> year_q = reviewEndYear (grants ! k), quarter_q = reviewEndQuarter (grants ! k) \<rparr>"
    and "is_random (luckRoll (draws k))"
  shows "status_g (updatedGrants
           (settleGrants grants students mentorStats papers currentStamp decisionStamp draws) ! k)
           = GActive \<and>
         tier_g (updatedGrants
           (settleGrants grants students mentorStats papers currentStamp decisionStamp draws) ! k)
           = Some TierB"
proof -
  have "- 3 \<le> rollInRange (- 3) 3 (luckRoll (draws k))"
    "rollInRange (- 3) 3 (luckRoll (draws k)) \<le> 3"
    using luckTick_bounds [OF assms(7)] by simp_all
  then have f: "67 \<le> finalScoreOf (grants ! k) (draws k)" "finalScoreOf (grants ! k) (draws k) \<le> 73"
    using assms(3,4,5) by (simp_all add: finalScoreOf_def)
  show ?thesis
    using f settleGrant_due [OF assms(2) assms(6), of students mentorStats papers decisionStamp "draws k"]
    by (simp add: updatedGrants_nth [OF assms(1)])
qed

theorem scenario_A_resolves_to_tier_B_witness:
  "(0::nat) < length [demo_grant 70] \<and>
   status_g ([demo_grant 70] ! 0) = GReviewing \<and>
   baseScore ([demo_grant 70] ! 0) = 70 \<and> scoreDelta ([demo_grant 70] ! 0) = 0 \<and>
   luck_g ([demo_grant 70] ! 0) = 0 \<and>
   isQuarterReached (demo_stamp 1 3)
     \<lparr> year_q = reviewEndYear ([demo_grant 70] ! 0),
       quarter_q = reviewEndQuarter ([demo_grant 70] ! 0) \<rparr> \<and>
   is_random (luckRoll (demo_draws (99 / 100))) \<and>
   status_g (updatedGrants (settleGrants [demo_grant 70] [demo_student ''s1''] demo_stats []
       (demo_stamp 1 3) (demo_stamp 1 4) (\<lambda>k. demo_draws (99 / 100))) ! 0) = GActive \<and>
   tier_g (updatedGrants (settleGrants [demo_grant 70] [demo_student ''s1''] demo_stats []
       (demo_stamp 1 3) (demo_stamp 1 4) (\<lambda>k. demo_draws (99 / 100))) ! 0) = Some TierB"
proof -
  have h: "(0::nat) < length [demo_grant 70]"
    "status_g ([demo_grant 70] ! 0) = GReviewing"
    "baseScore ([demo_grant 70] ! 0) = 70" "scoreDelta ([demo_grant 70] ! 0) = 0"
    "luck_g ([demo_grant 70] ! 0) = 0"
    "isQuarterReached (demo_stamp 1 3)
       \<lparr> year_q = reviewEndYear ([demo_grant 70] ! 0),
         quarter_q = reviewEndQuarter ([demo_grant 70] ! 0) \<rparr>"
    "is_random (luckRoll ((\<lambda>k. demo_draws (99 / 100)) (0::nat)))"
    by (simp_all add: demo_grant_def demo_stamp_def demo_draws_def isQuarterReached_def
          toQuarterIndex_def is_random_def)
  from scenario_A_resolves_to_tier_B [OF h, of "[demo_student ''s1'']" demo_stats "[]" "demo_stamp 1 4"] h
  show ?thesis by simp
qed

text \<open>
  Claim C7. Two settlement passes that differ only in the score delta of one grant under
  review, the second larger by \<open>\<Delta> > 0\<close>, with the same draws: at or after the review
  deadline the second outcome is never worse in the order rejected, tier C, tier B, tier A,
  and a grant that the first pass makes active is active in the second.
\<close>

theorem scoreDelta_monotonic:
  assumes "k < length grants"
    and "status_g (grants ! k) = GReviewing"
    and "isQuarterReached currentStamp
           \<lparr> year_q = reviewEndYear (grants ! k), quarter_q = reviewEndQuarter (grants ! k) \<rparr>"
    and "0 < \<Delta>"
  shows "reviewRank (updatedGrants
           (settleGrants grants students mentorStats papers currentStamp decisionStamp draws) ! k)
         \<le> reviewRank (updatedGrants
           (settleGrants (grants[k := (grants ! k)\<lparr> scoreDelta := scoreDelta (grants ! k) + \<Delta> \<rparr>])
              students mentorStats papers currentStamp decisionStamp draws) ! k) \<and>
         (status_g (updatedGrants
           (settleGrants grants students mentorStats papers currentStamp decisionStamp draws) ! k)
            = GActive \<longrightarrow>
          status_g (updatedGrants
           (settleGrants (grants[k := (grants ! k)\<lparr> scoreDelta := scoreDelta (grants ! k) + \<Delta> \<rparr>])
              students mentorStats papers currentStamp decisionStamp draws) ! k) = GActive)"
proof -
  let ?g = "grants ! k"
  let ?g' = "?g\<lparr> scoreDelta := scoreDelta ?g + \<Delta> \<rparr>"
  have f: "finalScoreOf ?g' (draws k) = finalScoreOf ?g (draws k) + \<Delta>"
    by (simp add: finalScoreOf_def)
  have s': "status_g ?g' = GReviewing" using assms(2) by simp
  have d': "isQuarterReached currentStamp
              \<lparr> year_q = reviewEndYear ?g', quarter_q = reviewEndQuarter ?g' \<rparr>"
    using assms(3) by simp
  have k': "k < length (grants[k := ?g'])" using assms(1) by simp
  have n: "grants[k := ?g'] ! k = ?g'" using assms(1) by simp
  note a = settleGrant_due [OF assms(2) assms(3), of students mentorStats papers decisionStamp "draws k"]
  note b = settleGrant_due [OF s' d', of students mentorStats papers decisionStamp "draws k"]
  show ?thesis
    using assms(4) a b f
    by (simp add: updatedGrants_nth [OF assms(1)] updatedGrants_nth [OF k'] n reviewRank_def)
qed

theorem scoreDelta_monotonic_witness:
  "(0::nat) < length [demo_grant 50] \<and>
   status_g ([demo_grant 50] ! 0) = GReviewing \<and>
   isQuarterReached (demo_stamp 1 3)
     \<lparr> year_q = reviewEndYear ([demo_grant 50] ! 0),
       quarter_q = reviewEndQuarter ([demo_grant 50] ! 0) \<rparr> \<and>
   (0::real) < 10 \<and>
   reviewRank (updatedGrants (settleGrants [demo_grant 50] [demo_student ''s1''] demo_stats []
       (demo_stamp 1 3) (demo_stamp 1 4) (\<lambda>k. demo_draws (1 / 2))) ! 0)
   \<le> reviewRank (updatedGrants (settleGrants
       ([demo_grant 50][0 := ([demo_grant 50] ! 0)
           \<lparr> scoreDelta := scoreDelta ([demo_grant 50] ! 0) + 10 \<rparr>])
       [demo_student ''s1''] demo_stats []
       (demo_stamp 1 3) (demo_stamp 1 4) (\<lambda>k. demo_draws (1 / 2))) ! 0)"
proof -
  have h: "(0::nat) < length [demo_grant 50]"
    "status_g ([demo_grant 50] ! 0) = GReviewing"
    "isQuarterReached (demo_stamp 1 3)
       \<lparr> year_q = reviewEndYear ([demo_grant 50] ! 0),
         quarter_q = reviewEndQuarter ([demo_grant 50] ! 0) \<rparr>"
    "(0::real) < 10"
    by (simp_all add: demo_grant_def demo_stamp_def isQuarterReached_def toQuarterIndex_def)
  from scoreDelta_monotonic [OF h, of "[demo_student ''s1'']" demo_stats "[]" "demo_stamp 1 4"
      "\<lambda>k. demo_draws (1 / 2)"] h
  show ?thesis by simp
qed

section \<open>Properties of the decision-due settlement\<close>

lemma updatedPapers_nth:
  "k < length papers \<Longrightarrow>
   updatedPapers (settleProjectPapers papers students mentorStats currentStamp decisionStamp rolls) ! k =
     fst (settlePaper students mentorStats currentStamp decisionStamp (rolls k) (papers ! k))"
  by (simp add: settleProjectPapers_def Let_def nth_enumerate_eq)

lemma updatedPapers_length:
  "length (updatedPapers
     (settleProjectPapers papers students mentorStats currentStamp decisionStamp rolls)) = length papers"
  by (simp add: settleProjectPapers_def Let_def)

lemma settlePaper_not_underReview:
  "status_p paper \<noteq> UnderReview \<Longrightarrow>
   settlePaper students mentorStats currentStamp decisionStamp rolls paper = (paper, noPaperOut)"
  by (simp add: settlePaper_def)

text \<open>
  Claim C9. The settlement pass returns every paper whose status is not
  \<open>underReview\<close>, so every accepted or rejected paper, as it is, at the same place of
  the list, and such a paper adds nothing to the stat delta, the student deltas, the
  decisions and the log.
\<close>

theorem terminal_paper_unchanged:
  assumes "k < length papers" and "status_p (papers ! k) \<noteq> UnderReview"
  shows "updatedPapers
           (settleProjectPapers papers students mentorStats currentStamp decisionStamp rolls) ! k
           = papers ! k \<and>
         length (updatedPapers
           (settleProjectPapers papers students mentorStats currentStamp decisionStamp rolls))
           = length papers \<and>
         settlePaper students mentorStats currentStamp decisionStamp (rolls k) (papers ! k)
           = (papers ! k, noPaperOut)"
  using assms
  by (simp add: updatedPapers_nth updatedPapers_length settlePaper_not_underReview)

theorem terminal_paper_unchanged_witness:
  "(1::nat) < length [demo_paper UnderReview, demo_paper Accepted] \<and>
   status_p ([demo_paper UnderReview, demo_paper Accepted] ! 1) \<noteq> UnderReview \<and>
   updatedPapers (settleProjectPapers [demo_paper UnderReview, demo_paper Accepted]
       [demo_student ''s1''] demo_stats (demo_stamp 2 1) (demo_stamp 2 2)
       (\<lambda>k. (1 / 100, 1 / 2))) ! 1 = demo_paper Accepted"
proof -
  have h: "(1::nat) < length [demo_paper UnderReview, demo_paper Accepted]"
    "status_p ([demo_paper UnderReview, demo_paper Accepted] ! 1) \<noteq> UnderReview"
    by (simp_all add: demo_paper_def)
  from terminal_paper_unchanged [OF h, of "[demo_student ''s1'']" demo_stats "demo_stamp 2 1"
      "demo_stamp 2 2" "\<lambda>k. (1 / 100, 1 / 2)"] h
  show ?thesis by simp
qed

lemma clampValue_bounds:
  "lo \<le> hi \<Longrightarrow> lo \<le> clampValue v lo hi \<and> clampValue v lo hi \<le> hi"
  by (simp add: clampValue_def)

lemma acceptChanceOf_bounds:
  "6 / 100 \<le> acceptChanceOf students mentorStats paper \<and>
   acceptChanceOf students mentorStats paper \<le> 85 / 100"
  unfolding acceptChanceOf_def Let_def by (rule clampValue_bounds) simp

lemma revisionChanceOf_bounds:
  "0 < revisionChanceOf students mentorStats paper \<and>
   acceptChanceOf students mentorStats paper + revisionChanceOf students mentorStats paper \<le> 95 / 100 \<and>
   revisionChanceOf students mentorStats paper \<le>
     clampValue (baseRevision (effectiveTier paper) - revisionRound paper * (8 / 100))
       (15 / 100) (75 / 100)"
proof -
  let ?a = "acceptChanceOf students mentorStats paper"
  let ?rc = "clampValue (baseRevision (effectiveTier paper) - revisionRound paper * (8 / 100))
       (15 / 100) (75 / 100)"
  have a: "?a \<le> 85 / 100" using acceptChanceOf_bounds by simp
  have rc: "15 / 100 \<le> ?rc"
    using clampValue_bounds [of "15 / 100" "75 / 100"] by simp
  show ?thesis
  proof (cases "?a + ?rc > 95 / 100")
    case True
    then have "revisionChanceOf students mentorStats paper = 95 / 100 - ?a"
      by (simp add: revisionChanceOf_def Let_def)
    then show ?thesis using a True by simp
  next
    case False
    then have "revisionChanceOf students mentorStats paper = ?rc"
      by (simp add: revisionChanceOf_def Let_def)
    then show ?thesis using rc False by simp
  qed
qed

lemma settlePaper_due_status:
  assumes "status_p paper = UnderReview"
    and "truthy (decisionDueYear paper)" and "truthy (decisionDueQuarter paper)"
    and "isQuarterReached currentStamp
           \<lparr> year_q = the (decisionDueYear paper), quarter_q = the (decisionDueQuarter paper) \<rparr>"
  shows "status_p (fst (settlePaper students mentorStats currentStamp decisionStamp rolls paper)) =
           (if fst rolls < acceptChanceOf students mentorStats paper then Accepted
            else if fst rolls < acceptChanceOf students mentorStats paper
                                  + revisionChanceOf students mentorStats paper
            then AwaitingRevision else Rejected)"
  using assms by (simp add: settlePaper_def Let_def)

text \<open>
  Claim C1. A paper under review whose decision-due year and quarter are set and reached
  gets its verdict from one roll: accepted below \<open>acceptChance\<close>, revision below
  \<open>acceptChance + revisionChance\<close>, rejected otherwise. \<open>acceptChance\<close> is the clamp
  to \<open>[0.06, 0.85]\<close> of the base acceptance of the tier (0.18, 0.28, 0.42 for A, B, C; a
  paper without a tier counts as C) plus the academia boost, the lead boost and the
  revision boost, minus the stress penalty. When the two chances would exceed 0.95, the
  revision chance alone becomes \<open>0.95 - acceptChance\<close>; the sum is at most 0.95.
\<close>

theorem verdict_against_acceptChance:
  assumes "k < length papers"
    and "status_p (papers ! k) = UnderReview"
    and "truthy (decisionDueYear (papers ! k))" and "truthy (decisionDueQuarter (papers ! k))"
    and "isQuarterReached currentStamp
           \<lparr> year_q = the (decisionDueYear (papers ! k)),
             quarter_q = the (decisionDueQuarter (papers ! k)) \<rparr>"
  shows
    "(let paper = papers ! k;
          tier = (case venueTier paper of None \<Rightarrow> TierC | Some t \<Rightarrow> t);
          lead = resolveLeadStudent students paper;
          academiaBoost = value_g (academia mentorStats) / 260;
          leadBoost = (case lead of Some l \<Rightarrow> (talent l + diligence l) / 650 | None \<Rightarrow> 0);
          revisionBoost = revisionRound paper * (6 / 100);
          stressPenalty = (case lead of Some l \<Rightarrow> stress l / 650 | None \<Rightarrow> 0);
          acceptChance = clampValue (baseAcceptance tier + academiaBoost + leadBoost
                                       + revisionBoost - stressPenalty) (6 / 100) (85 / 100);
          rawRevision = clampValue (baseRevision tier - revisionRound paper * (8 / 100))
                          (15 / 100) (75 / 100);
          revisionChance = (if acceptChance + rawRevision > 95 / 100
                            then 95 / 100 - acceptChance else rawRevision);
          roll = fst (rolls k)
      in status_p (updatedPapers (settleProjectPapers papers students mentorStats currentStamp
                     decisionStamp rolls) ! k) =
           (if roll < acceptChance then Accepted
            else if roll < acceptChance + revisionChance then AwaitingRevision
            else Rejected) \<and>
         6 / 100 \<le> acceptChance \<and> acceptChance \<le> 85 / 100 \<and>
         0 < revisionChance \<and> revisionChance \<le> rawRevision \<and>
         acceptChance + revisionChance \<le> 95 / 100) \<and>
     baseAcceptance TierA = 18 / 100 \<and> baseAcceptance TierB = 28 / 100 \<and>
     baseAcceptance TierC = 42 / 100"
proof -
  let ?p = "papers ! k"
  have a: "acceptChanceOf students mentorStats ?p =
      clampValue (baseAcceptance (case venueTier ?p of None \<Rightarrow> TierC | Some t \<Rightarrow> t)
        + value_g (academia mentorStats) / 260
        + (case resolveLeadStudent students ?p of Some l \<Rightarrow> (talent l + diligence l) / 650 | None \<Rightarrow> 0)
        + revisionRound ?p * (6 / 100)
        - (case resolveLeadStudent students ?p of Some l \<Rightarrow> stress l / 650 | None \<Rightarrow> 0))
        (6 / 100) (85 / 100)"
    by (simp add: acceptChanceOf_def Let_def effectiveTier_def)
  have r: "revisionChanceOf students mentorStats ?p =
      (if acceptChanceOf students mentorStats ?p
            + clampValue (baseRevision (case venueTier ?p of None \<Rightarrow> TierC | Some t \<Rightarrow> t)
                - revisionRound ?p * (8 / 100)) (15 / 100) (75 / 100) > 95 / 100
       then 95 / 100 - acceptChanceOf students mentorStats ?p
       else clampValue (baseRevision (case venueTier ?p of None \<Rightarrow> TierC | Some t \<Rightarrow> t)
                - revisionRound ?p * (8 / 100)) (15 / 100) (75 / 100))"
    by (simp add: revisionChanceOf_def Let_def effectiveTier_def)
  note s = settlePaper_due_status [OF assms(2-5), of students mentorStats decisionStamp "rolls k"]
  note b = acceptChanceOf_bounds [of students mentorStats ?p]
  note c = revisionChanceOf_bounds [of students mentorStats ?p]
  have t: "baseAcceptance TierA = 18 / 100 \<and> baseAcceptance TierB = 28 / 100 \<and>
     baseAcceptance TierC = 42 / 100"
    by (simp add: baseAcceptance_def)
  show ?thesis
    unfolding Let_def updatedPapers_nth [OF assms(1)]
    using s b c t unfolding r a effectiveTier_def by simp
qed
theorem verdict_against_acceptChance_witness:
  "(0::nat) < length [demo_paper UnderReview] \<and>
   status_p ([demo_paper UnderReview] ! 0) = UnderReview \<and>
   truthy (decisionDueYear ([demo_paper UnderReview] ! 0)) \<and>
   truthy (decisionDueQuarter ([demo_paper UnderReview] ! 0)) \<and>
   isQuarterReached (demo_stamp 2 1)
     \<lparr> year_q = the (decisionDueYear ([demo_paper UnderReview] ! 0)),
       quarter_q = the (decisionDueQuarter ([demo_paper UnderReview] ! 0)) \<rparr> \<and>
   status_p (updatedPapers (settleProjectPapers [demo_paper UnderReview] [demo_student ''s1'']
       demo_stats (demo_stamp 2 1) (demo_stamp 2 2) (\<lambda>k. (1 / 100, 1 / 2))) ! 0) = Accepted"
proof -
  have h: "(0::nat) < length [demo_paper UnderReview]"
    "status_p ([demo_paper UnderReview] ! 0) = UnderReview"
    "truthy (decisionDueYear ([demo_paper UnderReview] ! 0))"
    "truthy (decisionDueQuarter ([demo_paper UnderReview] ! 0))"
    "isQuarterReached (demo_stamp 2 1)
       \<lparr> year_q = the (decisionDueYear ([demo_paper UnderReview] ! 0)),
         quarter_q = the (decisionDueQuarter ([demo_paper UnderReview] ! 0)) \<rparr>"
    by (simp_all add: demo_paper_def demo_stamp_def truthy_def isQuarterReached_def
          toQuarterIndex_def)
  from verdict_against_acceptChance [OF h, where students = "[demo_student ''s1'']"
      and mentorStats = demo_stats and decisionStamp = "demo_stamp 2 2"
      and rolls = "\<lambda>k. (1 / 100, 1 / 2)"]
  have "status_p (updatedPapers (settleProjectPapers [demo_paper UnderReview] [demo_student ''s1'']
       demo_stats (demo_stamp 2 1) (demo_stamp 2 2) (\<lambda>k. (1 / 100, 1 / 2))) ! 0) = Accepted"
    unfolding Let_def by (simp split: if_splits)
  with h show ?thesis by simp
qed

section \<open>Properties of the progress accrual\<close>

lemma math_round_Ints: "math_round x \<in> \<int>"
  by (simp add: math_round_def)

lemma rollInRange_Ints: "rollInRange lo hi r \<in> \<int>"
  by (simp add: rollInRange_def math_round_Ints)

lemma clampValue_Ints: "v \<in> \<int> \<Longrightarrow> lo \<in> \<int> \<Longrightarrow> hi \<in> \<int> \<Longrightarrow> clampValue v lo hi \<in> \<int>"
  by (simp add: clampValue_def max_def min_def)

text \<open>The progress gain of a quarter is an integer, between 60 and 100 on the burst path
  and between 20 and 40 otherwise.\<close>

lemma calcPaperProgressGain_range:
  "calcPaperProgressGain student n draws \<in> \<int> \<and>
   (if burstEligible student \<and> burstRoll draws < burstChance student
    then 60 \<le> calcPaperProgressGain student n draws \<and> calcPaperProgressGain student n draws \<le> 100
    else 20 \<le> calcPaperProgressGain student n draws \<and> calcPaperProgressGain student n draws \<le> 40)"
proof (cases "burstEligible student \<and> burstRoll draws < burstChance student")
  case True
  then have e: "calcPaperProgressGain student n draws =
      clampValue (80 + rollInRange (- 20) 20 (burstSizeRoll draws)) 60 100"
    by (simp add: calcPaperProgressGain_def Let_def)
  have "80 + rollInRange (- 20) 20 (burstSizeRoll draws) \<in> \<int>"
    by (intro Ints_add rollInRange_Ints) simp
  then have "clampValue (80 + rollInRange (- 20) 20 (burstSizeRoll draws)) 60 100 \<in> \<int>"
    by (rule clampValue_Ints) simp_all
  then show ?thesis
    using True e clampValue_bounds [of 60 100 "80 + rollInRange (- 20) 20 (burstSizeRoll draws)"]
    by simp
next
  case False
  then obtain x where e: "calcPaperProgressGain student n draws = clampValue (math_round x) 20 40"
    by (simp add: calcPaperProgressGain_def Let_def)
  have "clampValue (math_round x) 20 40 \<in> \<int>"
    by (rule clampValue_Ints) (simp_all add: math_round_Ints)
  then show ?thesis
    using False e clampValue_bounds [of 20 40 "math_round x"] by simp
qed

lemma calcPaperProgressGain_ge_20: "20 \<le> calcPaperProgressGain student n draws"
  using calcPaperProgressGain_range [of student n draws] by (simp split: if_splits)

text \<open>When the old contribution and the gain reach 100, one paper is submitted and the
  contribution restarts from 0, whatever the sum was.\<close>

lemma accrueProgress_full:
  assumes "100 \<le> contribution student + calcPaperProgressGain student
                     (orZero (counts (id_s student))) draws"
  shows "contribution (fst (accrueProgress counts draws student)) = 0 \<and>
         pendingPapers (fst (accrueProgress counts draws student)) = pendingPapers student + 1 \<and>
         mentalState (fst (accrueProgress counts draws student)) =
           clampValue (mentalState student - 2) 0 100 \<and>
         stress (fst (accrueProgress counts draws student)) =
           clampValue (stress student + 3) 0 100"
proof -
  have c: "clampValue (contribution student + calcPaperProgressGain student
                     (orZero (counts (id_s student))) draws) 0 100 = 100"
    using assms by (simp add: clampValue_def)
  show ?thesis
    by (simp add: accrueProgress_def Let_def c math_floor_def)
qed

lemma accrueProgress_partial:
  assumes "contribution student + calcPaperProgressGain student
             (orZero (counts (id_s student))) draws < 100"
  shows "contribution (fst (accrueProgress counts draws student)) =
           max 0 (contribution student + calcPaperProgressGain student
                    (orZero (counts (id_s student))) draws) \<and>
         pendingPapers (fst (accrueProgress counts draws student)) = pendingPapers student \<and>
         mentalState (fst (accrueProgress counts draws student)) = mentalState student \<and>
         stress (fst (accrueProgress counts draws student)) = stress student"
proof -
  let ?c = "clampValue (contribution student + calcPaperProgressGain student
                     (orZero (counts (id_s student))) draws) 0 100"
  have c: "?c = max 0 (contribution student + calcPaperProgressGain student
                     (orZero (counts (id_s student))) draws)"
    using assms by (simp add: clampValue_def)
  have "0 \<le> ?c" "?c < 100" using assms by (simp_all add: clampValue_def)
  then have "0 \<le> ?c / 100" "?c / 100 < 1" by simp_all
  then have f: "\<lfloor>?c / 100\<rfloor> = 0" by linarith
  show ?thesis
    unfolding accrueProgress_def Let_def math_floor_def f by (simp add: c)
qed

text \<open>
  Claim C6. The gain of a quarter is an integer in \<open>[20, 40]\<close>, or in \<open>[60, 100]\<close> on the
  burst path (\<open>calcPaperProgressGain_range\<close>). The accumulated contribution is not
  carried over: a student with contribution 90 gains at least 20, the sum is clamped to 100
  before the full hundreds are counted, so one paper is submitted and the contribution
  restarts from 0 instead of the 10 or more that exceed the hundred. This holds for all
  draws and all projects.
\<close>

theorem remainder_not_carried_over:
  "updatedStudents_rs (settleResearchPapers [(demo_student ''s1'')\<lparr> contribution := 90 \<rparr>]
      mentorStats projects draws candidateRolls cursorRoll) =
     [(demo_student ''s1'')\<lparr> contribution := 0, pendingPapers := 3, mentalState := 94,
                             stress := 21 \<rparr>] \<and>
   90 + calcPaperProgressGain ((demo_student ''s1'')\<lparr> contribution := 90 \<rparr>)
          (orZero (buildActiveProjectCountByStudentId projects ''s1'')) (draws 0) - 100 \<ge> 10"
proof -
  let ?s = "(demo_student ''s1'')\<lparr> contribution := 90 \<rparr>"
  let ?counts = "buildActiveProjectCountByStudentId projects"
  have i: "id_s ?s = ''s1''" by (simp add: demo_student_def)
  have g: "20 \<le> calcPaperProgressGain ?s (orZero (?counts ''s1'')) (draws 0)"
    by (rule calcPaperProgressGain_ge_20)
  have "100 \<le> contribution ?s + calcPaperProgressGain ?s (orZero (?counts (id_s ?s))) (draws 0)"
    using g unfolding i by simp
  then have c: "clampValue (contribution ?s + calcPaperProgressGain ?s
                  (orZero (?counts (id_s ?s))) (draws 0)) 0 100 = 100"
    by (simp add: clampValue_def)
  have "fst (accrueProgress ?counts (draws 0) ?s) =
      (demo_student ''s1'')\<lparr> contribution := 0, pendingPapers := 3, mentalState := 94,
                             stress := 21 \<rparr>"
    unfolding accrueProgress_def Let_def c
    by (simp add: math_floor_def demo_student_def clampValue_def)
  then show ?thesis
    using g by (simp add: settleResearchPapers_def Let_def)
qed

section \<open>Properties of the mentorship rebuild\<close>

lemma map_fst_map_set:
  "map fst (map_set k v ps) = (if k \<in> fst ` set ps then map fst ps else map fst ps @ [k])"
  by (induction ps) auto

lemma distinct_map_set:
  "distinct (map fst ps) \<Longrightarrow> distinct (map fst (map_set k v ps))"
  by (simp add: map_fst_map_set)

lemma map_of_map_set: "map_of (map_set k v ps) = (map_of ps)(k \<mapsto> v)"
  by (induction ps) auto

lemma set_map_set:
  "distinct (map fst ps) \<Longrightarrow> set (map_set k v ps) = insert (k, v) {p \<in> set ps. fst p \<noteq> k}"
proof (induction ps)
  case Nil
  then show ?case by simp
next
  case (Cons p ps)
  then show ?case by (cases p) (auto simp: rev_image_eqI)
qed


lemma keyed_map_set:
  "keyed m \<Longrightarrow> id_s v = k \<Longrightarrow> keyed (map_set k v m)"
  by (auto simp: keyed_def distinct_map_set set_map_set)

lemma roster_map:
  "keyed acc \<Longrightarrow>
   keyed (foldl (\<lambda>m student. map_set (id_s student) student m) acc students) \<and>
   fst ` set (foldl (\<lambda>m student. map_set (id_s student) student m) acc students) =
     fst ` set acc \<union> set (map id_s students)"
proof (induction students arbitrary: acc)
  case Nil
  then show ?case by simp
next
  case (Cons s students)
  have k: "keyed (map_set (id_s s) s acc)" using Cons.prems by (simp add: keyed_map_set)
  have f: "fst ` set (map_set (id_s s) s acc) = insert (id_s s) (fst ` set acc)"
    using map_fst_map_set [of "id_s s" s acc]
    by (metis (no_types, lifting) insert_absorb list.set_map set_append list.simps(15) Un_insert_right
        sup_bot.right_neutral empty_set)
  show ?case using Cons.IH [OF k] f by auto
qed

lemma roster_map_distinct:
  "distinct (map fst acc @ map id_s students) \<Longrightarrow>
   foldl (\<lambda>m student. map_set (id_s student) student m) acc students =
     acc @ map (\<lambda>student. (id_s student, student)) students"
proof (induction students arbitrary: acc)
  case Nil
  then show ?case by simp
next
  case (Cons s students)
  have n: "id_s s \<notin> fst ` set acc" using Cons.prems by auto
  have m: "map_set (id_s s) s acc = acc @ [(id_s s, s)]"
    using n by (induction acc) auto
  have d: "distinct (map fst (acc @ [(id_s s, s)]) @ map id_s students)"
    using Cons.prems by auto
  show ?case using Cons.IH [OF d] m by simp
qed

lemma applyMentorInfluence_id: "id_s (applyMentorInfluence table mentee mentor) = id_s mentee"
  by (simp add: applyMentorInfluence_def Let_def)

lemma influencePair_keys:
  "map fst (influencePair table m pair) = map fst m"
proof (cases "map_of m (fst pair)")
  case None
  then show ?thesis by (simp add: influencePair_def)
next
  case (Some mentor)
  show ?thesis
  proof (cases "map_of m (snd pair)")
    case None
    then show ?thesis using Some by (simp add: influencePair_def)
  next
    case (Some mentee)
    then have "snd pair \<in> fst ` set m" by (metis map_of_eq_None_iff option.distinct(1))
    then show ?thesis using Some \<open>map_of m (fst pair) = Some mentor\<close>
      by (simp add: influencePair_def map_fst_map_set)
  qed
qed

lemma influencePair_keyed: "keyed m \<Longrightarrow> keyed (influencePair table m pair)"
proof (cases "map_of m (fst pair)")
  case None
  then show "keyed m \<Longrightarrow> ?thesis" by (simp add: influencePair_def)
next
  case (Some mentor)
  assume k: "keyed m"
  show ?thesis
  proof (cases "map_of m (snd pair)")
    case None
    then show ?thesis using Some k by (simp add: influencePair_def)
  next
    case (Some mentee)
    then have "(snd pair, mentee) \<in> set m" by (rule map_of_SomeD)
    then have "id_s mentee = snd pair" using k by (auto simp: keyed_def)
    then show ?thesis using Some \<open>map_of m (fst pair) = Some mentor\<close> k
      by (simp add: influencePair_def keyed_map_set applyMentorInfluence_id)
  qed
qed

lemma influence_fold_keys:
  "map fst (foldl (influencePair table) m pairs) = map fst m"
  by (induction pairs arbitrary: m) (simp_all add: influencePair_keys)

lemma influence_fold_keyed:
  "keyed m \<Longrightarrow> keyed (foldl (influencePair table) m pairs)"
  by (induction pairs arbitrary: m) (simp_all add: influencePair_keyed)
lemma claims_iff: "claims students s x \<longleftrightarrow> claimsIn (set (map id_s students)) s x"
  by (simp add: claims_def claimsIn_def)

lemma claimMentors_skip:
  "(\<forall>m. \<not> claimsIn ids s m) \<Longrightarrow> claimMentors ids (s # rest) used = claimMentors ids rest used"
  by (cases "mentorId s") (auto simp: claimsIn_def truthy_str_def)

lemma claimMentors_used:
  "claimsIn ids s m \<Longrightarrow> m \<in> used \<Longrightarrow>
   claimMentors ids (s # rest) used = claimMentors ids rest used"
  by (auto simp: claimsIn_def truthy_str_def)

lemma claimMentors_take:
  "claimsIn ids s m \<Longrightarrow> m \<notin> used \<Longrightarrow>
   claimMentors ids (s # rest) used = (m, id_s s) # claimMentors ids rest (insert m used)"
  by (auto simp: claimsIn_def truthy_str_def)

lemma claimsIn_unique: "claimsIn ids s m \<Longrightarrow> claimsIn ids s m' \<Longrightarrow> m = m'"
  by (simp add: claimsIn_def)

text \<open>Every pair comes from the first student of the list who claims its mentor, and that
  mentor was not used before.\<close>

lemma claimMentors_sound:
  "(m, e) \<in> set (claimMentors ids xs used) \<Longrightarrow>
   m \<notin> used \<and> (\<exists>i<length xs. id_s (xs ! i) = e \<and> claimsIn ids (xs ! i) m \<and>
                   (\<forall>j<i. \<not> claimsIn ids (xs ! j) m))"
proof (induction xs arbitrary: used)
  case Nil
  then show ?case by simp
next
  case (Cons s rest)
  show ?case
  proof (cases "\<exists>m0. claimsIn ids s m0")
    case False
    then have n: "\<not> claimsIn ids s m" by blast
    from False Cons.prems have "(m, e) \<in> set (claimMentors ids rest used)"
      by (simp add: claimMentors_skip del: claimMentors.simps)
    from Cons.IH [OF this] obtain i where i: "m \<notin> used" "i < length rest" "id_s (rest ! i) = e"
      "claimsIn ids (rest ! i) m" "\<forall>j<i. \<not> claimsIn ids (rest ! j) m" by blast
    have "\<forall>j<Suc i. \<not> claimsIn ids ((s # rest) ! j) m"
      using i(5) n by (auto simp: less_Suc_eq_0_disj)
    then show ?thesis using i by (intro conjI exI [of _ "Suc i"]) auto
  next
    case True
    then obtain m0 where m0: "claimsIn ids s m0" by blast
    show ?thesis
    proof (cases "m0 \<in> used")
      case True
      with m0 Cons.prems have "(m, e) \<in> set (claimMentors ids rest used)"
        by (simp add: claimMentors_used del: claimMentors.simps)
      from Cons.IH [OF this] obtain i where i: "m \<notin> used" "i < length rest" "id_s (rest ! i) = e"
        "claimsIn ids (rest ! i) m" "\<forall>j<i. \<not> claimsIn ids (rest ! j) m" by blast
      have "m \<noteq> m0" using True i(1) by blast
      then have n: "\<not> claimsIn ids s m" using m0 claimsIn_unique by blast
      have "\<forall>j<Suc i. \<not> claimsIn ids ((s # rest) ! j) m"
        using i(5) n by (auto simp: less_Suc_eq_0_disj)
      then show ?thesis using i by (intro conjI exI [of _ "Suc i"]) auto
    next
      case False
      with m0 Cons.prems have d: "(m, e) = (m0, id_s s) \<or>
          (m, e) \<in> set (claimMentors ids rest (insert m0 used))"
        by (simp add: claimMentors_take del: claimMentors.simps)
      show ?thesis
      proof (cases "(m, e) = (m0, id_s s)")
        case True
        then show ?thesis using m0 False by (intro conjI exI [of _ 0]) auto
      next
        case neq: False
        with d have "(m, e) \<in> set (claimMentors ids rest (insert m0 used))" by blast
        from Cons.IH [OF this] obtain i where i: "m \<notin> insert m0 used" "i < length rest"
          "id_s (rest ! i) = e" "claimsIn ids (rest ! i) m"
          "\<forall>j<i. \<not> claimsIn ids (rest ! j) m" by blast
        have "m \<noteq> m0" using i(1) by blast
        then have n: "\<not> claimsIn ids s m" using m0 claimsIn_unique by blast
        have "\<forall>j<Suc i. \<not> claimsIn ids ((s # rest) ! j) m"
          using i(5) n by (auto simp: less_Suc_eq_0_disj)
        then show ?thesis using i by (intro conjI exI [of _ "Suc i"]) auto
      qed
    qed
  qed
qed

text \<open>The first student who claims a mentor not used so far gets the pair.\<close>

lemma claimMentors_complete:
  "i < length xs \<Longrightarrow> claimsIn ids (xs ! i) m \<Longrightarrow> m \<notin> used \<Longrightarrow>
   (\<forall>j<i. \<not> claimsIn ids (xs ! j) m) \<Longrightarrow>
   (m, id_s (xs ! i)) \<in> set (claimMentors ids xs used)"
proof (induction xs arbitrary: i used)
  case Nil
  then show ?case by simp
next
  case (Cons s rest)
  show ?case
  proof (cases i)
    case 0
    then show ?thesis using Cons.prems by (simp add: claimMentors_take del: claimMentors.simps)
  next
    case (Suc i')
    have n: "\<not> claimsIn ids s m" using Cons.prems(4) Suc by auto
    have p: "i' < length rest" "claimsIn ids (rest ! i') m"
      "\<forall>j<i'. \<not> claimsIn ids (rest ! j) m"
      using Cons.prems Suc by auto
    show ?thesis
    proof (cases "\<exists>m0. claimsIn ids s m0")
      case False
      then show ?thesis using Cons.IH [OF p(1,2) Cons.prems(3) p(3)] Suc
        by (simp add: claimMentors_skip del: claimMentors.simps)
    next
      case True
      then obtain m0 where m0: "claimsIn ids s m0" by blast
      then have ne: "m \<noteq> m0" using n by blast
      show ?thesis
      proof (cases "m0 \<in> used")
        case True
        then show ?thesis using Cons.IH [OF p(1,2) Cons.prems(3) p(3)] Suc m0
          by (simp add: claimMentors_used del: claimMentors.simps)
      next
        case False
        have "m \<notin> insert m0 used" using ne Cons.prems(3) by simp
        from Cons.IH [OF p(1,2) this p(3)] show ?thesis using Suc m0 False
          by (simp add: claimMentors_take del: claimMentors.simps)
      qed
    qed
  qed
qed

lemma claimMentors_distinct: "distinct (map fst (claimMentors ids xs used))"
proof (induction xs arbitrary: used)
  case Nil
  then show ?case by simp
next
  case (Cons s rest)
  show ?case
  proof (cases "\<exists>m0. claimsIn ids s m0")
    case False
    then show ?thesis using Cons.IH by (simp add: claimMentors_skip del: claimMentors.simps)
  next
    case True
    then obtain m0 where m0: "claimsIn ids s m0" by blast
    show ?thesis
    proof (cases "m0 \<in> used")
      case True
      then show ?thesis using Cons.IH m0 by (simp add: claimMentors_used del: claimMentors.simps)
    next
      case False
      have "m0 \<notin> fst ` set (claimMentors ids rest (insert m0 used))"
        using claimMentors_sound [of m0 _ ids rest "insert m0 used"] by force
      then show ?thesis using Cons.IH m0 False by (simp add: claimMentors_take del: claimMentors.simps)
    qed
  qed
qed
lemma pairs_in_roster:
  assumes "(x, e) \<in> set (buildMentorshipPairs students)"
  shows "x \<in> set (map id_s students) \<and> e \<in> set (map id_s students)"
proof -
  from claimMentors_sound [OF assms [unfolded buildMentorshipPairs_def]]
  obtain i where i: "i < length students" "id_s (students ! i) = e"
    "claimsIn (set (map id_s students)) (students ! i) x" by blast
  have "e \<in> set (map id_s students)" using i(1,2) by (metis length_map nth_map nth_mem)
  then show ?thesis using i(3) by (simp add: claimsIn_def)
qed

text \<open>After the pairs are applied, the value of every mentee names the mentor of one of
  its pairs.\<close>

lemma mentor_recorded:
  assumes "keyed m" and "\<forall>(x, e) \<in> set ps. x \<in> fst ` set m \<and> e \<in> fst ` set m"
  shows "\<forall>(k, v) \<in> set (foldl (influencePair table) m ps).
           k \<in> snd ` set ps \<longrightarrow> (\<exists>x. (x, k) \<in> set ps \<and> mentorId v = Some x \<and> isBeingMentored v)"
  using assms(2)
proof (induction ps rule: rev_induct)
  case Nil
  then show ?case by simp
next
  case (snoc p ps)
  let ?M = "foldl (influencePair table) m ps"
  obtain x0 e0 where p: "p = (x0, e0)" by (cases p)
  have kM: "keyed ?M" using assms(1) by (rule influence_fold_keyed)
  have keys: "fst ` set ?M = fst ` set m"
    using influence_fold_keys [of table m ps] by (metis list.set_map)
  have "x0 \<in> fst ` set ?M" "e0 \<in> fst ` set ?M" using snoc.prems p keys by auto
  then obtain mentor mentee where l: "map_of ?M x0 = Some mentor" "map_of ?M e0 = Some mentee"
    by (metis map_of_eq_None_iff not_Some_eq)
  let ?v = "(applyMentorInfluence table mentee mentor)\<lparr> isBeingMentored := True, mentorId := Some x0 \<rparr>"
  have M': "foldl (influencePair table) m (ps @ [p]) = map_set e0 ?v ?M"
    using l p by (simp add: influencePair_def)
  have s: "set (map_set e0 ?v ?M) = insert (e0, ?v) {q \<in> set ?M. fst q \<noteq> e0}"
    using kM by (simp add: set_map_set keyed_def)
  have IH: "\<forall>(k, v) \<in> set ?M.
           k \<in> snd ` set ps \<longrightarrow> (\<exists>x. (x, k) \<in> set ps \<and> mentorId v = Some x \<and> isBeingMentored v)"
    using snoc by auto
  have step: "\<exists>x. (x, k) \<in> set (ps @ [p]) \<and> mentorId v = Some x \<and> isBeingMentored v"
    if a: "(k, v) \<in> insert (e0, ?v) {q \<in> set ?M. fst q \<noteq> e0}"
      and b: "k \<in> snd ` set (ps @ [p])" for k v
  proof (cases "(k, v) = (e0, ?v)")
    case True
    then show ?thesis using p by (intro exI [of _ x0]) auto
  next
    case False
    with a have c: "(k, v) \<in> set ?M" "k \<noteq> e0" by auto
    with b p have "k \<in> snd ` set ps" by auto
    with IH c(1) obtain x where "(x, k) \<in> set ps" "mentorId v = Some x" "isBeingMentored v"
      by blast
    then show ?thesis by (intro exI [of _ x]) auto
  qed
  show ?case unfolding M' s using step by blast
qed

lemma applyMentorshipInfluence_alt:
  "applyMentorshipInfluence table students =
     map (\<lambda>student. if id_s student \<in> snd ` set (buildMentorshipPairs students) then student
                      else student\<lparr> isBeingMentored := False, mentorId := None \<rparr>)
       (map snd (influencedMap table students))"
  by (simp add: applyMentorshipInfluence_def influencedMap_def Let_def)

lemma influencedMap_keyed:
  "keyed (influencedMap table students)"
  "fst ` set (influencedMap table students) = set (map id_s students)"
proof -
  have k0: "keyed []" by (simp add: keyed_def)
  note r = roster_map [OF k0, of students]
  show "keyed (influencedMap table students)"
    unfolding influencedMap_def using r by (simp add: influence_fold_keyed)
  have "fst ` set (influencedMap table students) =
      fst ` set (foldl (\<lambda>m student. map_set (id_s student) student m) [] students)"
    unfolding influencedMap_def
    using influence_fold_keys [of table _ "buildMentorshipPairs students"] by (metis list.set_map)
  then show "fst ` set (influencedMap table students) = set (map id_s students)"
    using r by simp
qed

lemma influencedMap_recorded:
  assumes "(k, v) \<in> set (influencedMap table students)"
    and "k \<in> snd ` set (buildMentorshipPairs students)"
  shows "\<exists>x. (x, k) \<in> set (buildMentorshipPairs students) \<and> mentorId v = Some x \<and> isBeingMentored v"
proof -
  let ?m0 = "foldl (\<lambda>m student. map_set (id_s student) student m) [] students"
  have k0: "keyed []" by (simp add: keyed_def)
  note r = roster_map [OF k0, of students]
  have "\<forall>(x, e) \<in> set (buildMentorshipPairs students). x \<in> fst ` set ?m0 \<and> e \<in> fst ` set ?m0"
    using r pairs_in_roster by auto
  from mentor_recorded [OF conjunct1 [OF r] this, of table] assms
  show ?thesis unfolding influencedMap_def by blast
qed

lemma out_nth:
  assumes "i < length (influencedMap table students)"
  shows "applyMentorshipInfluence table students ! i =
           (let student = snd (influencedMap table students ! i)
            in if id_s student \<in> snd ` set (buildMentorshipPairs students) then student
               else student\<lparr> isBeingMentored := False, mentorId := None \<rparr>)"
  using assms by (simp add: applyMentorshipInfluence_alt Let_def)

lemma out_length:
  "length (applyMentorshipInfluence table students) = length (influencedMap table students)"
  by (simp add: applyMentorshipInfluence_alt)

lemma out_mentor:
  assumes "i < length (influencedMap table students)"
    and "mentorId (applyMentorshipInfluence table students ! i) = Some x"
  shows "(x, fst (influencedMap table students ! i)) \<in> set (buildMentorshipPairs students)"
proof -
  let ?M = "influencedMap table students"
  obtain k v where kv: "?M ! i = (k, v)" by (cases "?M ! i")
  have mem: "(k, v) \<in> set ?M" using assms(1) kv by (metis nth_mem)
  have idv: "id_s v = k" using influencedMap_keyed(1) [of table students] mem
    by (auto simp: keyed_def)
  have in_m: "k \<in> snd ` set (buildMentorshipPairs students)"
    using assms(2) out_nth [OF assms(1)] kv idv by (auto simp: Let_def split: if_splits)
  then have "applyMentorshipInfluence table students ! i = v"
    using out_nth [OF assms(1)] kv idv by (simp add: Let_def)
  with assms(2) influencedMap_recorded [OF mem in_m] show ?thesis using kv by auto
qed

lemma pairs_distinct: "distinct (map fst (buildMentorshipPairs students))"
  by (simp add: buildMentorshipPairs_def claimMentors_distinct)

text \<open>No two students of the rebuilt roster name the same mentor.\<close>

lemma one_mentee_per_mentor:
  assumes "i < length (applyMentorshipInfluence table students)"
    and "j < length (applyMentorshipInfluence table students)"
    and "mentorId (applyMentorshipInfluence table students ! i) = Some x"
    and "mentorId (applyMentorshipInfluence table students ! j) = Some x"
  shows "i = j"
proof -
  let ?M = "influencedMap table students"
  have li: "i < length ?M" and lj: "j < length ?M" using assms(1,2) by (simp_all add: out_length)
  have a: "(x, fst (?M ! i)) \<in> set (buildMentorshipPairs students)"
    using out_mentor [OF li assms(3)] .
  have b: "(x, fst (?M ! j)) \<in> set (buildMentorshipPairs students)"
    using out_mentor [OF lj assms(4)] .
  have "fst (?M ! i) = fst (?M ! j)"
    using a b pairs_distinct [of students] by (metis map_of_is_SomeI option.inject)
  moreover have "distinct (map fst ?M)"
    using influencedMap_keyed(1) [of table students] by (simp add: keyed_def)
  ultimately show ?thesis using li lj
    by (metis length_map nth_eq_iff_index_eq nth_map)
qed

text \<open>A student who is not a mentee of a pair ends without a mentor.\<close>

lemma not_selected_cleared:
  assumes "s \<in> set (applyMentorshipInfluence table students)"
    and "id_s s \<notin> snd ` set (buildMentorshipPairs students)"
  shows "\<not> isBeingMentored s \<and> mentorId s = None"
  using assms by (auto simp: applyMentorshipInfluence_alt split: if_splits)

text \<open>With distinct ids the rebuilt roster has the students of the roster in the same
  order, and a student names a mentor exactly when that student's claim on it is the first.\<close>

lemma first_claim_kept:
  assumes "distinct (map id_s students)" and "i < length students"
  shows "length (applyMentorshipInfluence table students) = length students"
    and "id_s (applyMentorshipInfluence table students ! i) = id_s (students ! i)"
    and "mentorId (applyMentorshipInfluence table students ! i) = Some x
           \<longleftrightarrow> firstClaim students i x"
proof -
  let ?M = "influencedMap table students"
  let ?ids = "set (map id_s students)"
  have "foldl (\<lambda>m student. map_set (id_s student) student m) [] students =
      map (\<lambda>student. (id_s student, student)) students"
    using roster_map_distinct [of "[]" students] assms(1) by simp
  then have keys: "map fst ?M = map id_s students"
    unfolding influencedMap_def by (simp add: influence_fold_keys comp_def)
  then have len: "length ?M = length students" by (metis length_map)
  show "length (applyMentorshipInfluence table students) = length students"
    using len by (simp add: out_length)
  have li: "i < length ?M" using assms(2) len by simp
  obtain k v where kv: "?M ! i = (k, v)" by (cases "?M ! i")
  have k: "k = id_s (students ! i)"
    using keys kv li assms(2) by (metis fst_conv nth_map)
  have mem: "(k, v) \<in> set ?M" using li kv by (metis nth_mem)
  have idv: "id_s v = k" using influencedMap_keyed(1) [of table students] mem
    by (auto simp: keyed_def)
  show "id_s (applyMentorshipInfluence table students ! i) = id_s (students ! i)"
    using out_nth [OF li] kv idv k by (simp add: Let_def)
  have same: "\<And>i'. i' < length students \<Longrightarrow> id_s (students ! i') = id_s (students ! i) \<Longrightarrow> i' = i"
    using assms by (metis length_map nth_eq_iff_index_eq nth_map)
  show "mentorId (applyMentorshipInfluence table students ! i) = Some x
           \<longleftrightarrow> firstClaim students i x"
  proof
    assume "mentorId (applyMentorshipInfluence table students ! i) = Some x"
    from out_mentor [OF li this] have "(x, id_s (students ! i)) \<in> set (buildMentorshipPairs students)"
      using kv k by simp
    from claimMentors_sound [OF this [unfolded buildMentorshipPairs_def]]
    obtain i' where i': "i' < length students" "id_s (students ! i') = id_s (students ! i)"
      "claimsIn ?ids (students ! i') x" "\<forall>j<i'. \<not> claimsIn ?ids (students ! j) x" by blast
    have "i' = i" using same i'(1,2) by blast
    then show "firstClaim students i x" using i'(3,4) by (simp add: firstClaim_def claims_iff)
  next
    assume f: "firstClaim students i x"
    then have c: "claimsIn ?ids (students ! i) x" "\<forall>j<i. \<not> claimsIn ?ids (students ! j) x"
      by (simp_all add: firstClaim_def claims_iff)
    have "(x, id_s (students ! i)) \<in> set (claimMentors ?ids students {})"
      using claimMentors_complete [OF assms(2) c(1) _ c(2)] by simp
    then have p: "(x, k) \<in> set (buildMentorshipPairs students)"
      using k by (simp add: buildMentorshipPairs_def)
    then have in_m: "k \<in> snd ` set (buildMentorshipPairs students)" by force
    from influencedMap_recorded [OF mem in_m] obtain x' where
      x': "(x', k) \<in> set (buildMentorshipPairs students)" "mentorId v = Some x'" by blast
    from claimMentors_sound [OF x'(1) [unfolded buildMentorshipPairs_def]]
    obtain i' where i': "i' < length students" "id_s (students ! i') = k"
      "claimsIn ?ids (students ! i') x'" by blast
    have "i' = i" using same i'(1,2) k by blast
    then have "x' = x" using i'(3) c(1) claimsIn_unique by blast
    moreover have "applyMentorshipInfluence table students ! i = v"
      using out_nth [OF li] kv idv in_m by (simp add: Let_def)
    ultimately show "mentorId (applyMentorshipInfluence table students ! i) = Some x"
      using x'(2) by simp
  qed
qed
text \<open>
  Claim C5. After \<open>applyMentorshipInfluence\<close> on any roster, no two students name the
  same mentor, and every student who is not the mentee of a pair built in that pass has
  \<open>isBeingMentored = false\<close> and no mentor id. When the ids of the roster are distinct,
  the students come back in the same order and a student names a mentor exactly when they are
  the first of the roster to claim it (a claim is a mentor id that is not empty, not the
  student's own id, and the id of a student of the roster).
\<close>

theorem mentorship_rebuild_one_mentee:
  "(\<forall>i j x. i < length (applyMentorshipInfluence table students) \<and>
            j < length (applyMentorshipInfluence table students) \<and>
            mentorId (applyMentorshipInfluence table students ! i) = Some x \<and>
            mentorId (applyMentorshipInfluence table students ! j) = Some x \<longrightarrow> i = j) \<and>
   (\<forall>s \<in> set (applyMentorshipInfluence table students).
      id_s s \<notin> snd ` set (buildMentorshipPairs students) \<longrightarrow>
      \<not> isBeingMentored s \<and> mentorId s = None) \<and>
   (distinct (map id_s students) \<longrightarrow>
      length (applyMentorshipInfluence table students) = length students \<and>
      (\<forall>i<length students.
         id_s (applyMentorshipInfluence table students ! i) = id_s (students ! i) \<and>
         (\<forall>x. mentorId (applyMentorshipInfluence table students ! i) = Some x
                \<longleftrightarrow> firstClaim students i x)))"
proof (intro conjI allI impI ballI)
  fix i j x
  assume "i < length (applyMentorshipInfluence table students) \<and>
            j < length (applyMentorshipInfluence table students) \<and>
            mentorId (applyMentorshipInfluence table students ! i) = Some x \<and>
            mentorId (applyMentorshipInfluence table students ! j) = Some x"
  then show "i = j" using one_mentee_per_mentor by blast
next
  fix s
  assume "s \<in> set (applyMentorshipInfluence table students)"
    and "id_s s \<notin> snd ` set (buildMentorshipPairs students)"
  then show "\<not> isBeingMentored s" and "mentorId s = None"
    using not_selected_cleared by blast+
next
  assume d: "distinct (map id_s students)"
  show "length (applyMentorshipInfluence table students) = length students"
  proof (cases students)
    case Nil
    then show ?thesis by (simp add: applyMentorshipInfluence_alt influencedMap_def
          buildMentorshipPairs_def)
  next
    case (Cons s rest)
    then have "0 < length students" by simp
    from first_claim_kept(1) [OF d this] show ?thesis .
  qed
next
  fix i
  assume d: "distinct (map id_s students)" and i: "i < length students"
  show "id_s (applyMentorshipInfluence table students ! i) = id_s (students ! i)"
    using first_claim_kept(2) [OF d i] .
next
  fix i x
  assume d: "distinct (map id_s students)" and i: "i < length students"
  show "mentorId (applyMentorshipInfluence table students ! i) = Some x
          \<longleftrightarrow> firstClaim students i x"
    using first_claim_kept(3) [OF d i] .
qed

theorem mentorship_rebuild_one_mentee_witness:
  "distinct (map id_s demo_roster) \<and>
   mentorId (applyMentorshipInfluence [] demo_roster ! 1) = Some ''m'' \<and>
   mentorId (applyMentorshipInfluence [] demo_roster ! 2) = None"
proof -
  have d: "distinct (map id_s demo_roster)"
    by (simp add: demo_roster_def demo_student_def)
  have l: "length demo_roster = 3" by (simp add: demo_roster_def)
  have c0: "\<not> claims demo_roster (demo_roster ! 0) x" for x
    by (simp add: claims_def demo_roster_def demo_student_def)
  have c1: "claims demo_roster (demo_roster ! 1) ''m''"
    by (simp add: claims_def demo_roster_def demo_student_def)
  have c2: "claims demo_roster (demo_roster ! 2) x \<Longrightarrow> x = ''m''" for x
    by (simp add: claims_def demo_roster_def demo_student_def)
  have f1: "firstClaim demo_roster 1 ''m''"
    unfolding firstClaim_def using c0 c1 by (simp add: less_Suc_eq)
  have f2: "\<not> firstClaim demo_roster 2 x" for x
  proof
    assume a: "firstClaim demo_roster 2 x"
    then have "x = ''m''" using c2 by (simp add: firstClaim_def)
    moreover from a have "\<forall>j<2. \<not> claims demo_roster (demo_roster ! j) x"
      by (simp add: firstClaim_def)
    from this [rule_format, of 1] have "\<not> claims demo_roster (demo_roster ! 1) x" by simp
    ultimately show False using c1 by simp
  qed
  from mentorship_rebuild_one_mentee [of "[]" demo_roster] d l
  have k: "\<forall>i<3. \<forall>x. mentorId (applyMentorshipInfluence [] demo_roster ! i) = Some x
             \<longleftrightarrow> firstClaim demo_roster i x"
    by simp
  from k [rule_format, of 1 "''m''"] f1
  have "mentorId (applyMentorshipInfluence [] demo_roster ! 1) = Some ''m''" by simp
  moreover have "mentorId (applyMentorshipInfluence [] demo_roster ! 2) \<noteq> Some x" for x
    using k [rule_format, of 2 x] f2 [of x] by simp
  then have "mentorId (applyMentorshipInfluence [] demo_roster ! 2) = None"
    by (cases "mentorId (applyMentorshipInfluence [] demo_roster ! 2)") auto
  ultimately show ?thesis using d by simp
qed

section \<open>Properties of dismissal and of the decision queue\<close>

text \<open>
  Claim C8, as stated, fails in two ways. First, the dismissal takes the student out of
  every grant, project and paper, not only out of the grant and the paper of the claim: in
  the first sample session \<open>d\<close> is the only student of the active grant and leads its
  first paper, and the dismissal also clears the lead of the second paper of the grant and
  takes \<open>d\<close> out of the project and out of the second grant. Second, a remaining student of
  type \<open>YOUNG_TEACHER\<close> is returned untouched: in the second sample session, whose roster
  holds a young teacher as a stored roster may, the young teacher is first of the roster
  after the dismissal and still has \<open>d\<close> as mentor.
\<close>

theorem dismissal_touches_other_references:
  "status_g (grantApplications demo_two_papers ! 0) = GActive \<and>
   assignedStudentIds_g (grantApplications demo_two_papers ! 0) = [''d''] \<and>
   leadStudentId (projectPapers_ss demo_two_papers ! 0) = Some ''d'' \<and>
   grantId (projectPapers_ss demo_two_papers ! 0) = Some (id_g (grantApplications demo_two_papers ! 0)) \<and>
   leadStudentId (projectPapers_ss demo_two_papers ! 1) = Some ''d'' \<and>
   leadStudentId (projectPapers_ss (removeStudentFromAllAssignments ''d'' demo_two_papers) ! 1)
     = None \<and>
   assignedStudentIds_r (projects_ss demo_two_papers ! 0) = [''d'', ''z''] \<and>
   assignedStudentIds_r (projects_ss (removeStudentFromAllAssignments ''d'' demo_two_papers) ! 0)
     = [''z''] \<and>
   assignedStudentIds_g (grantApplications demo_two_papers ! 1) = [''z'', ''d''] \<and>
   assignedStudentIds_g (grantApplications (removeStudentFromAllAssignments ''d'' demo_two_papers) ! 1)
     = [''z''] \<and>
   status_g (grantApplications demo_session ! 0) = GActive \<and>
   assignedStudentIds_g (grantApplications demo_session ! 0) = [''d''] \<and>
   leadStudentId (projectPapers_ss demo_session ! 0) = Some ''d'' \<and>
   id_s (teamMembers (removeStudentFromAllAssignments ''d'' demo_session) ! 0) = ''y'' \<and>
   studentType (teamMembers (removeStudentFromAllAssignments ''d'' demo_session) ! 0)
     = ''YOUNG_TEACHER'' \<and>
   mentorId (teamMembers (removeStudentFromAllAssignments ''d'' demo_session) ! 0) = Some ''d''"
  by (simp add: removeStudentFromAllAssignments_def demo_two_papers_def demo_session_def
        demo_young_teacher_def demo_student_def demo_grant_def demo_paper_def)

lemma remove_team_length:
  "length (teamMembers (removeStudentFromAllAssignments studentId session)) =
     length (filter (\<lambda>student. id_s student \<noteq> studentId) (teamMembers session))"
  by (simp add: removeStudentFromAllAssignments_def)

lemma remove_team_nth:
  assumes "i < length (filter (\<lambda>student. id_s student \<noteq> studentId) (teamMembers session))"
  shows "teamMembers (removeStudentFromAllAssignments studentId session) ! i =
           (let student = filter (\<lambda>student. id_s student \<noteq> studentId) (teamMembers session) ! i
            in if studentType student = ''YOUNG_TEACHER'' then student
               else student
                 \<lparr> mentorId := (if mentorId student = Some studentId then None
                                else mentorId student),
                   isBeingMentored :=
                     (if truthy_str (if mentorId student = Some studentId then None
                                     else mentorId student)
                      then isBeingMentored student else False) \<rparr>)"
  using assms by (simp add: removeStudentFromAllAssignments_def Let_def)

lemma remove_team_ids:
  "map id_s (teamMembers (removeStudentFromAllAssignments studentId session)) =
     filter (\<lambda>i. i \<noteq> studentId) (map id_s (teamMembers session))"
  by (simp add: removeStudentFromAllAssignments_def filter_map comp_def Let_def if_distrib
        cong: if_cong)

lemma remove_back_reference:
  assumes "s \<in> set (teamMembers (removeStudentFromAllAssignments studentId session))"
    and "studentType s \<noteq> ''YOUNG_TEACHER''"
  shows "mentorId s \<noteq> Some studentId"
  using assms by (auto simp: removeStudentFromAllAssignments_def Let_def split: if_splits)

lemma remove_back_reference_all:
  assumes "\<forall>s \<in> set (teamMembers session). studentType s \<noteq> ''YOUNG_TEACHER''"
    and "s \<in> set (teamMembers (removeStudentFromAllAssignments studentId session))"
  shows "mentorId s \<noteq> Some studentId"
  using assms by (auto simp: removeStudentFromAllAssignments_def Let_def split: if_splits)

lemma remove_grant_nth:
  "k < length (grantApplications session) \<Longrightarrow>
   grantApplications (removeStudentFromAllAssignments studentId session) ! k =
     (grantApplications session ! k)\<lparr> assignedStudentIds_g :=
        filter (\<lambda>i. i \<noteq> studentId) (assignedStudentIds_g (grantApplications session ! k)) \<rparr>"
  by (simp add: removeStudentFromAllAssignments_def)

lemma remove_project_nth:
  "k < length (projects_ss session) \<Longrightarrow>
   projects_ss (removeStudentFromAllAssignments studentId session) ! k =
     (projects_ss session ! k)\<lparr> assignedStudentIds_r :=
        filter (\<lambda>i. i \<noteq> studentId) (assignedStudentIds_r (projects_ss session ! k)) \<rparr>"
  by (simp add: removeStudentFromAllAssignments_def)

lemma remove_paper_nth:
  "k < length (projectPapers_ss session) \<Longrightarrow>
   projectPapers_ss (removeStudentFromAllAssignments studentId session) ! k =
     (if leadStudentId (projectPapers_ss session ! k) = Some studentId
      then (projectPapers_ss session ! k)\<lparr> leadStudentId := None \<rparr>
      else projectPapers_ss session ! k)"
  by (simp add: removeStudentFromAllAssignments_def)

lemma filter_absent: "x \<notin> set xs \<Longrightarrow> filter (\<lambda>i. i \<noteq> x) xs = xs"
  by (induction xs) auto

lemma remove_other_state:
  "stats_ss (removeStudentFromAllAssignments studentId session) = stats_ss session \<and>
   eventLog (removeStudentFromAllAssignments studentId session) = eventLog session \<and>
   pendingDecisions (removeStudentFromAllAssignments studentId session) = pendingDecisions session \<and>
   activeDecisionId (removeStudentFromAllAssignments studentId session) = activeDecisionId session \<and>
   activeDecisionResult (removeStudentFromAllAssignments studentId session)
     = activeDecisionResult session \<and>
   teamMessage (removeStudentFromAllAssignments studentId session) = teamMessage session \<and>
   selectedMentorId (removeStudentFromAllAssignments studentId session) = None"
  by (simp add: removeStudentFromAllAssignments_def)

text \<open>
  Claim C8, amended. Dismissing a student who is the only student assigned to a grant and
  the lead of one of its papers removes that student, and nobody else, from the roster,
  leaves that grant with no assigned student and that paper with no lead, and leaves
  every other grant, paper and project as it is unless it names the dismissed student too:
  then it loses that entry, or that lead, and nothing else. Every remaining student comes
  back at the same place: a student of type \<open>YOUNG_TEACHER\<close> as before, any other student
  with a mentor id that no longer names the dismissed student (and not marked as mentored
  when left without mentor), so that on a roster without young teachers no mentor id names
  the dismissed student. The selected mentor is reset, and the mentor stats, the log and
  the backlog are not touched.
\<close>

theorem dismissal_cascade:
  assumes "g < length (grantApplications session)"
    and "assignedStudentIds_g (grantApplications session ! g) = [studentId]"
    and "p < length (projectPapers_ss session)"
    and "leadStudentId (projectPapers_ss session ! p) = Some studentId"
  shows "map id_s (teamMembers (removeStudentFromAllAssignments studentId session)) =
           filter (\<lambda>i. i \<noteq> studentId) (map id_s (teamMembers session)) \<and>
         studentId \<notin> id_s ` set (teamMembers (removeStudentFromAllAssignments studentId session)) \<and>
         length (teamMembers (removeStudentFromAllAssignments studentId session)) =
           length (filter (\<lambda>student. id_s student \<noteq> studentId) (teamMembers session)) \<and>
         (\<forall>i<length (filter (\<lambda>student. id_s student \<noteq> studentId) (teamMembers session)).
            teamMembers (removeStudentFromAllAssignments studentId session) ! i =
              (let student = filter (\<lambda>student. id_s student \<noteq> studentId) (teamMembers session) ! i
               in if studentType student = ''YOUNG_TEACHER'' then student
                  else student
                    \<lparr> mentorId := (if mentorId student = Some studentId then None
                                   else mentorId student),
                      isBeingMentored :=
                        (if truthy_str (if mentorId student = Some studentId then None
                                        else mentorId student)
                         then isBeingMentored student else False) \<rparr>)) \<and>
         (\<forall>s \<in> set (teamMembers (removeStudentFromAllAssignments studentId session)).
            studentType s \<noteq> ''YOUNG_TEACHER'' \<longrightarrow> mentorId s \<noteq> Some studentId) \<and>
         ((\<forall>s \<in> set (teamMembers session). studentType s \<noteq> ''YOUNG_TEACHER'') \<longrightarrow>
          (\<forall>s \<in> set (teamMembers (removeStudentFromAllAssignments studentId session)).
             mentorId s \<noteq> Some studentId)) \<and>
         grantApplications (removeStudentFromAllAssignments studentId session) ! g =
           (grantApplications session ! g)\<lparr> assignedStudentIds_g := [] \<rparr> \<and>
         projectPapers_ss (removeStudentFromAllAssignments studentId session) ! p =
           (projectPapers_ss session ! p)\<lparr> leadStudentId := None \<rparr> \<and>
         length (grantApplications (removeStudentFromAllAssignments studentId session)) =
           length (grantApplications session) \<and>
         length (projectPapers_ss (removeStudentFromAllAssignments studentId session)) =
           length (projectPapers_ss session) \<and>
         length (projects_ss (removeStudentFromAllAssignments studentId session)) =
           length (projects_ss session) \<and>
         (\<forall>k<length (grantApplications session).
            grantApplications (removeStudentFromAllAssignments studentId session) ! k =
              (grantApplications session ! k)\<lparr> assignedStudentIds_g :=
                 filter (\<lambda>i. i \<noteq> studentId)
                   (assignedStudentIds_g (grantApplications session ! k)) \<rparr> \<and>
            (studentId \<notin> set (assignedStudentIds_g (grantApplications session ! k)) \<longrightarrow>
             grantApplications (removeStudentFromAllAssignments studentId session) ! k =
               grantApplications session ! k)) \<and>
         (\<forall>k<length (projects_ss session).
            projects_ss (removeStudentFromAllAssignments studentId session) ! k =
              (projects_ss session ! k)\<lparr> assignedStudentIds_r :=
                 filter (\<lambda>i. i \<noteq> studentId)
                   (assignedStudentIds_r (projects_ss session ! k)) \<rparr> \<and>
            (studentId \<notin> set (assignedStudentIds_r (projects_ss session ! k)) \<longrightarrow>
             projects_ss (removeStudentFromAllAssignments studentId session) ! k =
               projects_ss session ! k)) \<and>
         (\<forall>k<length (projectPapers_ss session).
            (leadStudentId (projectPapers_ss session ! k) = Some studentId \<longrightarrow>
             projectPapers_ss (removeStudentFromAllAssignments studentId session) ! k =
               (projectPapers_ss session ! k)\<lparr> leadStudentId := None \<rparr>) \<and>
            (leadStudentId (projectPapers_ss session ! k) \<noteq> Some studentId \<longrightarrow>
             projectPapers_ss (removeStudentFromAllAssignments studentId session) ! k =
               projectPapers_ss session ! k)) \<and>
         stats_ss (removeStudentFromAllAssignments studentId session) = stats_ss session \<and>
         eventLog (removeStudentFromAllAssignments studentId session) = eventLog session \<and>
         pendingDecisions (removeStudentFromAllAssignments studentId session)
           = pendingDecisions session \<and>
         selectedMentorId (removeStudentFromAllAssignments studentId session) = None"
proof -
  let ?s' = "removeStudentFromAllAssignments studentId session"
  have ids: "map id_s (teamMembers ?s') = filter (\<lambda>i. i \<noteq> studentId) (map id_s (teamMembers session))"
    by (rule remove_team_ids)
  have gone: "studentId \<notin> id_s ` set (teamMembers ?s')"
  proof -
    have "studentId \<notin> set (map id_s (teamMembers ?s'))" unfolding ids by simp
    then show ?thesis by simp
  qed
  have nth: "\<forall>i<length (filter (\<lambda>student. id_s student \<noteq> studentId) (teamMembers session)).
            teamMembers ?s' ! i =
              (let student = filter (\<lambda>student. id_s student \<noteq> studentId) (teamMembers session) ! i
               in if studentType student = ''YOUNG_TEACHER'' then student
                  else student
                    \<lparr> mentorId := (if mentorId student = Some studentId then None
                                   else mentorId student),
                      isBeingMentored :=
                        (if truthy_str (if mentorId student = Some studentId then None
                                        else mentorId student)
                         then isBeingMentored student else False) \<rparr>)"
    using remove_team_nth [of _ studentId session] by simp
  have br: "\<forall>s \<in> set (teamMembers ?s').
            studentType s \<noteq> ''YOUNG_TEACHER'' \<longrightarrow> mentorId s \<noteq> Some studentId"
    using remove_back_reference by blast
  have bra: "(\<forall>s \<in> set (teamMembers session). studentType s \<noteq> ''YOUNG_TEACHER'') \<longrightarrow>
          (\<forall>s \<in> set (teamMembers ?s'). mentorId s \<noteq> Some studentId)"
    using remove_back_reference_all by blast
  have a: "grantApplications ?s' ! g = (grantApplications session ! g)\<lparr> assignedStudentIds_g := [] \<rparr>"
    using assms(2) by (simp add: remove_grant_nth [OF assms(1)])
  have b: "projectPapers_ss ?s' ! p = (projectPapers_ss session ! p)\<lparr> leadStudentId := None \<rparr>"
    using assms(4) by (simp add: remove_paper_nth [OF assms(3)])
  have l: "length (grantApplications ?s') = length (grantApplications session)"
    "length (projectPapers_ss ?s') = length (projectPapers_ss session)"
    "length (projects_ss ?s') = length (projects_ss session)"
    by (simp_all add: removeStudentFromAllAssignments_def)
  have gs: "\<forall>k<length (grantApplications session).
            grantApplications ?s' ! k =
              (grantApplications session ! k)\<lparr> assignedStudentIds_g :=
                 filter (\<lambda>i. i \<noteq> studentId)
                   (assignedStudentIds_g (grantApplications session ! k)) \<rparr> \<and>
            (studentId \<notin> set (assignedStudentIds_g (grantApplications session ! k)) \<longrightarrow>
             grantApplications ?s' ! k = grantApplications session ! k)"
    by (simp add: remove_grant_nth filter_absent)
  have ps: "\<forall>k<length (projects_ss session).
            projects_ss ?s' ! k =
              (projects_ss session ! k)\<lparr> assignedStudentIds_r :=
                 filter (\<lambda>i. i \<noteq> studentId)
                   (assignedStudentIds_r (projects_ss session ! k)) \<rparr> \<and>
            (studentId \<notin> set (assignedStudentIds_r (projects_ss session ! k)) \<longrightarrow>
             projects_ss ?s' ! k = projects_ss session ! k)"
    by (simp add: remove_project_nth filter_absent)
  have pp: "\<forall>k<length (projectPapers_ss session).
            (leadStudentId (projectPapers_ss session ! k) = Some studentId \<longrightarrow>
             projectPapers_ss ?s' ! k = (projectPapers_ss session ! k)\<lparr> leadStudentId := None \<rparr>) \<and>
            (leadStudentId (projectPapers_ss session ! k) \<noteq> Some studentId \<longrightarrow>
             projectPapers_ss ?s' ! k = projectPapers_ss session ! k)"
    by (simp add: remove_paper_nth)
  note o = remove_other_state [of studentId session]
  show ?thesis
    using ids gone remove_team_length [of studentId session] nth br bra a b l gs ps pp o
    by (elim conjE) (intro conjI; assumption)
qed

theorem dismissal_cascade_witness:
  "assignedStudentIds_g (grantApplications demo_two_papers ! 0) = [''d''] \<and>
   leadStudentId (projectPapers_ss demo_two_papers ! 0) = Some ''d'' \<and>
   map id_s (teamMembers (removeStudentFromAllAssignments ''d'' demo_two_papers)) = [''z''] \<and>
   assignedStudentIds_g (grantApplications (removeStudentFromAllAssignments ''d'' demo_two_papers) ! 0)
     = [] \<and>
   leadStudentId (projectPapers_ss (removeStudentFromAllAssignments ''d'' demo_two_papers) ! 0)
     = None \<and>
   selectedMentorId (removeStudentFromAllAssignments ''d'' demo_two_papers) = None"
proof -
  have h: "(0::nat) < length (grantApplications demo_two_papers)"
    "assignedStudentIds_g (grantApplications demo_two_papers ! 0) = [''d'']"
    "(0::nat) < length (projectPapers_ss demo_two_papers)"
    "leadStudentId (projectPapers_ss demo_two_papers ! 0) = Some ''d''"
    by (simp_all add: demo_two_papers_def demo_paper_def)
  have t: "map id_s (teamMembers demo_two_papers) = [''d'', ''z'']"
    by (simp add: demo_two_papers_def demo_student_def)
  from dismissal_cascade [OF h] h t show ?thesis by simp
qed

text \<open>
  Claim C10. When no option of the decision has the id \<open>optionId\<close>,
  \<open>handleDecisionChoose\<close> returns the session as it is: the mentor stats, the roster, the
  grants, the papers, the projects, the log and the backlog with the decision itself are
  unchanged.
\<close>

theorem unknown_option_is_noop:
  assumes "\<forall>opt \<in> set (options decision). id_o opt \<noteq> optionId"
  shows "handleDecisionChoose decision optionId session = session"
proof -
  have "find (\<lambda>item. id_o item = optionId) (options decision) = None"
    using assms by (simp add: find_None_iff)
  then show ?thesis by (simp add: handleDecisionChoose_def)
qed

theorem unknown_option_is_noop_witness:
  "map id_o (options (hd (pendingDecisions demo_session))) = [''conf-a'', ''jour-b'', ''safe-c''] \<and>
   handleDecisionChoose (hd (pendingDecisions demo_session)) ''conf-z'' demo_session = demo_session"
proof -
  have m: "map id_o (options (hd (pendingDecisions demo_session))) =
      [''conf-a'', ''jour-b'', ''safe-c'']"
    by (simp add: demo_session_def buildProjectVenueDecision_def)
  have h: "\<forall>opt \<in> set (options (hd (pendingDecisions demo_session))). id_o opt \<noteq> ''conf-z''"
    by (simp add: demo_session_def buildProjectVenueDecision_def)
  from unknown_option_is_noop [OF h] m show ?thesis by simp
qed

section \<open>Properties of the trait resolution\<close>

lemma sample_lookup:
  "studentTraitById sample_traits ''steady'' = Some (sample_traits ! 0)"
  "studentTraitById sample_traits ''nightowl'' = Some (sample_traits ! 1)"
  "studentTraitById sample_traits ''earlybird'' = Some (sample_traits ! 2)"
  by (simp_all add: studentTraitById_def sample_traits_def)

lemma sample_conflicts:
  "hasTraitConflict sample_traits ''nightowl'' ''earlybird''"
  "\<not> hasTraitConflict sample_traits ''steady'' ''nightowl''"
  "\<not> hasTraitConflict sample_traits ''steady'' ''earlybird''"
  by (simp_all add: hasTraitConflict_def sample_lookup includes_opt_def)
     (simp_all add: sample_traits_def)

lemma sample_categories:
  "hasCategory sample_traits MainTrait ''steady''"
  "\<not> hasCategory sample_traits SubTrait ''steady''"
  "hasCategory sample_traits SubTrait ''nightowl''"
  "hasCategory sample_traits SubTrait ''earlybird''"
  by (simp_all add: hasCategory_def sample_lookup) (simp_all add: sample_traits_def)

lemma sample_supplied:
  "2 \<le> d \<Longrightarrow>
   keepSuppliedSubs sample_traits d (Some ''steady'') [''nightowl'', ''earlybird''] =
     [''nightowl'', ''earlybird'']"
  by (simp add: keepSuppliedSubs_def sample_conflicts truthy_str_def)

text \<open>
  Claim C4. The sub traits that the caller supplies are checked against the main trait
  only, not against each other, and the sampler that fills the missing slots is not told
  about them. With a table in which two sub traits conflict, a caller who supplies both
  gets both back, for every random outcome: here the answer to
  \<open>[steady, nightowl, earlybird]\<close> starts with these three traits, and \<open>nightowl\<close>
  conflicts with \<open>earlybird\<close>.
\<close>

theorem supplied_subs_may_conflict:
  "take 3 (resolveStudentTraits sample_traits rnd [''steady'', ''nightowl'', ''earlybird'']) =
     [''steady'', ''nightowl'', ''earlybird''] \<and>
   hasTraitConflict sample_traits ''nightowl'' ''earlybird''"
proof -
  have u: "uniqueInOrder [''steady'', ''nightowl'', ''earlybird''] =
      [''steady'', ''nightowl'', ''earlybird'']"
    by (simp add: uniqueInOrder_def)
  have k: "filter (\<lambda>traitId. studentTraitById sample_traits traitId \<noteq> None)
             [''steady'', ''nightowl'', ''earlybird''] = [''steady'', ''nightowl'', ''earlybird'']"
    by (simp add: sample_lookup)
  have m: "find (hasCategory sample_traits MainTrait) [''steady'', ''nightowl'', ''earlybird'']
             = Some ''steady''"
    by (simp add: sample_categories)
  have s: "filter (hasCategory sample_traits SubTrait) [''steady'', ''nightowl'', ''earlybird'']
             = [''nightowl'', ''earlybird'']"
    by (simp add: sample_categories)
  have d: "keepSuppliedSubs sample_traits 2 (Some ''steady'') [''nightowl'', ''earlybird''] =
      [''nightowl'', ''earlybird'']"
    "keepSuppliedSubs sample_traits 3 (Some ''steady'') [''nightowl'', ''earlybird''] =
      [''nightowl'', ''earlybird'']"
    by (simp_all add: sample_supplied)
  have "\<exists>extra. resolveStudentTraits sample_traits rnd [''steady'', ''nightowl'', ''earlybird''] =
      [''steady'', ''nightowl'', ''earlybird''] @ extra"
    unfolding resolveStudentTraits_def Let_def u k m s
    by (simp add: d truthy_str_def)
  then show ?thesis using sample_conflicts(1) by auto
qed

text \<open>What does hold of the main trait: when the table has a main trait, no trait of the
  table has an empty id and the draws are in \<open>[0, 1)\<close>, the answer starts with a main
  trait, so it is not empty.\<close>

lemma pool_has_category:
  "t \<in> set (getTraitPoolsByCategory table c p) \<Longrightarrow>
   hasCategory table c t \<and> t \<in> set (studentTraitIds table)"
  by (auto simp: getTraitPoolsByCategory_def hasCategory_def split: option.splits)

lemma random_index:
  assumes "is_random r" and "xs \<noteq> []"
  shows "0 \<le> \<lfloor>r * real (length xs)\<rfloor> \<and> nat \<lfloor>r * real (length xs)\<rfloor> < length xs"
proof -
  have r: "0 \<le> r" "r < 1" using assms(1) by (simp_all add: is_random_def)
  have l: "0 < real (length xs)" using assms(2) by simp
  have a: "0 \<le> r * real (length xs)" using r(1) by simp
  have b: "r * real (length xs) < real (length xs)" using r(2) l by simp
  have "\<lfloor>r * real (length xs)\<rfloor> < int (length xs)"
    using b by (simp add: floor_less_iff)
  moreover have "0 \<le> \<lfloor>r * real (length xs)\<rfloor>" using a by simp
  ultimately show ?thesis by (simp add: nat_less_iff)
qed

lemma find_SomeD: "find P xs = Some x \<Longrightarrow> x \<in> set xs \<and> P x"
  by (induction xs) (auto split: if_splits)

lemma pickTraitLoop_main:
  assumes "\<forall>k. is_random (rnd k)"
    and "\<exists>i \<in> set (studentTraitIds table). hasCategory table c i"
  shows "\<exists>t. fst (pickTraitLoop table c [] rnd pos n) = Some t \<and> hasCategory table c t \<and>
             t \<in> set (studentTraitIds table)"
proof (induction n arbitrary: pos)
  case 0
  from assms(2) obtain i where i: "i \<in> set (studentTraitIds table)" "hasCategory table c i"
    by blast
  then have "find (\<lambda>traitId. hasCategory table c traitId) (studentTraitIds table) \<noteq> None"
    by (auto simp: find_None_iff)
  then obtain t where t: "find (\<lambda>traitId. hasCategory table c traitId) (studentTraitIds table) = Some t"
    by blast
  then have "hasCategory table c t \<and> t \<in> set (studentTraitIds table)"
    using find_SomeD by fastforce
  then show ?case using t by simp
next
  case (Suc n)
  let ?pool = "getTraitPoolsByCategory table c (weightedPick c (rnd pos))"
  show ?case
  proof (cases "?pool = []")
    case True
    then show ?thesis using Suc.IH [of "pos + 1"] by (simp add: Let_def)
  next
    case False
    let ?k = "\<lfloor>rnd (pos + 1) * real (length ?pool)\<rfloor>"
    have k: "0 \<le> ?k \<and> nat ?k < length ?pool"
      using random_index [OF assms(1) [rule_format, of "pos + 1"] False] .
    then have "?pool ! nat ?k \<in> set ?pool" by simp
    then have "hasCategory table c (?pool ! nat ?k) \<and> ?pool ! nat ?k \<in> set (studentTraitIds table)"
      by (rule pool_has_category)
    then show ?thesis using False k by (simp add: Let_def)
  qed
qed

lemma resolveStudentTraits_starts_with_main:
  assumes "\<forall>k. is_random (rnd k)"
    and "\<exists>i \<in> set (studentTraitIds table). hasCategory table MainTrait i"
    and "[] \<notin> set (studentTraitIds table)"
  shows "resolveStudentTraits table rnd traits_in \<noteq> [] \<and>
         hasCategory table MainTrait (hd (resolveStudentTraits table rnd traits_in))"
proof -
  let ?unique = "filter (\<lambda>traitId. studentTraitById table traitId \<noteq> None) (uniqueInOrder traits_in)"
  let ?drawn = "case find (hasCategory table MainTrait) ?unique of
                  Some t \<Rightarrow> (Some t, 1)
                | None \<Rightarrow> pickWeightedTrait table MainTrait [] rnd 1"
  have known: "t \<noteq> []" if "studentTraitById table t \<noteq> None" for t
  proof -
    from that obtain tr where "find (\<lambda>trait. id_t trait = t) (rev table) = Some tr"
      by (auto simp: studentTraitById_def)
    then have "tr \<in> set table" "id_t tr = t" using find_SomeD by fastforce+
    then have "t \<in> set (studentTraitIds table)" by (auto simp: studentTraitIds_def)
    then show ?thesis using assms(3) by auto
  qed
  have "\<exists>t. fst ?drawn = Some t \<and> hasCategory table MainTrait t \<and> t \<noteq> []"
  proof (cases "find (hasCategory table MainTrait) ?unique")
    case None
    from pickTraitLoop_main [OF assms(1,2), of 1 24] obtain t where
      "fst (pickTraitLoop table MainTrait [] rnd 1 24) = Some t" "hasCategory table MainTrait t"
      "t \<in> set (studentTraitIds table)" by blast
    then show ?thesis using None assms(3) by (auto simp: pickWeightedTrait_def)
  next
    case (Some t)
    then have "hasCategory table MainTrait t" "t \<in> set ?unique" using find_SomeD by fastforce+
    then show ?thesis using Some known by auto
  qed
  then obtain t where t: "fst ?drawn = Some t" "hasCategory table MainTrait t" "t \<noteq> []" by blast
  have "\<exists>rest. resolveStudentTraits table rnd traits_in = t # rest"
    unfolding resolveStudentTraits_def Let_def using t(1,3) by (simp add: truthy_str_def)
  then show ?thesis using t(2) by auto
qed

text \<open>With the id of an option the handler does act: in the sample session the choice of
  the top conference empties the backlog, logs the outcome, charges the funding and sets the
  due date of the paper one quarter ahead.\<close>

lemma known_option_is_applied:
  "pendingDecisions (handleDecisionChoose (hd (pendingDecisions demo_session)) ''conf-a''
      demo_session) = [] \<and>
   eventLog (handleDecisionChoose (hd (pendingDecisions demo_session)) ''conf-a'' demo_session) =
     [TextLog ''Submission strategy'' ''Top conference track locked.''] \<and>
   funding (stats_ss (handleDecisionChoose (hd (pendingDecisions demo_session)) ''conf-a''
      demo_session)) = 44000 \<and>
   map decisionDueQuarter (projectPapers_ss (handleDecisionChoose
      (hd (pendingDecisions demo_session)) ''conf-a'' demo_session)) = [Some 4] \<and>
   map pendingPapers (teamMembers (handleDecisionChoose
      (hd (pendingDecisions demo_session)) ''conf-a'' demo_session)) = [3, 2, 2]"
  by (simp add: handleDecisionChoose_def demo_session_def buildProjectVenueDecision_def
        optionStats_def optionStudent_def statEffects_def emptyStatDelta_def
        studentTargetIds_def paperLeadOf_def demo_paper_def truthy_str_def kindEffects_def
        option_meta_def metaVenueType_def metaVenueTier_def metaReviewOffset_def
        applyMentorDelta_def truthy_def demo_stats_def demo_gauge_def clampValue_def
        addQuarters_def toQuarterIndex_def math_floor_def js_rem_def js_trunc_def
        applyToStudent_def applyStudentDelta_def emptyStudentDelta_def demo_student_def
        demo_young_teacher_def Let_def)

end
